theory Spec2Isabelle
  imports Main "HOL-Library.Word" "HOL-Library.Monad_Syntax"
begin

unbundle bit_operations_syntax

section \<open>Integer types and result codes\<close>

text \<open>
  The driver is written for a 32-bit ARM target (MKL25Z4). \<open>BYTE\<close>, \<open>WORD\<close> and
  \<open>DWORD\<close> are the unsigned 8, 16 and 32 bit integers of \<open>integer.h\<close>; operands
  narrower than \<open>int\<close> are promoted to 32 bits before arithmetic, so a sum of two
  \<open>WORD\<close>s is computed on \<open>unat\<close> values without wrap-around.
\<close>

type_synonym BYTE = "8 word"
type_synonym WORD = "16 word"
type_synonym DWORD = "32 word"

text \<open>The result codes, in the order of the table \<open>SD_Errors\<close> of \<open>sd_io.c\<close>.\<close>

datatype SDRESULTS = SD_OK | SD_NOINIT | SD_ERROR | SD_PARERR | SD_BUSY | SD_REJECT | SD_NORESPONSE

section \<open>The transport\<close>

text \<open>
  The SPI transport, the millisecond timer and the RTOS delay are external to the driver.
  Every call the driver makes to them is recorded in a log, most recent call first. What
  the transport answers is left open: the byte shifted in by an exchange and the answer of
  the timer query are arbitrary functions of the calls made so far (the call being
  answered included), which covers every deterministic card, timer and test double.
\<close>

datatype spi_call =
    Call_Init
  | Call_RW BYTE
  | Call_CS_Low
  | Call_CS_High
  | Call_Freq_High
  | Call_Freq_Low
  | Call_Timer_On nat
  | Call_Timer_Status
  | Call_Timer_Off
  | Call_Release
  | Call_osDelay nat

type_synonym bus = "spi_call list"

record transport =
  miso :: "bus \<Rightarrow> BYTE"
  timer_running :: "bus \<Rightarrow> bool"

definition SPI_RW :: "transport \<Rightarrow> BYTE \<Rightarrow> bus \<Rightarrow> BYTE \<times> bus" where
  "SPI_RW T d L = (miso T (Call_RW d # L), Call_RW d # L)"

definition SPI_Timer_Status :: "transport \<Rightarrow> bus \<Rightarrow> bool \<times> bus" where
  "SPI_Timer_Status T L = (timer_running T (Call_Timer_Status # L), Call_Timer_Status # L)"

text \<open>\<open>n\<close> successive exchanges of the idle byte \<open>0xFF\<close>; the bytes shifted in, first one first.\<close>

fun SPI_RW_n :: "transport \<Rightarrow> nat \<Rightarrow> bus \<Rightarrow> BYTE list \<times> bus" where
  "SPI_RW_n T 0 L = ([], L)"
| "SPI_RW_n T (Suc n) L =
     (let (b, L1) = SPI_RW T 0xFF L; (bs, L2) = SPI_RW_n T n L1 in (b # bs, L2))"

section \<open>Constants of the header\<close>

text \<open>
  Modelled from the spec: the header \<open>sd_io.h\<close> is not among the sources. The command
  bytes are the fixed frames of the SD/MMC SPI command set (start bits \<open>01\<close> followed by
  the command index); an application command is marked by bit 7, the bit
  \<open>__SD_Send_Cmd\<close> tests. The card type flags are distinct single bits, and the block
  size is the 512 bytes of the code's own comments.
\<close>

definition CMD0 :: BYTE where "CMD0 = 0x40 + 0"
definition CMD1 :: BYTE where "CMD1 = 0x40 + 1"
definition ACMD41 :: BYTE where "ACMD41 = 0xC0 + 41"
definition CMD8 :: BYTE where "CMD8 = 0x40 + 8"
definition CMD9 :: BYTE where "CMD9 = 0x40 + 9"
definition CMD16 :: BYTE where "CMD16 = 0x40 + 16"
definition CMD17 :: BYTE where "CMD17 = 0x40 + 17"
definition CMD24 :: BYTE where "CMD24 = 0x40 + 24"
definition CMD55 :: BYTE where "CMD55 = 0x40 + 55"
definition CMD58 :: BYTE where "CMD58 = 0x40 + 58"
definition CMD59 :: BYTE where "CMD59 = 0x40 + 59"

definition SDCT_MMC :: BYTE where "SDCT_MMC = 0x01"
definition SDCT_SD1 :: BYTE where "SDCT_SD1 = 0x02"
definition SDCT_SD2 :: BYTE where "SDCT_SD2 = 0x04"
definition SDCT_BLOCK :: BYTE where "SDCT_BLOCK = 0x08"

definition SD_BLK_SIZE :: nat where "SD_BLK_SIZE = 512"

text \<open>
  The retry budget, the write timeout and the tick frequency of the RTOS are not fixed by
  the sources at hand; they are parameters of the model.
\<close>

record config =
  SD_INIT_TRYS :: BYTE
  SD_IO_WRITE_TIMEOUT_WAIT :: nat
  tick_freq :: DWORD

section \<open>The device descriptor\<close>

text \<open>
  \<open>SD_DEV\<close> with the fields the code uses. The width of the two debug counters is
  declared in the missing header, so it is a type parameter: \<open>++\<close> wraps at that width.
\<close>

record (overloaded) ('c::len) SD_DEV =
  mount :: bool
  cardtype :: BYTE
  last_sector :: DWORD
  debug_read :: "'c word"
  debug_write :: "'c word"

section \<open>Private functions (identical in both variants)\<close>

text \<open>\<open>for(idx=0; idx!=e; idx++) partial *= 2;\<close> on a \<open>DWORD\<close>.\<close>

definition SD_Power_Of_Two :: "BYTE \<Rightarrow> DWORD" where
  "SD_Power_Of_Two e = ((\<lambda>partial. partial * 2) ^^ unat e) 1"

text \<open>
  The response wait of \<open>__SD_Send_Cmd\<close>:
  \<open>do { res = SPI_RW(0xFF); } while((res & 0x80)&&(SPI_Timer_Status()==TRUE));\<close>
  The timer is queried only when bit 7 of the response is set. The loop need not end, so
  it is a partial function: \<open>None\<close> stands for a call that never returns.
\<close>

partial_function (option) cmd_response :: "transport \<Rightarrow> bus \<Rightarrow> (BYTE \<times> bus) option" where
  "cmd_response T L =
     (let (res, L1) = SPI_RW T 0xFF L in
      if res AND 0x80 \<noteq> 0
      then (let (run, L2) = SPI_Timer_Status T L1 in
            if run then cmd_response T L2 else Some (res, L2))
      else Some (res, L1))"

declare cmd_response.simps [code]

text \<open>The part of \<open>__SD_Send_Cmd\<close> after the application-command prefix.\<close>

definition send_frame :: "transport \<Rightarrow> BYTE \<Rightarrow> DWORD \<Rightarrow> bus \<Rightarrow> (BYTE \<times> bus) option" where
  "send_frame T cmd arg L =
     (let L = Call_CS_High # L;
          (_, L) = SPI_RW T 0xFF L;
          L = Call_CS_Low # L;
          (_, L) = SPI_RW T 0xFF L;
          (_, L) = SPI_RW T cmd L;
          (_, L) = SPI_RW T (ucast (drop_bit 24 arg)) L;
          (_, L) = SPI_RW T (ucast (drop_bit 16 arg)) L;
          (_, L) = SPI_RW T (ucast (drop_bit 8 arg)) L;
          (_, L) = SPI_RW T (ucast arg) L;
          crc = 0x01;
          crc = (if cmd = CMD0 then 0x95 else crc);
          crc = (if cmd = CMD8 then 0x87 else crc);
          (_, L) = SPI_RW T crc L;
          L = Call_Timer_On 5 # L
      in do {
        (res, L) \<leftarrow> cmd_response T L;
        Some (res, Call_Timer_Off # L) })"

partial_function (option) SD_Send_Cmd ::
  "transport \<Rightarrow> BYTE \<Rightarrow> DWORD \<Rightarrow> bus \<Rightarrow> (BYTE \<times> bus) option" where
  "SD_Send_Cmd T cmd arg L =
     (if cmd AND 0x80 \<noteq> 0
      then do {
        (res, L1) \<leftarrow> SD_Send_Cmd T CMD55 0 L;
        if res > 1 then Some (res, L1) else send_frame T (cmd AND 0x7F) arg L1 }
      else send_frame T cmd arg L)"

declare SD_Send_Cmd.simps [code]

text \<open>\<open>while (SPI_RW(0xFF) == 0xFF);\<close> of \<open>__SD_Sectors\<close>: no timer bounds this wait.\<close>

partial_function (option) csd_wait :: "transport \<Rightarrow> bus \<Rightarrow> bus option" where
  "csd_wait T L =
     (let (b, L1) = SPI_RW T 0xFF L in
      if b = 0xFF then csd_wait T L1 else Some L1)"

declare csd_wait.simps [code]

text \<open>
  The decoding of the sixteen CSD bytes. \<open>C_SIZE\<close> is a \<open>WORD\<close>, so the shifts of the
  version-2 branch keep the low 16 bits only.
\<close>

definition csd_sectors :: "BYTE \<Rightarrow> BYTE list \<Rightarrow> DWORD" where
  "csd_sectors ct csd =
     (let (C_SIZE :: WORD, C_SIZE_MULT :: BYTE, READ_BL_LEN :: BYTE) =
        (if ct AND SDCT_SD1 \<noteq> 0
         then
           (let READ_BL_LEN = (csd ! 5) AND 0x0F;
                C_SIZE = ucast ((csd ! 6) AND 0x03);
                C_SIZE = push_bit 8 C_SIZE;
                C_SIZE = C_SIZE OR ucast (csd ! 7);
                C_SIZE = push_bit 2 C_SIZE;
                C_SIZE = C_SIZE OR ucast (drop_bit 6 (csd ! 8) AND 0x03);
                C_SIZE_MULT = (csd ! 9) AND 0x03;
                C_SIZE_MULT = push_bit 1 C_SIZE_MULT;
                C_SIZE_MULT = C_SIZE_MULT OR (drop_bit 7 (csd ! 10) AND 0x01)
            in (C_SIZE, C_SIZE_MULT, READ_BL_LEN))
         else if ct AND SDCT_SD2 \<noteq> 0
         then
           (let C_SIZE = ucast ((csd ! 7) AND 0x3F);
                C_SIZE = push_bit 8 C_SIZE;
                C_SIZE = C_SIZE OR ucast ((csd ! 8) AND 0xFF);
                C_SIZE = push_bit 8 C_SIZE;
                C_SIZE = C_SIZE OR ucast ((csd ! 9) AND 0xFF);
                C_SIZE_MULT = 8
            in (C_SIZE, C_SIZE_MULT, 0))
         else (0, 0, 0));
        ss = ucast C_SIZE + 1;
        ss = ss * SD_Power_Of_Two (C_SIZE_MULT + 2);
        ss = ss * SD_Power_Of_Two READ_BL_LEN
      in ss)"

definition SD_Sectors :: "transport \<Rightarrow> 'c::len SD_DEV \<Rightarrow> bus \<Rightarrow> (DWORD \<times> bus) option" where
  "SD_Sectors T dev L =
     do {
       (r, L) \<leftarrow> SD_Send_Cmd T CMD9 0 L;
       if r = 0
       then do {
         L \<leftarrow> csd_wait T L;
         let (csd, L) = SPI_RW_n T 16 L;
         let (_, L) = SPI_RW_n T 2 L;
         let L = Call_Release # L;
         Some (csd_sectors (cardtype dev) csd, L) }
       else Some (0, L) }"

definition SD_Status :: "transport \<Rightarrow> bus \<Rightarrow> (SDRESULTS \<times> bus) option" where
  "SD_Status T L =
     do {
       (r, L) \<leftarrow> SD_Send_Cmd T CMD0 0 L;
       Some (if r \<noteq> 0 then SD_OK else SD_NORESPONSE, L) }"

section \<open>Memory and the read window\<close>

text \<open>
  Data buffers are reached through pointers, so memory is a store from addresses to bytes
  and a buffer is the address of its first byte. The conditional store of \<open>SD_Read\<close>,
  \<open>if ((byte_num >= ofs) && (byte_num < ofs+cnt)) { *(BYTE*)dat = data; ((BYTE *) dat)++; }\<close>,
  is the same text in both variants; \<open>ofs+cnt\<close> is computed in \<open>int\<close>.
\<close>

type_synonym memory = "nat \<Rightarrow> BYTE"

definition store_window :: "WORD \<Rightarrow> WORD \<Rightarrow> nat \<Rightarrow> BYTE \<Rightarrow> memory \<times> nat \<Rightarrow> memory \<times> nat" where
  "store_window ofs cnt byte_num data mp =
     (case mp of (mem, p) \<Rightarrow>
        if byte_num \<ge> unat ofs \<and> byte_num < unat ofs + unat cnt
        then (mem(p := data), p + 1)
        else (mem, p))"

section \<open>Project 2B: the blocking driver\<close>

subsection \<open>\<open>SD_Read\<close>\<close>

text \<open>
  \<open>do { tkn = SPI_RW(0xFF); } while(tkn==0xFF);\<close> The call \<open>SPI_Timer_On(100)\<close> before
  this loop is commented out in the source and the loop does not query the timer.
\<close>

partial_function (option) token_wait_2B :: "transport \<Rightarrow> bus \<Rightarrow> (BYTE \<times> bus) option" where
  "token_wait_2B T L =
     (let (tkn, L1) = SPI_RW T 0xFF L in
      if tkn = 0xFF then token_wait_2B T L1 else Some (tkn, L1))"

declare token_wait_2B.simps [code]

text \<open>
  The fused data loop \<open>do { ... } while(++byte_num < SD_BLK_SIZE + 2);\<close> The counter
  starts at 0 and the loop is left at 514, far below the range of a \<open>WORD\<close>, so it is
  counted in \<open>nat\<close>.
\<close>

function read_loop_2B ::
  "transport \<Rightarrow> WORD \<Rightarrow> WORD \<Rightarrow> nat \<Rightarrow> memory \<times> nat \<times> bus \<Rightarrow> memory \<times> nat \<times> bus" where
  "read_loop_2B T ofs cnt byte_num (mem, dat, L) =
     (let (data, L) = SPI_RW T 0xFF L;
          (mem, dat) = store_window ofs cnt byte_num data (mem, dat);
          byte_num = byte_num + 1
      in if byte_num < SD_BLK_SIZE + 2
         then read_loop_2B T ofs cnt byte_num (mem, dat, L)
         else (mem, dat, L))"
  by pat_completeness auto
termination
  by (relation "measure (\<lambda>(T, ofs, cnt, byte_num, s). (SD_BLK_SIZE + 2) - byte_num)")
     (auto simp: SPI_RW_def)

definition SD_Read_2B ::
  "transport \<Rightarrow> 'c::len SD_DEV \<Rightarrow> nat \<Rightarrow> DWORD \<Rightarrow> WORD \<Rightarrow> WORD \<Rightarrow> memory \<times> bus
     \<Rightarrow> (SDRESULTS \<times> 'c SD_DEV \<times> memory \<times> bus) option" where
  "SD_Read_2B T dev dat sector ofs cnt ml =
     (case ml of (mem, L) \<Rightarrow>
        if sector > last_sector dev \<or> cnt = 0
        then Some (SD_PARERR, dev, mem, L)
        else do {
          (r, L) \<leftarrow> SD_Send_Cmd T CMD17 sector L;
          (res, mem, L) \<leftarrow>
            (if r = 0
             then do {
               (tkn, L) \<leftarrow> token_wait_2B T L;
               let L = Call_Timer_Off # L;
               if tkn = 0xFE
               then (let (mem, _, L) = read_loop_2B T ofs cnt 0 (mem, dat, L)
                     in Some (SD_OK, mem, L))
               else Some (SD_ERROR, mem, L) }
             else Some (SD_ERROR, mem, L));
          let L = Call_Release # L;
          Some (res, dev\<lparr>debug_read := debug_read dev + 1\<rparr>, mem, L) })"

subsection \<open>\<open>SD_Write\<close>\<close>

text \<open>\<open>for(idx=0; idx!=SD_BLK_SIZE; idx++) SPI_RW(*((BYTE*)dat + idx));\<close>\<close>

definition send_block :: "transport \<Rightarrow> memory \<Rightarrow> nat \<Rightarrow> bus \<Rightarrow> bus" where
  "send_block T mem dat L = foldl (\<lambda>L idx. snd (SPI_RW T (mem (dat + idx)) L)) L [0..<SD_BLK_SIZE]"

text \<open>
  \<open>do { line = SPI_RW(0xFF); } while(line==0);\<close> The calls \<open>SPI_Timer_On\<close> and
  \<open>SPI_Timer_Off\<close> around this loop are commented out in the source.
\<close>

partial_function (option) busy_wait_2B :: "transport \<Rightarrow> bus \<Rightarrow> (BYTE \<times> bus) option" where
  "busy_wait_2B T L =
     (let (line, L1) = SPI_RW T 0xFF L in
      if line = 0 then busy_wait_2B T L1 else Some (line, L1))"

declare busy_wait_2B.simps [code]

definition SD_Write_2B ::
  "transport \<Rightarrow> 'c::len SD_DEV \<Rightarrow> nat \<Rightarrow> DWORD \<Rightarrow> memory \<times> bus
     \<Rightarrow> (SDRESULTS \<times> 'c SD_DEV \<times> bus) option" where
  "SD_Write_2B T dev dat sector ml =
     (case ml of (mem, L) \<Rightarrow>
        if sector > last_sector dev
        then Some (SD_PARERR, dev, L)
        else do {
          (r, L) \<leftarrow> SD_Send_Cmd T CMD24 sector L;
          if r = 0
          then
            (let (_, L) = SPI_RW T 0xFE L;
                 L = send_block T mem dat L;
                 (_, L) = SPI_RW T 0xFF L;
                 (_, L) = SPI_RW T 0xFF L;
                 (tok, L) = SPI_RW T 0xFF L
             in if tok AND 0x1F \<noteq> 0x05
                then Some (SD_REJECT, dev, L)
                else do {
                  (line, L) \<leftarrow> busy_wait_2B T L;
                  let dev = dev\<lparr>debug_write := debug_write dev + 1\<rparr>;
                  if line = 0 then Some (SD_BUSY, dev, L) else Some (SD_OK, dev, L) })
          else Some (SD_ERROR, dev, L) })"

subsection \<open>\<open>SD_Init\<close>\<close>

text \<open>\<open>while ((__SD_Send_Cmd(CMD0, 0) != 1)&&(SPI_Timer_Status()==TRUE)) {}\<close>\<close>

partial_function (option) idle_wait_2B :: "transport \<Rightarrow> bus \<Rightarrow> bus option" where
  "idle_wait_2B T L =
     do {
       (r, L1) \<leftarrow> SD_Send_Cmd T CMD0 0 L;
       if r \<noteq> 1
       then (let (run, L2) = SPI_Timer_Status T L1 in
             if run then idle_wait_2B T L2 else Some L2)
       else Some L1 }"

declare idle_wait_2B.simps [code]

text \<open>\<open>while ((SPI_Timer_Status()==TRUE)&&(__SD_Send_Cmd(cmd, arg))) {}\<close>\<close>

partial_function (option) ready_wait_2B :: "transport \<Rightarrow> BYTE \<Rightarrow> DWORD \<Rightarrow> bus \<Rightarrow> bus option" where
  "ready_wait_2B T cmd arg L =
     (let (run, L1) = SPI_Timer_Status T L in
      if run
      then do {
        (r, L2) \<leftarrow> SD_Send_Cmd T cmd arg L1;
        if r \<noteq> 0 then ready_wait_2B T cmd arg L2 else Some L2 }
      else Some L1)"

declare ready_wait_2B.simps [code]

text \<open>
  One pass through the body of the retry loop, from \<open>SPI_Init()\<close> to the end of the
  card-type detection; it yields the card type \<open>ct\<close> found in this pass.
\<close>

definition init_try_2B ::
  "config \<Rightarrow> transport \<Rightarrow> 'c::len SD_DEV \<Rightarrow> bus \<Rightarrow> (BYTE \<times> 'c SD_DEV \<times> bus) option" where
  "init_try_2B C T dev L =
     (let L = Call_Freq_Low # Call_CS_High # Call_Init # L;
          (_, L) = SPI_RW_n T 10 L;
          L = Call_osDelay (unat (500 * tick_freq C div 1000)) # L;
          dev = dev\<lparr>mount := False\<rparr>;
          L = Call_Timer_On 500 # L
      in do {
        L \<leftarrow> idle_wait_2B T L;
        let L = Call_Timer_Off # L;
        (r, L) \<leftarrow> SD_Send_Cmd T CMD0 0 L;
        if r = 1
        then do {
          (r, L) \<leftarrow> SD_Send_Cmd T CMD8 0x1AA L;
          if r = 1
          then
            (let (ocr, L) = SPI_RW_n T 4 L in
             if ocr ! 2 = 0x01 \<and> ocr ! 3 = 0xAA
             then do {
               L \<leftarrow> ready_wait_2B T ACMD41 (push_bit 30 1) (Call_Timer_On 1000 # L);
               let L = Call_Timer_Off # L;
               let (run, L) = SPI_Timer_Status T L;
               if run
               then do {
                 (r, L) \<leftarrow> SD_Send_Cmd T CMD58 0 L;
                 if r = 0
                 then (let (ocr, L) = SPI_RW_n T 4 L in
                       Some (if (ocr ! 0) AND 0x40 \<noteq> 0 then SDCT_SD2 OR SDCT_BLOCK else SDCT_SD2,
                             dev, L))
                 else Some (0, dev, L) }
               else Some (0, dev, L) }
             else Some (0, dev, L))
          else do {
            (r, L) \<leftarrow> SD_Send_Cmd T ACMD41 0 L;
            let (ct, cmd) = (if r \<le> 1 then (SDCT_SD1, ACMD41) else (SDCT_MMC, CMD1));
            L \<leftarrow> ready_wait_2B T cmd 0 (Call_Timer_On 250 # L);
            let L = Call_Timer_Off # L;
            let (run, L) = SPI_Timer_Status T L;
            let ct = (if \<not> run then 0 else ct);
            (r, L) \<leftarrow> SD_Send_Cmd T CMD59 0 L;
            let ct = (if r \<noteq> 0 then 0 else ct);
            (r, L) \<leftarrow> SD_Send_Cmd T CMD16 512 L;
            let ct = (if r \<noteq> 0 then 0 else ct);
            Some (ct, dev, L) } }
        else Some (0, dev, L) })"

text \<open>
  \<open>for(init_trys=0; ((init_trys!=SD_INIT_TRYS)&&(!ct)); init_trys++) { ... }\<close>
  It yields the counter and the card type with which the loop is left.
\<close>

partial_function (option) init_loop_2B ::
  "config \<Rightarrow> transport \<Rightarrow> BYTE \<Rightarrow> BYTE \<Rightarrow> 'c::len SD_DEV \<Rightarrow> bus
     \<Rightarrow> (BYTE \<times> BYTE \<times> 'c SD_DEV \<times> bus) option" where
  "init_loop_2B C T init_trys ct dev L =
     (if init_trys \<noteq> SD_INIT_TRYS C \<and> ct = 0
      then do {
        (ct, dev, L) \<leftarrow> init_try_2B C T dev L;
        init_loop_2B C T (init_trys + 1) ct dev L }
      else Some (init_trys, ct, dev, L))"

declare init_loop_2B.simps [code]

text \<open>The code after the retry loop; the same text is state \<open>S14\<close> of Project 2A.\<close>

definition init_finish ::
  "transport \<Rightarrow> BYTE \<Rightarrow> 'c::len SD_DEV \<Rightarrow> bus \<Rightarrow> (SDRESULTS \<times> 'c SD_DEV \<times> bus) option" where
  "init_finish T ct dev L =
     do {
       (dev, L) \<leftarrow>
         (if ct \<noteq> 0
          then do {
            let dev = dev\<lparr>cardtype := ct, mount := True\<rparr>;
            (ss, L) \<leftarrow> SD_Sectors T dev L;
            let dev = dev\<lparr>last_sector := ss - 1, debug_read := 0, debug_write := 0\<rparr>;
            Some (dev, Call_Freq_High # L) }
          else Some (dev, L));
       Some (if ct \<noteq> 0 then SD_OK else SD_NOINIT, dev, Call_Release # L) }"

definition SD_Init_2B ::
  "config \<Rightarrow> transport \<Rightarrow> 'c::len SD_DEV \<Rightarrow> bus \<Rightarrow> (SDRESULTS \<times> 'c SD_DEV \<times> bus) option" where
  "SD_Init_2B C T dev L =
     do {
       (init_trys, ct, dev, L) \<leftarrow> init_loop_2B C T 0 0 dev L;
       init_finish T ct dev L }"

section \<open>Project 2A: the driver as state machines\<close>

text \<open>
  Each function performs one state of its machine per call and keeps its position in
  \<open>static\<close> variables, collected here in one record per function. The flags
  \<open>in_status\<close>, \<open>read_status\<close> and \<open>idle_busy_status\<close> tell the caller whether the
  operation is still running (1) or has ended (0). The short names of the statics are
  prefixed with the function they belong to (\<open>rd_tkn\<close> for \<open>tkn\<close> of \<open>SD_Read\<close>,
  \<open>wr_idx\<close> for \<open>idx\<close> of \<open>SD_Write\<close>, \<open>init_ct\<close> for \<open>ct\<close> of \<open>SD_Init\<close>).
  A call that reaches the end of the
  function without a \<open>return\<close> statement (the \<open>default\<close> case) has no defined value
  in C and is \<open>None\<close>.
\<close>

datatype states = S0 | S1 | S2 | S3 | S4 | S5 | S6 | S7 | S8 | S9 | S10 | S11 | S12 | S13 | S14

subsection \<open>\<open>SD_Read\<close>\<close>

record read_statics =
  rn_state :: states
  rd_res :: SDRESULTS
  rd_tkn :: BYTE
  rd_data :: BYTE
  byte_num :: WORD
  rd_pointer :: nat
  read_status :: int

definition read_statics_init :: read_statics where
  "read_statics_init =
     \<lparr>rn_state = S1, rd_res = SD_ERROR, rd_tkn = 0, rd_data = 0, byte_num = 0, rd_pointer = 0,
      read_status = 0\<rparr>"

text \<open>The data exchange and conditional store shared by the states \<open>S4\<close> and \<open>S5\<close>.\<close>

definition read_byte_2A ::
  "transport \<Rightarrow> WORD \<Rightarrow> WORD \<Rightarrow> read_statics \<times> memory \<times> bus \<Rightarrow> read_statics \<times> memory \<times> bus" where
  "read_byte_2A T ofs cnt sml =
     (case sml of (st, mem, L) \<Rightarrow>
        let (d, L) = SPI_RW T 0xFF L;
            (mem, p) = store_window ofs cnt (unat (byte_num st)) d (mem, rd_pointer st)
        in (st\<lparr>rd_data := d, rd_pointer := p\<rparr>, mem, L))"

definition SD_Read_2A ::
  "transport \<Rightarrow> 'c::len SD_DEV \<Rightarrow> nat \<Rightarrow> DWORD \<Rightarrow> WORD \<Rightarrow> WORD \<Rightarrow> read_statics \<times> memory \<times> bus
     \<Rightarrow> (SDRESULTS \<times> 'c SD_DEV \<times> read_statics \<times> memory \<times> bus) option" where
  "SD_Read_2A T dev dat sector ofs cnt sml =
     (case sml of (st, mem, L) \<Rightarrow>
       (case rn_state st of
          S1 \<Rightarrow>
            (let st = st\<lparr>rd_res := SD_ERROR, rd_pointer := dat\<rparr> in
             if sector > last_sector dev \<or> cnt = 0
             then Some (SD_PARERR, dev, st\<lparr>read_status := 0\<rparr>, mem, L)
             else Some (SD_OK, dev, st\<lparr>read_status := 1, rn_state := S2\<rparr>, mem, L))
        | S2 \<Rightarrow>
            do {
              (r, L) \<leftarrow> SD_Send_Cmd T CMD17 sector L;
              if r = 0
              then (let L = Call_Timer_On 100 # L;
                        (t, L) = SPI_RW T 0xFF L
                    in Some (SD_OK, dev, st\<lparr>rd_tkn := t, read_status := 1, rn_state := S3\<rparr>, mem, L))
              else Some (SD_OK, dev, st\<lparr>rn_state := S6, read_status := 1\<rparr>, mem, L) }
        | S3 \<Rightarrow>
            (let (poll, L) =
               (if rd_tkn st = 0xFF then SPI_Timer_Status T L else (False, L))
             in if poll
                then (let (t, L) = SPI_RW T 0xFF L
                      in Some (SD_OK, dev, st\<lparr>rd_tkn := t, read_status := 1, rn_state := S3\<rparr>, mem, L))
                else Some (SD_OK, dev, st\<lparr>read_status := 1, rn_state := S4\<rparr>, mem,
                           Call_Timer_Off # L))
        | S4 \<Rightarrow>
            (if rd_tkn st = 0xFE
             then (let (st, mem, L) = read_byte_2A T ofs cnt (st\<lparr>byte_num := 0\<rparr>, mem, L)
                   in Some (SD_OK, dev, st\<lparr>read_status := 1, rn_state := S5\<rparr>, mem, L))
             else Some (rd_res st, dev, st\<lparr>read_status := 1, rn_state := S6\<rparr>, mem, L))
        | S5 \<Rightarrow>
            (let st = st\<lparr>byte_num := byte_num st + 1\<rparr> in
             if unat (byte_num st) < SD_BLK_SIZE + 2
             then (let (st, mem, L) = read_byte_2A T ofs cnt (st, mem, L)
                   in Some (SD_OK, dev, st\<lparr>read_status := 1, rn_state := S5\<rparr>, mem, L))
             else Some (SD_OK, dev, st\<lparr>rd_res := SD_OK, read_status := 1, rn_state := S6\<rparr>,
                        mem, L))
        | S6 \<Rightarrow>
            Some (rd_res st, dev\<lparr>debug_read := debug_read dev + 1\<rparr>,
                  st\<lparr>read_status := 0, rn_state := S1\<rparr>, mem, Call_Release # L)
        | _ \<Rightarrow> None))"

subsection \<open>\<open>SD_Write\<close>\<close>

record write_statics =
  n_state :: states
  wr_idx :: WORD
  wr_line :: BYTE
  idle_busy_status :: int

definition write_statics_init :: write_statics where
  "write_statics_init = \<lparr>n_state = S1, wr_idx = 0, wr_line = 0, idle_busy_status = 0\<rparr>"

definition SD_Write_2A ::
  "config \<Rightarrow> transport \<Rightarrow> 'c::len SD_DEV \<Rightarrow> nat \<Rightarrow> DWORD \<Rightarrow> write_statics \<times> memory \<times> bus
     \<Rightarrow> (SDRESULTS \<times> 'c SD_DEV \<times> write_statics \<times> bus) option" where
  "SD_Write_2A C T dev dat sector sml =
     (case sml of (st, mem, L) \<Rightarrow>
       (case n_state st of
          S1 \<Rightarrow>
            (if sector > last_sector dev
             then Some (SD_PARERR, dev, st\<lparr>idle_busy_status := 0\<rparr>, L)
             else Some (SD_OK, dev, st\<lparr>idle_busy_status := 1, n_state := S2\<rparr>, L))
        | S2 \<Rightarrow>
            do {
              (r, L) \<leftarrow> SD_Send_Cmd T CMD24 sector L;
              if r = 0
              then (let (_, L) = SPI_RW T 0xFE L
                    in Some (SD_OK, dev, st\<lparr>idle_busy_status := 1, wr_idx := 0, n_state := S3\<rparr>, L))
              else Some (SD_ERROR, dev, st\<lparr>idle_busy_status := 0\<rparr>, L) }
        | S3 \<Rightarrow>
            (if unat (wr_idx st) \<noteq> SD_BLK_SIZE
             then (let (_, L) = SPI_RW T (mem (dat + unat (wr_idx st))) L
                   in Some (SD_OK, dev,
                            st\<lparr>wr_idx := wr_idx st + 1, idle_busy_status := 1, n_state := S3\<rparr>, L))
             else (let (_, L) = SPI_RW T 0xFF L;
                       (_, L) = SPI_RW T 0xFF L;
                       (tok, L) = SPI_RW T 0xFF L
                   in if tok AND 0x1F \<noteq> 0x05
                      then Some (SD_REJECT, dev, st\<lparr>idle_busy_status := 0, n_state := S1\<rparr>, L)
                      else Some (SD_OK, dev, st\<lparr>idle_busy_status := 1, n_state := S4\<rparr>, L)))
        | S4 \<Rightarrow>
            (let L = Call_Timer_On (SD_IO_WRITE_TIMEOUT_WAIT C) # L;
                 (b, L) = SPI_RW T 0xFF L
             in Some (SD_OK, dev, st\<lparr>wr_line := b, idle_busy_status := 1, n_state := S5\<rparr>, L))
        | S5 \<Rightarrow>
            (let (poll, L) =
               (if wr_line st = 0 then SPI_Timer_Status T L else (False, L))
             in if poll
                then (let (b, L) = SPI_RW T 0xFF L
                      in Some (SD_OK, dev, st\<lparr>wr_line := b, idle_busy_status := 1, n_state := S5\<rparr>, L))
                else Some (SD_OK, dev\<lparr>debug_write := debug_write dev + 1\<rparr>,
                           st\<lparr>idle_busy_status := 1, n_state := S6\<rparr>, Call_Timer_Off # L))
        | S6 \<Rightarrow>
            (if wr_line st = 0
             then Some (SD_BUSY, dev, st\<lparr>idle_busy_status := 0, n_state := S1\<rparr>, L)
             else Some (SD_OK, dev, st\<lparr>idle_busy_status := 0, n_state := S1\<rparr>, L))
        | _ \<Rightarrow> None))"

subsection \<open>\<open>SD_Init\<close>\<close>

record init_statics =
  init_n :: BYTE
  init_k :: BYTE
  init_cmd :: BYTE
  init_ct :: BYTE
  init_ocr :: "BYTE list"
  init_trys :: BYTE
  in_states :: states
  in_status :: int

definition init_statics_init :: init_statics where
  "init_statics_init =
     \<lparr>init_n = 0, init_k = 0, init_cmd = 0, init_ct = 0, init_ocr = [0, 0, 0, 0], init_trys = 0, in_states = S1,
      in_status = 0\<rparr>"

text \<open>Every state but \<open>S14\<close> ends with \<open>in_states=...; in_status=1; return(SD_OK);\<close>\<close>

definition goto_in ::
  "states \<Rightarrow> 'c::len SD_DEV \<Rightarrow> init_statics \<Rightarrow> bus
     \<Rightarrow> (SDRESULTS \<times> 'c SD_DEV \<times> init_statics \<times> bus) option" where
  "goto_in s dev st L = Some (SD_OK, dev, st\<lparr>in_states := s, in_status := 1\<rparr>, L)"

definition SD_Init_2A ::
  "config \<Rightarrow> transport \<Rightarrow> 'c::len SD_DEV \<Rightarrow> init_statics \<times> bus
     \<Rightarrow> (SDRESULTS \<times> 'c SD_DEV \<times> init_statics \<times> bus) option" where
  "SD_Init_2A C T dev sl =
     (case sl of (st, L) \<Rightarrow>
       (case in_states st of
          S0 \<Rightarrow> goto_in S1 dev (st\<lparr>init_ct := 0, init_trys := 0\<rparr>) L
        | S1 \<Rightarrow>
            (if init_trys st \<noteq> SD_INIT_TRYS C \<and> init_ct st = 0
             then (let L = Call_Freq_Low # Call_CS_High # Call_Init # L;
                       st = st\<lparr>init_trys := init_trys st + 1\<rparr>;
                       (_, L) = SPI_RW_n T 10 L
                   in goto_in S2 dev st L)
             else goto_in S14 dev (st\<lparr>init_trys := 0\<rparr>) L)
        | S2 \<Rightarrow> goto_in S3 dev st (Call_Timer_On 500 # L)
        | S3 \<Rightarrow>
            (let (run, L) = SPI_Timer_Status T L in
             if run then goto_in S3 dev st L
             else goto_in S4 (dev\<lparr>mount := False\<rparr>) st (Call_Timer_On 500 # Call_Timer_Off # L))
        | S4 \<Rightarrow>
            do {
              (r, L) \<leftarrow> SD_Send_Cmd T CMD0 0 L;
              let (again, L) = (if r \<noteq> 1 then SPI_Timer_Status T L else (False, L));
              if again then goto_in S4 dev st L
              else goto_in S5 dev st (Call_Timer_Off # L) }
        | S5 \<Rightarrow>
            do {
              (r, L) \<leftarrow> SD_Send_Cmd T CMD0 0 L;
              if r = 1 then goto_in S6 dev st L else goto_in S1 dev st L }
        | S6 \<Rightarrow>
            do {
              (r, L) \<leftarrow> SD_Send_Cmd T CMD8 0x1AA L;
              if r = 1 then goto_in S7 dev (st\<lparr>init_n := 0\<rparr>) L else goto_in S11 dev st L }
        | S7 \<Rightarrow>
            (if init_n st < 4
             then (let (b, L) = SPI_RW T 0xFF L
                   in goto_in S7 dev (st\<lparr>init_ocr := (init_ocr st)[unat (init_n st) := b], init_n := init_n st + 1\<rparr>) L)
             else if init_ocr st ! 2 = 0x01 \<and> init_ocr st ! 3 = 0xAA
                  then goto_in S8 dev st (Call_Timer_On 1000 # L)
                  else goto_in S1 dev st L)
        | S8 \<Rightarrow>
            (let (run, L) = SPI_Timer_Status T L in
             do {
               (again, L) \<leftarrow>
                 (if run
                  then do { (r, L) \<leftarrow> SD_Send_Cmd T ACMD41 (push_bit 30 1) L; Some (r \<noteq> 0, L) }
                  else Some (False, L));
               if again then goto_in S8 dev st L
               else goto_in S9 dev st (Call_Timer_Off # L) })
        | S9 \<Rightarrow>
            (let (run, L) = SPI_Timer_Status T L in
             do {
               (ok, L) \<leftarrow>
                 (if run
                  then do { (r, L) \<leftarrow> SD_Send_Cmd T CMD58 0 L; Some (r = 0, L) }
                  else Some (False, L));
               if ok then goto_in S10 dev (st\<lparr>init_k := 0\<rparr>) L
               else goto_in S1 dev st L })
        | S10 \<Rightarrow>
            (if init_k st < 4
             then (let (b, L) = SPI_RW T 0xFF L
                   in goto_in S10 dev (st\<lparr>init_ocr := (init_ocr st)[unat (init_k st) := b], init_k := init_k st + 1\<rparr>) L)
             else goto_in S1 dev
                    (st\<lparr>init_ct := (if (init_ocr st ! 0) AND 0x40 \<noteq> 0 then SDCT_SD2 OR SDCT_BLOCK
                                else SDCT_SD2)\<rparr>) L)
        | S11 \<Rightarrow>
            do {
              (r, L) \<leftarrow> SD_Send_Cmd T ACMD41 0 L;
              let st = (if r \<le> 1 then st\<lparr>init_ct := SDCT_SD1, init_cmd := ACMD41\<rparr>
                        else st\<lparr>init_ct := SDCT_MMC, init_cmd := CMD1\<rparr>);
              goto_in S12 dev st (Call_Timer_On 250 # L) }
        | S12 \<Rightarrow>
            (let (run, L) = SPI_Timer_Status T L in
             do {
               (again, L) \<leftarrow>
                 (if run
                  then do { (r, L) \<leftarrow> SD_Send_Cmd T (init_cmd st) 0 L; Some (r \<noteq> 0, L) }
                  else Some (False, L));
               if again then goto_in S12 dev st L
               else goto_in S13 dev st (Call_Timer_Off # L) })
        | S13 \<Rightarrow>
            (let (run, L) = SPI_Timer_Status T L;
                 st = (if \<not> run then st\<lparr>init_ct := 0\<rparr> else st)
             in do {
               (r, L) \<leftarrow> SD_Send_Cmd T CMD59 0 L;
               let st = (if r \<noteq> 0 then st\<lparr>init_ct := 0\<rparr> else st);
               (r, L) \<leftarrow> SD_Send_Cmd T CMD16 512 L;
               let st = (if r \<noteq> 0 then st\<lparr>init_ct := 0\<rparr> else st);
               goto_in S1 dev st L })
        | S14 \<Rightarrow>
            do {
              (res, dev, L) \<leftarrow> init_finish T (init_ct st) dev L;
              Some (res, dev, st\<lparr>in_states := S1, in_status := 0\<rparr>, L) }))"

section \<open>The transaction server\<close>

text \<open>
  Modelled from the spec: the header \<open>sd_server.h\<close> is not among the sources. The
  request codes are numbered in the order of the table \<open>Req_to_State\<close> (none, init,
  read, write), the fields of the descriptor are those of the initialiser of
  \<open>g_trans\<close>, and \<open>Device\<close> and \<open>Data\<close> are pointers: an index into the store of
  device descriptors and an address of the memory.
\<close>

datatype SDS_STATE_T = S_IDLE | S_INIT | S_READ | S_WRITE | S_ERROR

datatype SDS_STATUS = STAT_IDLE | STAT_BUSY

definition REQ_NONE :: nat where "REQ_NONE = 0"
definition REQ_INIT :: nat where "REQ_INIT = 1"
definition REQ_READ :: nat where "REQ_READ = 2"
definition REQ_WRITE :: nat where "REQ_WRITE = 3"

record SDS_TD_T =
  Request :: nat
  Device :: nat
  Data :: nat
  Sector :: DWORD
  Status :: SDS_STATUS
  ErrorCode :: SDRESULTS

definition Req_to_State :: "SDS_STATE_T list" where
  "Req_to_State = [S_IDLE, S_INIT, S_READ, S_WRITE]"

definition Update_Trans :: "SDS_TD_T \<Rightarrow> SDRESULTS \<Rightarrow> SDS_TD_T" where
  "Update_Trans t r = t\<lparr>ErrorCode := r, Status := STAT_IDLE, Request := REQ_NONE\<rparr>"

text \<open>
  Everything \<open>Task_SD_Server\<close> reads or writes: the shared descriptor \<open>g_trans\<close>, its
  own statics (\<open>next_state\<close>, \<open>cur_trans\<close>, \<open>res\<close>), the statics of the three driver
  functions, the device descriptors, the memory and the transport log.
\<close>

record (overloaded) ('c::len) server =
  g_trans :: SDS_TD_T
  next_state :: SDS_STATE_T
  cur_trans :: SDS_TD_T
  res_static :: SDRESULTS
  init_st :: init_statics
  read_st :: read_statics
  write_st :: write_statics
  devs :: "nat \<Rightarrow> 'c SD_DEV"
  mem_of :: memory
  spi :: bus

text \<open>The common tail of the three operation states.\<close>

definition finish_step :: "SDS_STATE_T \<Rightarrow> int \<Rightarrow> 'c::len server \<Rightarrow> 'c server" where
  "finish_step s running w =
     (let w = w\<lparr>next_state := (if running = 1 then s else S_IDLE)\<rparr> in
      if next_state w = S_IDLE
      then w\<lparr>g_trans := Update_Trans (g_trans w) (res_static w)\<rparr>
      else w)"

definition Task_SD_Server :: "config \<Rightarrow> transport \<Rightarrow> 'c::len server \<Rightarrow> 'c server option" where
  "Task_SD_Server C T w =
     (case next_state w of
        S_IDLE \<Rightarrow>
          Some (if Request (g_trans w) \<noteq> REQ_NONE
                then (let w = w\<lparr>cur_trans := g_trans w\<rparr> in
                      if Request (cur_trans w) \<le> REQ_WRITE
                      then w\<lparr>next_state := Req_to_State ! Request (cur_trans w),
                             g_trans := (g_trans w)\<lparr>Status := STAT_BUSY\<rparr>\<rparr>
                      else w\<lparr>g_trans := (g_trans w)\<lparr>Status := STAT_IDLE, Request := REQ_NONE,
                                                  ErrorCode := SD_PARERR\<rparr>,
                             next_state := S_IDLE\<rparr>)
                else w)
      | S_INIT \<Rightarrow>
          do {
            let d = Device (cur_trans w);
            (r, dev, st, L) \<leftarrow> SD_Init_2A C T (devs w d) (init_st w, spi w);
            let w = w\<lparr>res_static := r, devs := (devs w)(d := dev), init_st := st, spi := L\<rparr>;
            Some (finish_step S_INIT (in_status st) w) }
      | S_READ \<Rightarrow>
          do {
            let d = Device (cur_trans w);
            (r, dev, st, m, L) \<leftarrow>
              SD_Read_2A T (devs w d) (Data (cur_trans w)) (Sector (cur_trans w)) 0 512
                (read_st w, mem_of w, spi w);
            let w = w\<lparr>res_static := r, devs := (devs w)(d := dev), read_st := st, mem_of := m,
                      spi := L\<rparr>;
            Some (finish_step S_READ (read_status st) w) }
      | S_WRITE \<Rightarrow>
          do {
            let d = Device (cur_trans w);
            (r, dev, st, L) \<leftarrow>
              SD_Write_2A C T (devs w d) (Data (cur_trans w)) (Sector (cur_trans w))
                (write_st w, mem_of w, spi w);
            let w = w\<lparr>res_static := r, devs := (devs w)(d := dev), write_st := st, spi := L\<rparr>;
            Some (finish_step S_WRITE (idle_busy_status st) w) }
      | S_ERROR \<Rightarrow> None)"

section \<open>A whole operation of a state machine\<close>

text \<open>
  The caller of a state machine repeats the call with the same arguments for as long as
  the status flag reads 1; this is what \<open>Task_SD_Server\<close> does from one activation to
  the next. The loops below are that repetition, from a given state of the statics to the
  call that ends the operation. Nothing bounds the number of calls, so they are partial.
\<close>

partial_function (option) SD_Read_run_2A ::
  "transport \<Rightarrow> 'c::len SD_DEV \<Rightarrow> nat \<Rightarrow> DWORD \<Rightarrow> WORD \<Rightarrow> WORD \<Rightarrow> read_statics \<times> memory \<times> bus
     \<Rightarrow> (SDRESULTS \<times> 'c SD_DEV \<times> read_statics \<times> memory \<times> bus) option" where
  "SD_Read_run_2A T dev dat sector ofs cnt sml =
     do {
       (r, dev, st, mem, L) \<leftarrow> SD_Read_2A T dev dat sector ofs cnt sml;
       if read_status st = 1
       then SD_Read_run_2A T dev dat sector ofs cnt (st, mem, L)
       else Some (r, dev, st, mem, L) }"

declare SD_Read_run_2A.simps [code]

partial_function (option) SD_Write_run_2A ::
  "config \<Rightarrow> transport \<Rightarrow> 'c::len SD_DEV \<Rightarrow> nat \<Rightarrow> DWORD \<Rightarrow> memory \<Rightarrow> write_statics \<times> bus
     \<Rightarrow> (SDRESULTS \<times> 'c SD_DEV \<times> write_statics \<times> bus) option" where
  "SD_Write_run_2A C T dev dat sector mem sl =
     do {
       (r, dev, st, L) \<leftarrow> SD_Write_2A C T dev dat sector (fst sl, mem, snd sl);
       if idle_busy_status st = 1
       then SD_Write_run_2A C T dev dat sector mem (st, L)
       else Some (r, dev, st, L) }"

declare SD_Write_run_2A.simps [code]

partial_function (option) SD_Init_run_2A ::
  "config \<Rightarrow> transport \<Rightarrow> 'c::len SD_DEV \<Rightarrow> init_statics \<times> bus
     \<Rightarrow> (SDRESULTS \<times> 'c SD_DEV \<times> init_statics \<times> bus) option" where
  "SD_Init_run_2A C T dev sl =
     do {
       (r, dev, st, L) \<leftarrow> SD_Init_2A C T dev sl;
       if in_status st = 1
       then SD_Init_run_2A C T dev (st, L)
       else Some (r, dev, st, L) }"

declare SD_Init_run_2A.simps [code]

text \<open>\<open>k\<close> activations of the server, one after the other.\<close>

fun Task_SD_Server_n :: "config \<Rightarrow> transport \<Rightarrow> nat \<Rightarrow> 'c::len server \<Rightarrow> 'c server option" where
  "Task_SD_Server_n C T 0 w = Some w"
| "Task_SD_Server_n C T (Suc j) w = Task_SD_Server C T w \<bind> Task_SD_Server_n C T j"

section \<open>Reference formulas and test doubles\<close>

text \<open>
  The capacity in 512-byte sectors as the CSD register specification gives it, written
  from the words of the specification and independent of the code.
\<close>

definition csd_reference_v1 :: "nat \<Rightarrow> nat \<Rightarrow> nat \<Rightarrow> nat" where
  "csd_reference_v1 C_SIZE C_SIZE_MULT READ_BL_LEN =
     ((C_SIZE + 1) * 2 ^ (C_SIZE_MULT + 2) * 2 ^ READ_BL_LEN) div 512"

definition csd_reference_v2 :: "nat \<Rightarrow> nat" where
  "csd_reference_v2 C_SIZE = (C_SIZE + 1) * 1024"

text \<open>
  A bus without a card: every exchange reads \<open>0xFF\<close>; the timer is seen running for the
  first calls and expired afterwards.
\<close>

definition dead_bus :: transport where
  "dead_bus = \<lparr>miso = (\<lambda>L. 0xFF), timer_running = (\<lambda>L. length L < 20)\<rparr>"

text \<open>
  A scripted card: the exchange that is the \<open>i\<close>-th call on the transport reads the byte
  listed for \<open>i\<close>, any other exchange reads \<open>0xFF\<close>; the timer has always expired.
\<close>

definition script :: "(nat \<times> BYTE) list \<Rightarrow> transport" where
  "script bs =
     \<lparr>miso = (\<lambda>L. case map_of bs (length L) of Some b \<Rightarrow> b | None \<Rightarrow> 0xFF),
      timer_running = (\<lambda>L. False)\<rparr>"

text \<open>
  A version-1 card answering \<open>CMD9\<close> with a CSD in which \<open>READ_BL_LEN = 9\<close>,
  \<open>C_SIZE = 3843\<close> and \<open>C_SIZE_MULT = 7\<close>.
\<close>

definition card_v1 :: transport where
  "card_v1 = script [(12, 0x00), (14, 0xFE), (20, 0x59), (21, 0x03), (22, 0xC0),
                     (23, 0xC0), (24, 0x03), (25, 0x80)]"

definition dev_v1 :: "16 SD_DEV" where
  "dev_v1 = \<lparr>mount = True, cardtype = SDCT_SD1, last_sector = 0, debug_read = 0,
             debug_write = 0\<rparr>"

text \<open>
  The value the driver function returns to the server in the activation that starts
  from \<open>w\<close>.
\<close>

definition op_result :: "config \<Rightarrow> transport \<Rightarrow> 'c::len server \<Rightarrow> SDRESULTS option" where
  "op_result C T w =
     (let d = Device (cur_trans w) in
      case next_state w of
        S_INIT \<Rightarrow> map_option fst (SD_Init_2A C T (devs w d) (init_st w, spi w))
      | S_READ \<Rightarrow>
          map_option fst
            (SD_Read_2A T (devs w d) (Data (cur_trans w)) (Sector (cur_trans w)) 0 512
               (read_st w, mem_of w, spi w))
      | S_WRITE \<Rightarrow>
          map_option fst
            (SD_Write_2A C T (devs w d) (Data (cur_trans w)) (Sector (cur_trans w))
               (write_st w, mem_of w, spi w))
      | _ \<Rightarrow> None)"

text \<open>
  The server before its first activation, with one device of a single sector; a
  configuration; and the shared descriptor carrying a write request for sector 0.
\<close>

definition server_init :: "16 server" where
  "server_init =
     \<lparr>g_trans = \<lparr>Request = REQ_NONE, Device = 0, Data = 0, Sector = 0, Status = STAT_IDLE,
                  ErrorCode = SD_OK\<rparr>,
      next_state = S_IDLE,
      cur_trans = \<lparr>Request = 0, Device = 0, Data = 0, Sector = 0, Status = STAT_IDLE,
                    ErrorCode = SD_OK\<rparr>,
      res_static = SD_OK,
      init_st = init_statics_init,
      read_st = read_statics_init,
      write_st = write_statics_init,
      devs = (\<lambda>d. \<lparr>mount = True, cardtype = SDCT_SD2, last_sector = 0, debug_read = 0, debug_write = 0\<rparr>),
      mem_of = (\<lambda>a. 0),
      spi = []\<rparr>"

definition write_request :: "16 server" where
  "write_request = server_init\<lparr>g_trans := (g_trans server_init)\<lparr>Request := REQ_WRITE\<rparr>\<rparr>"

definition cfg :: config where
  "cfg = \<lparr>SD_INIT_TRYS = 3, SD_IO_WRITE_TIMEOUT_WAIT = 250, tick_freq = 1000\<rparr>"

text \<open>A device of a single sector.\<close>

definition dev_one :: "16 SD_DEV" where
  "dev_one = \<lparr>mount = True, cardtype = SDCT_SD2, last_sector = 0, debug_read = 0,
              debug_write = 0\<rparr>"

text \<open>
  A card that accepts the command it is sent first (response \<open>0x00\<close>) and is silent
  afterwards.
\<close>

definition accept_card :: transport where
  "accept_card = script [(12, 0x00)]"

text \<open>
  A card that accepts the write command and the data block (data-response token
  \<open>0x05\<close>) and then holds the line busy for ever.
\<close>

definition busy_card :: transport where
  "busy_card =
     \<lparr>miso = (\<lambda>L. if length L = 12 then 0x00 else if length L = 529 then 0x05
                   else if length L > 529 then 0x00 else 0xFF),
      timer_running = (\<lambda>L. False)\<rparr>"

text \<open>
  A card scripted by position, as \<open>script\<close>, whose timer is seen running at the listed
  positions of the log; and two block-addressed version-2 cards of 15160 * 1024 sectors
  that answer the negotiation of the blocking variant and of the state machine.
\<close>

definition card :: "(nat \<times> BYTE) list \<Rightarrow> nat list \<Rightarrow> transport" where
  "card bs ts =
     \<lparr>miso = (\<lambda>L. case map_of bs (length L) of Some b \<Rightarrow> b | None \<Rightarrow> 0xFF),
      timer_running = (\<lambda>L. length L \<in> set ts)\<rparr>"

definition sdhc_2B :: transport where
  "sdhc_2B = card [(27, 0x01), (41, 0x01), (54, 0x01), (58, 0x01), (59, 0xAA), (73, 0x01),
                   (86, 0x00), (101, 0x00), (103, 0xC0), (118, 0x00), (120, 0xFE),
                   (128, 0x00), (129, 0x3B), (130, 0x37)] [61, 89]"

definition sdhc_2A :: transport where
  "sdhc_2A = card [(29, 0x01), (43, 0x01), (56, 0x01), (60, 0x01), (61, 0xAA), (75, 0x01),
                   (88, 0x00), (103, 0x00), (105, 0xC0), (120, 0x00), (122, 0xFE),
                   (130, 0x00), (131, 0x3B), (132, 0x37)] [63, 91]"

text \<open>A device descriptor before initialisation, with counters that are not zero.\<close>

definition dev_blank :: "16 SD_DEV" where
  "dev_blank = \<lparr>mount = True, cardtype = 0, last_sector = 0, debug_read = 5, debug_write = 7\<rparr>"

text \<open>
  Two ways of naming what the transport does during a read. \<open>rx T L i\<close> is the byte with
  index \<open>i\<close> (from 0) shifted in by a run of idle-byte exchanges that starts after the
  log \<open>L\<close>; \<open>polls j L\<close> is the log after \<open>j\<close> further rounds of the token wait of the
  state machine, each a timer query followed by an exchange.
\<close>

definition rx :: "transport \<Rightarrow> bus \<Rightarrow> nat \<Rightarrow> BYTE" where
  "rx T L i = miso T (replicate (Suc i) (Call_RW 0xFF) @ L)"

definition polls :: "nat \<Rightarrow> bus \<Rightarrow> bus" where
  "polls j L = ((\<lambda>L. Call_RW 0xFF # Call_Timer_Status # L) ^^ j) L"

text \<open>
  Two cards for a block read, one for each variant of \<open>SD_Read\<close>: they accept
  \<open>CMD17\<close>, send the data-start token \<open>0xFE\<close> on the second exchange of the token
  wait, and then send a block whose byte with index \<open>i\<close> is \<open>i mod 256\<close>.
\<close>

definition read_card_2B :: transport where
  "read_card_2B =
     \<lparr>miso = (\<lambda>L. if length L = 12 then 0x00 else if length L = 15 then 0xFE
                   else if length L \<ge> 17 then of_nat (length L - 17) else 0xFF),
      timer_running = (\<lambda>L. False)\<rparr>"

definition read_card_2A :: transport where
  "read_card_2A =
     \<lparr>miso = (\<lambda>L. if length L = 12 then 0x00 else if length L = 17 then 0xFE
                   else if length L \<ge> 19 then of_nat (length L - 19) else 0xFF),
      timer_running = (\<lambda>L. length L = 16)\<rparr>"

text \<open>
  Two ways of naming the log during the response wait of \<open>CMD0\<close>. \<open>CMD0_frame L\<close> is the
  log once the frame of \<open>CMD0\<close> with argument 0 has been sent after \<open>L\<close> and the timer
  started; \<open>resp_polls j L\<close> is the log after \<open>j\<close> further rounds of the response wait,
  each an exchange followed by a timer query.
\<close>

definition CMD0_frame :: "bus \<Rightarrow> bus" where
  "CMD0_frame L =
     Call_Timer_On 5 # Call_RW 0x95 # Call_RW 0 # Call_RW 0 # Call_RW 0 # Call_RW 0 #
     Call_RW 0x40 # Call_RW 0xFF # Call_CS_Low # Call_RW 0xFF # Call_CS_High # L"

definition resp_polls :: "nat \<Rightarrow> bus \<Rightarrow> bus" where
  "resp_polls j L = ((\<lambda>L. Call_Timer_Status # Call_RW 0xFF # L) ^^ j) L"

text \<open>A card in the idle state: it answers the first command with \<open>0x01\<close>.\<close>

definition idle_card :: transport where
  "idle_card = script [(12, 0x01)]"

text \<open>The shared descriptor after a request to write sector \<open>s\<close> has been put into it.\<close>

definition request_write :: "DWORD \<Rightarrow> 'c::len server \<Rightarrow> 'c server" where
  "request_write s w = w\<lparr>g_trans := (g_trans w)\<lparr>Request := REQ_WRITE, Sector := s\<rparr>\<rparr>"

text \<open>The shared descriptor after a request to initialise has been put into it.\<close>

definition request_init :: "'c::len server \<Rightarrow> 'c server" where
  "request_init w = w\<lparr>g_trans := (g_trans w)\<lparr>Request := REQ_INIT\<rparr>\<rparr>"

text \<open>
  The status flag the driver function leaves behind in the activation that starts from
  \<open>w\<close>: the flag \<open>Task_SD_Server\<close> tests to decide whether the operation goes on.
\<close>

definition op_status :: "config \<Rightarrow> transport \<Rightarrow> 'c::len server \<Rightarrow> int option" where
  "op_status C T w =
     (let d = Device (cur_trans w) in
      case next_state w of
        S_INIT \<Rightarrow>
          map_option (\<lambda>(r, dev, st, L). in_status st)
            (SD_Init_2A C T (devs w d) (init_st w, spi w))
      | S_READ \<Rightarrow>
          map_option (\<lambda>(r, dev, st, m, L). read_status st)
            (SD_Read_2A T (devs w d) (Data (cur_trans w)) (Sector (cur_trans w)) 0 512
               (read_st w, mem_of w, spi w))
      | S_WRITE \<Rightarrow>
          map_option (\<lambda>(r, dev, st, L). idle_busy_status st)
            (SD_Write_2A C T (devs w d) (Data (cur_trans w)) (Sector (cur_trans w))
               (write_st w, mem_of w, spi w))
      | _ \<Rightarrow> None)"

text \<open>
  A card that accepts the write command and the data block and is not busy afterwards,
  and the shared descriptor carrying an initialisation request and a read request.
\<close>

definition write_card :: transport where
  "write_card =
     \<lparr>miso = (\<lambda>L. if length L = 12 then 0x00 else if length L = 529 then 0x05 else 0xFF),
      timer_running = (\<lambda>L. False)\<rparr>"

definition init_request :: "16 server" where
  "init_request = server_init\<lparr>g_trans := (g_trans server_init)\<lparr>Request := REQ_INIT\<rparr>\<rparr>"

definition read_request :: "16 server" where
  "read_request = server_init\<lparr>g_trans := (g_trans server_init)\<lparr>Request := REQ_READ\<rparr>\<rparr>"

section \<open>Auxiliary lemmas\<close>

lemma SD_Send_Cmd_plain:
  "cmd AND 0x80 = 0 \<Longrightarrow> SD_Send_Cmd T cmd arg L = send_frame T cmd arg L"
  by (subst SD_Send_Cmd.simps) simp

lemma CMD55_plain: "CMD55 AND 0x80 = 0"
  by (simp add: CMD55_def)

lemma SD_Send_Cmd_app:
  "cmd AND 0x80 \<noteq> 0 \<Longrightarrow>
   SD_Send_Cmd T cmd arg L =
     send_frame T CMD55 0 L \<bind>
       (\<lambda>(r, L1). if r > 1 then Some (r, L1) else send_frame T (cmd AND 0x7F) arg L1)"
  by (subst SD_Send_Cmd.simps) (simp add: SD_Send_Cmd_plain [OF CMD55_plain])

lemma cmd_response_silent:
  "cmd_response T L = Some y \<Longrightarrow> (\<forall>X. miso T X = 0xFF) \<longrightarrow> fst y = 0xFF"
  by (erule cmd_response.raw_induct [rotated])
     (auto simp: SPI_RW_def SPI_Timer_Status_def split: if_splits)

lemma send_frame_silent:
  "send_frame T c a L = Some (b, L') \<Longrightarrow> \<forall>X. miso T X = 0xFF \<Longrightarrow> b = 0xFF"
  by (auto simp: send_frame_def Let_def SPI_RW_def split: bind_splits dest!: cmd_response_silent)

section \<open>The capacity decoded by \<open>__SD_Sectors\<close>\<close>

text \<open>
  C7. The claim is that \<open>__SD_Sectors\<close> yields the capacity in 512-byte sectors, for a
  version-1 card \<open>((C_SIZE+1) * 2^(C_SIZE_MULT+2) * 2^READ_BL_LEN) / 512\<close>. The code
  does not divide by the block size: on the version-1 card \<open>card_v1\<close>
  (\<open>C_SIZE = 3843\<close>, \<open>C_SIZE_MULT = 7\<close>, \<open>READ_BL_LEN = 9\<close>) it returns 1007681536, the
  capacity in bytes, where the reference formula gives 1968128 sectors.
\<close>

theorem SD_Sectors_v1_counts_bytes:
  "map_option fst (SD_Sectors card_v1 dev_v1 []) = Some 1007681536
   \<and> csd_reference_v1 3843 7 9 = 1968128"
proof -
  have "map_option fst (SD_Sectors card_v1 dev_v1 []) = Some 1007681536"
    by code_simp
  moreover have "csd_reference_v1 3843 7 9 = 1968128"
    by (simp add: csd_reference_v1_def)
  ultimately show ?thesis by simp
qed

section \<open>The transaction server: acceptance, progress and completion\<close>

lemma Task_accept:
  assumes "next_state w = S_IDLE" and "Request (g_trans w) \<in> {REQ_INIT, REQ_READ, REQ_WRITE}"
  shows "Task_SD_Server C T w =
     Some (w\<lparr>cur_trans := g_trans w,
             next_state := (if Request (g_trans w) = REQ_INIT then S_INIT
                            else if Request (g_trans w) = REQ_READ then S_READ else S_WRITE),
             g_trans := (g_trans w)\<lparr>Status := STAT_BUSY\<rparr>\<rparr>)"
  using assms
  by (auto simp: Task_SD_Server_def Let_def REQ_NONE_def REQ_INIT_def REQ_READ_def REQ_WRITE_def
      Req_to_State_def)

lemma finish_step_cases:
  "finish_step s running w =
     (if running = 1 \<and> s \<noteq> S_IDLE then w\<lparr>next_state := s\<rparr>
      else w\<lparr>next_state := S_IDLE, g_trans := Update_Trans (g_trans w) (res_static w)\<rparr>)"
  by (simp add: finish_step_def Let_def)

lemma Task_operation:
  assumes "next_state w \<in> {S_INIT, S_READ, S_WRITE}" and "Task_SD_Server C T w = Some w'"
  shows "(next_state w' = next_state w \<and> g_trans w' = g_trans w)
       \<or> (next_state w' = S_IDLE \<and> g_trans w' = Update_Trans (g_trans w) (res_static w'))"
  using assms
  by (auto simp: Task_SD_Server_def Let_def finish_step_cases split: bind_splits if_splits)

lemma Task_idle_none:
  "next_state w = S_IDLE \<Longrightarrow> Request (g_trans w) = REQ_NONE \<Longrightarrow> Task_SD_Server C T w = Some w"
  by (simp add: Task_SD_Server_def)

lemma Task_n_idle:
  "next_state v = S_IDLE \<Longrightarrow> Request (g_trans v) = REQ_NONE \<Longrightarrow> Task_SD_Server_n C T i v = Some v"
  by (induction i) (simp_all add: Task_idle_none)

lemma Task_n_invariant:
  assumes "Task_SD_Server_n C T j w = Some w'"
    and "next_state w \<in> {S_INIT, S_READ, S_WRITE}"
  shows "(next_state w' = next_state w \<and> g_trans w' = g_trans w)
       \<or> (next_state w' = S_IDLE \<and> (\<exists>r. g_trans w' = Update_Trans (g_trans w) r))"
  using assms
proof (induction j arbitrary: w)
  case 0
  then show ?case by simp
next
  case (Suc j)
  from Suc.prems(1) obtain w1 where s1: "Task_SD_Server C T w = Some w1"
    and rest: "Task_SD_Server_n C T j w1 = Some w'"
    by (auto split: bind_splits)
  from Task_operation [OF Suc.prems(2) s1]
  show ?case
  proof
    assume a: "next_state w1 = next_state w \<and> g_trans w1 = g_trans w"
    with Suc.prems(2) have "next_state w1 \<in> {S_INIT, S_READ, S_WRITE}" by simp
    from Suc.IH [OF rest this] a show ?thesis by simp
  next
    assume a: "next_state w1 = S_IDLE \<and> g_trans w1 = Update_Trans (g_trans w) (res_static w1)"
    from a have "Request (g_trans w1) = REQ_NONE" by (simp add: Update_Trans_def)
    with Task_n_idle [of w1 C T j] a rest have "w' = w1" by simp
    with a show ?thesis by auto
  qed
qed


lemma Task_operation_result:
  assumes "next_state w \<in> {S_INIT, S_READ, S_WRITE}" and "Task_SD_Server C T w = Some w'"
  shows "op_result C T w = Some (res_static w')"
  using assms
  by (auto simp: Task_SD_Server_def op_result_def Let_def finish_step_cases
      split: bind_splits if_splits)

lemma Task_n_progress:
  assumes "Task_SD_Server_n C T j w = Some w'"
    and "next_state w \<in> {S_INIT, S_READ, S_WRITE}"
  shows "(next_state w' = next_state w \<and> g_trans w' = g_trans w \<and> cur_trans w' = cur_trans w)
       \<or> (next_state w' = S_IDLE \<and> (\<exists>r. g_trans w' = Update_Trans (g_trans w) r))"
  using assms
proof (induction j arbitrary: w)
  case 0
  then show ?case by simp
next
  case (Suc j)
  from Suc.prems(1) obtain w1 where s1: "Task_SD_Server C T w = Some w1"
    and rest: "Task_SD_Server_n C T j w1 = Some w'"
    by (auto split: bind_splits)
  have cur: "cur_trans w1 = cur_trans w"
    using Suc.prems(2) s1
    by (auto simp: Task_SD_Server_def Let_def finish_step_cases split: bind_splits if_splits)
  from Task_operation [OF Suc.prems(2) s1]
  show ?case
  proof
    assume a: "next_state w1 = next_state w \<and> g_trans w1 = g_trans w"
    with Suc.prems(2) have "next_state w1 \<in> {S_INIT, S_READ, S_WRITE}" by simp
    from Suc.IH [OF rest this] a cur show ?thesis by simp
  next
    assume a: "next_state w1 = S_IDLE \<and> g_trans w1 = Update_Trans (g_trans w) (res_static w1)"
    from a have "Request (g_trans w1) = REQ_NONE" by (simp add: Update_Trans_def)
    with Task_n_idle [of w1 C T j] a rest have "w' = w1" by simp
    with a show ?thesis by auto
  qed
qed

lemma Task_n_Suc_right:
  "Task_SD_Server_n C T (Suc j) w = Task_SD_Server_n C T j w \<bind> Task_SD_Server C T"
proof (induction j arbitrary: w)
  case 0
  show ?case by (cases "Task_SD_Server C T w") simp_all
next
  case (Suc j)
  show ?case
  proof (cases "Task_SD_Server C T w")
    case None
    then show ?thesis by simp
  next
    case (Some v)
    with Suc.IH [of v] show ?thesis by simp
  qed
qed

section \<open>Waits without a timer\<close>

lemma token_wait_2B_silent:
  "token_wait_2B T L = Some y \<Longrightarrow> \<not> (\<forall>X. length X > length L \<longrightarrow> miso T X = 0xFF)"
proof (erule token_wait_2B.raw_induct [rotated], goal_cases)
  case (1 f T L y)
  show ?case
  proof (cases "miso T (Call_RW 0xFF # L) = 0xFF")
    case True
    with 1(2) have "f T (Call_RW 0xFF # L) = Some y"
      by (simp add: SPI_RW_def)
    from 1(1) [OF this] show ?thesis by (auto intro: Suc_lessD)
  next
    case False
    then show ?thesis by (intro notI) (auto dest: spec [of _ "Call_RW 0xFF # L"])
  qed
qed

lemma token_wait_2B_never:
  "\<forall>X. length X > length L \<longrightarrow> miso T X = 0xFF \<Longrightarrow> token_wait_2B T L = None"
  using token_wait_2B_silent [of T L] by (cases "token_wait_2B T L") auto

lemma busy_wait_2B_busy:
  "busy_wait_2B T L = Some y \<Longrightarrow> \<not> (\<forall>X. length X > length L \<longrightarrow> miso T X = 0)"
proof (erule busy_wait_2B.raw_induct [rotated], goal_cases)
  case (1 f T L y)
  show ?case
  proof (cases "miso T (Call_RW 0xFF # L) = 0")
    case True
    with 1(2) have "f T (Call_RW 0xFF # L) = Some y"
      by (simp add: SPI_RW_def)
    from 1(1) [OF this] show ?thesis by (auto intro: Suc_lessD)
  next
    case False
    then show ?thesis by (intro notI) (auto dest: spec [of _ "Call_RW 0xFF # L"])
  qed
qed

lemma busy_wait_2B_never:
  "\<forall>X. length X > length L \<longrightarrow> miso T X = 0 \<Longrightarrow> busy_wait_2B T L = None"
  using busy_wait_2B_busy [of T L] by (cases "busy_wait_2B T L") auto

lemma send_block_aux:
  "\<exists>bs. foldl (\<lambda>L idx. snd (SPI_RW T (mem (dat + idx)) L)) L xs = map Call_RW bs @ L
        \<and> length bs = length xs"
proof (induction xs arbitrary: L)
  case Nil
  show ?case by simp
next
  case (Cons x xs)
  from Cons.IH [of "Call_RW (mem (dat + x)) # L"]
  obtain bs where "foldl (\<lambda>L idx. snd (SPI_RW T (mem (dat + idx)) L)) (Call_RW (mem (dat + x)) # L) xs
      = map Call_RW bs @ Call_RW (mem (dat + x)) # L" and "length bs = length xs"
    by auto
  then show ?case
    by (intro exI [of _ "bs @ [mem (dat + x)]"]) (simp add: SPI_RW_def)
qed

lemma send_block_calls:
  "\<exists>bs. send_block T mem dat L = map Call_RW bs @ L \<and> length bs = 512"
  using send_block_aux [of T mem dat L "[0..<SD_BLK_SIZE]"]
  by (simp add: send_block_def SD_BLK_SIZE_def)

lemma length_send_block: "length (send_block T mem dat L) = length L + 512"
  using send_block_calls [of T mem dat L] by auto


lemma accept_card_CMD17:
  "SD_Send_Cmd accept_card CMD17 0 [] =
     Some (0, [Call_Timer_Off, Call_RW 255, Call_Timer_On 5, Call_RW 1, Call_RW 0, Call_RW 0,
               Call_RW 0, Call_RW 0, Call_RW 81, Call_RW 255, Call_CS_Low, Call_RW 255,
               Call_CS_High])"
  by code_simp

lemma accept_card_silent: "length X > 12 \<Longrightarrow> miso accept_card X = 0xFF"
  by (simp add: accept_card_def script_def)

text \<open>
  C3. The claim is that every wait for readiness is bounded by the countdown timer, so
  that an operation ends with a failure code when the card never becomes ready. In the
  blocking variant the wait of \<open>SD_Read\<close> for the data-start token starts no timer
  and queries none: on a card that accepts \<open>CMD17\<close> and is silent afterwards the call
  never returns, whatever the timer does.
\<close>

theorem SD_Read_2B_waits_forever:
  "SD_Read_2B accept_card dev_one 0 0 0 512 (\<lambda>a. 0, []) = None"
proof -
  have "token_wait_2B accept_card
          [Call_Timer_Off, Call_RW 255, Call_Timer_On 5, Call_RW 1, Call_RW 0, Call_RW 0,
           Call_RW 0, Call_RW 0, Call_RW 81, Call_RW 255, Call_CS_Low, Call_RW 255,
           Call_CS_High] = None"
    by (rule token_wait_2B_never) (simp add: accept_card_silent)
  then show ?thesis
    by (simp add: SD_Read_2B_def dev_one_def accept_card_CMD17)
qed

lemma busy_card_CMD24:
  "SD_Send_Cmd busy_card CMD24 0 [] =
     Some (0, [Call_Timer_Off, Call_RW 255, Call_Timer_On 5, Call_RW 1, Call_RW 0, Call_RW 0,
               Call_RW 0, Call_RW 0, Call_RW 88, Call_RW 255, Call_CS_Low, Call_RW 255,
               Call_CS_High])"
  by code_simp

lemma busy_card_miso:
  "miso busy_card X =
     (if length X = 12 then 0x00 else if length X = 529 then 0x05
      else if length X > 529 then 0x00 else 0xFF)"
  by (simp add: busy_card_def)

text \<open>
  C5. The claim is that \<open>SD_Write\<close> polls the busy line under a timeout and returns
  \<open>SD_BUSY\<close> when the timeout expires on a card that is still busy. In the blocking
  variant the busy poll has no timeout: on a card that accepts the block and then holds
  the line at 0 the call never returns, so it never reports \<open>SD_BUSY\<close>.
\<close>

theorem SD_Write_2B_busy_forever:
  "SD_Write_2B busy_card dev_one 0 0 (\<lambda>a. 0, []) = None"
proof -
  let ?L1 = "[Call_Timer_Off, Call_RW 255, Call_Timer_On 5, Call_RW 1, Call_RW 0, Call_RW 0,
               Call_RW 0, Call_RW 0, Call_RW 88, Call_RW 255, Call_CS_Low, Call_RW 255,
               Call_CS_High]"
  let ?Ltok = "Call_RW 0xFF # Call_RW 0xFF # Call_RW 0xFF
                 # send_block busy_card (\<lambda>a. 0) 0 (Call_RW 0xFE # ?L1)"
  have len: "length ?Ltok = 529"
    by (simp add: length_send_block)
  have tok: "miso busy_card ?Ltok = 0x05"
    by (simp add: busy_card_miso length_send_block)
  have "\<forall>X. length X > length ?Ltok \<longrightarrow> miso busy_card X = 0"
    by (simp add: busy_card_miso length_send_block)
  then have "busy_wait_2B busy_card ?Ltok = None"
    by (rule busy_wait_2B_never)
  then show ?thesis
    using tok
    by (simp add: SD_Write_2B_def dev_one_def busy_card_CMD24 SPI_RW_def)
qed


section \<open>Parameter errors\<close>

lemma SD_Read_run_2A_step:
  "SD_Read_2A T dev dat sector ofs cnt s = Some (r, dev', st', mem', L') \<Longrightarrow>
   SD_Read_run_2A T dev dat sector ofs cnt s =
     (if read_status st' = 1 then SD_Read_run_2A T dev' dat sector ofs cnt (st', mem', L')
      else Some (r, dev', st', mem', L'))"
  by (subst SD_Read_run_2A.simps) simp

lemma SD_Write_run_2A_step:
  "SD_Write_2A C T dev dat sector (st, mem, L) = Some (r, dev', st', L') \<Longrightarrow>
   SD_Write_run_2A C T dev dat sector mem (st, L) =
     (if idle_busy_status st' = 1 then SD_Write_run_2A C T dev' dat sector mem (st', L')
      else Some (r, dev', st', L'))"
  by (subst SD_Write_run_2A.simps) simp

lemma SD_Read_2B_parerr:
  "sector > last_sector dev \<or> cnt = 0 \<Longrightarrow>
   SD_Read_2B T dev dat sector ofs cnt (mem, L) = Some (SD_PARERR, dev, mem, L)"
  by (simp add: SD_Read_2B_def)

lemma SD_Write_2B_parerr:
  "sector > last_sector dev \<Longrightarrow>
   SD_Write_2B T dev dat sector (mem, L) = Some (SD_PARERR, dev, L)"
  by (simp add: SD_Write_2B_def)

lemma SD_Read_2A_parerr:
  "rn_state st = S1 \<Longrightarrow> sector > last_sector dev \<or> cnt = 0 \<Longrightarrow>
   SD_Read_2A T dev dat sector ofs cnt (st, mem, L) =
     Some (SD_PARERR, dev, st\<lparr>rd_res := SD_ERROR, rd_pointer := dat, read_status := 0\<rparr>, mem, L)"
  by (simp add: SD_Read_2A_def)

lemma SD_Write_2A_parerr:
  "n_state st = S1 \<Longrightarrow> sector > last_sector dev \<Longrightarrow>
   SD_Write_2A C T dev dat sector (st, mem, L) =
     Some (SD_PARERR, dev, st\<lparr>idle_busy_status := 0\<rparr>, L)"
  by (simp add: SD_Write_2A_def)

text \<open>
  A call that starts an operation in the first state -- any call of the blocking variant,
  and a call of the state machine made while it is in \<open>S1\<close> -- returns \<open>SD_PARERR\<close>
  when \<open>sector > last_sector\<close> and, for \<open>SD_Read\<close>, also when \<open>cnt = 0\<close>. The
  device, the memory and the transport log are unchanged, so no call was made on the
  transport, and the operation has ended (the status flag is 0).
\<close>

lemma param_error_without_transport:
  "(sector > last_sector dev \<or> cnt = 0 \<longrightarrow>
      SD_Read_2B T dev dat sector ofs cnt (mem, L) = Some (SD_PARERR, dev, mem, L)
      \<and> (rn_state st = S1 \<longrightarrow>
           SD_Read_2A T dev dat sector ofs cnt (st, mem, L) =
             Some (SD_PARERR, dev,
                   st\<lparr>rd_res := SD_ERROR, rd_pointer := dat, read_status := 0\<rparr>, mem, L)
           \<and> SD_Read_run_2A T dev dat sector ofs cnt (st, mem, L) =
               Some (SD_PARERR, dev,
                     st\<lparr>rd_res := SD_ERROR, rd_pointer := dat, read_status := 0\<rparr>, mem, L)))
   \<and> (sec > last_sector dev \<longrightarrow>
      SD_Write_2B T dev dat sec (mem, L) = Some (SD_PARERR, dev, L)
      \<and> (n_state wst = S1 \<longrightarrow>
           SD_Write_2A C T dev dat sec (wst, mem, L) =
             Some (SD_PARERR, dev, wst\<lparr>idle_busy_status := 0\<rparr>, L)
           \<and> SD_Write_run_2A C T dev dat sec mem (wst, L) =
               Some (SD_PARERR, dev, wst\<lparr>idle_busy_status := 0\<rparr>, L)))"
  by (simp add: SD_Read_2B_parerr SD_Write_2B_parerr SD_Read_2A_parerr SD_Write_2A_parerr
      SD_Read_run_2A_step [OF SD_Read_2A_parerr] SD_Write_run_2A_step [OF SD_Write_2A_parerr])

text \<open>
  The two cases of a read on a device whose last sector is the largest sector number
  there is, where only \<open>cnt = 0\<close> can be wrong, and on a one-sector device.
\<close>

lemma param_error_examples:
  "SD_Read_2B dead_bus (dev_one\<lparr>last_sector := 0xFFFFFFFF\<rparr>) 0 7 0 0 (\<lambda>a. 0, []) =
     Some (SD_PARERR, dev_one\<lparr>last_sector := 0xFFFFFFFF\<rparr>, \<lambda>a. 0, [])
   \<and> SD_Read_run_2A dead_bus (dev_one\<lparr>last_sector := 0xFFFFFFFF\<rparr>) 0 7 0 0
        (read_statics_init, \<lambda>a. 0, []) =
        Some (SD_PARERR, dev_one\<lparr>last_sector := 0xFFFFFFFF\<rparr>,
              read_statics_init\<lparr>rd_res := SD_ERROR, rd_pointer := 0, read_status := 0\<rparr>,
              \<lambda>a. 0, [])
   \<and> SD_Read_2B dead_bus dev_one 0 7 0 512 (\<lambda>a. 0, []) = Some (SD_PARERR, dev_one, \<lambda>a. 0, [])
   \<and> SD_Write_2B dead_bus dev_one 0 7 (\<lambda>a. 0, []) = Some (SD_PARERR, dev_one, [])
   \<and> SD_Read_run_2A dead_bus dev_one 0 7 0 512 (read_statics_init, \<lambda>a. 0, []) =
        Some (SD_PARERR, dev_one,
              read_statics_init\<lparr>rd_res := SD_ERROR, rd_pointer := 0, read_status := 0\<rparr>,
              \<lambda>a. 0, [])
   \<and> SD_Write_run_2A cfg dead_bus dev_one 0 7 (\<lambda>a. 0) (write_statics_init, []) =
        Some (SD_PARERR, dev_one, write_statics_init\<lparr>idle_busy_status := 0\<rparr>, [])"
proof -
  have c: "rn_state read_statics_init = S1" by (simp add: read_statics_init_def)
  have d: "n_state write_statics_init = S1" by (simp add: write_statics_init_def)
  have e: "(7::DWORD) > last_sector dev_one" by (simp add: dev_one_def)
  note x = param_error_without_transport
      [where sector = 7 and dev = "dev_one\<lparr>last_sector := 0xFFFFFFFF\<rparr>" and cnt = 0
         and T = dead_bus and dat = 0 and ofs = 0 and mem = "\<lambda>a. 0" and L = "[]"
         and st = read_statics_init]
  note y = param_error_without_transport
      [where sector = 7 and dev = dev_one and cnt = 512 and T = dead_bus and dat = 0 and ofs = 0
         and mem = "\<lambda>a. 0" and L = "[]" and st = read_statics_init and sec = 7
         and wst = write_statics_init and C = cfg]
  from x y c d e show ?thesis by simp
qed

section \<open>A rejected data block\<close>


lemma write_S3_loop:
  assumes "n_state st = S3" and "wr_idx st = of_nat i" and "i \<le> 512"
  shows "\<exists>st'. n_state st' = S3 \<and> wr_idx st' = 512 \<and> wr_line st' = wr_line st
           \<and> SD_Write_run_2A C T dev dat sector mem (st, L) =
               SD_Write_run_2A C T dev dat sector mem
                 (st', foldl (\<lambda>L idx. snd (SPI_RW T (mem (dat + idx)) L)) L [i..<512])"
  using assms
proof (induction "512 - i" arbitrary: i st L)
  case 0
  then have "i = 512" by simp
  with 0 show ?case by (intro exI [of _ st]) simp
next
  case (Suc d)
  then have i: "i < 512" by simp
  then have u: "unat (of_nat i :: WORD) = i"
    by (simp add: unat_of_nat)
  let ?st = "st\<lparr>wr_idx := wr_idx st + 1, idle_busy_status := 1, n_state := S3\<rparr>"
  let ?L = "Call_RW (mem (dat + i)) # L"
  have step: "SD_Write_2A C T dev dat sector (st, mem, L) = Some (SD_OK, dev, ?st, ?L)"
    using Suc.prems i u by (simp add: SD_Write_2A_def SD_BLK_SIZE_def SPI_RW_def)
  have run: "SD_Write_run_2A C T dev dat sector mem (st, L)
               = SD_Write_run_2A C T dev dat sector mem (?st, ?L)"
    by (simp add: SD_Write_run_2A_step [OF step])
  have "d = 512 - Suc i" using Suc.hyps(2) by simp
  moreover have "n_state ?st = S3" by simp
  moreover have "wr_idx ?st = of_nat (Suc i)" using Suc.prems(2) by simp
  moreover have "Suc i \<le> 512" using i by simp
  ultimately obtain st' where "n_state st' = S3" "wr_idx st' = 512" "wr_line st' = wr_line ?st"
    and r: "SD_Write_run_2A C T dev dat sector mem (?st, ?L) =
               SD_Write_run_2A C T dev dat sector mem
                 (st', foldl (\<lambda>L idx. snd (SPI_RW T (mem (dat + idx)) L)) ?L [Suc i..<512])"
    using Suc.hyps(1) [of "Suc i" ?st ?L] by blast
  moreover have "foldl (\<lambda>L idx. snd (SPI_RW T (mem (dat + idx)) L)) L [i..<512]
        = foldl (\<lambda>L idx. snd (SPI_RW T (mem (dat + idx)) L)) ?L [Suc i..<512]"
    using i by (simp add: upt_conv_Cons SPI_RW_def)
  ultimately show ?case
    using run by (intro exI [of _ st']) simp
qed

lemma SD_Write_run_2A_to_token:
  assumes "n_state st = S1" and "\<not> sector > last_sector dev"
    and "SD_Send_Cmd T CMD24 sector L = Some (0, L1)"
  shows "\<exists>st'. n_state st' = S3 \<and> wr_idx st' = 512 \<and> wr_line st' = wr_line st
           \<and> SD_Write_run_2A C T dev dat sector mem (st, L) =
               SD_Write_run_2A C T dev dat sector mem
                 (st', send_block T mem dat (Call_RW 0xFE # L1))"
proof -
  let ?st1 = "st\<lparr>idle_busy_status := 1, n_state := S2\<rparr>"
  let ?st2 = "?st1\<lparr>idle_busy_status := 1, wr_idx := 0, n_state := S3\<rparr>"
  have s1: "SD_Write_2A C T dev dat sector (st, mem, L) = Some (SD_OK, dev, ?st1, L)"
    using assms by (simp add: SD_Write_2A_def)
  have s2: "SD_Write_2A C T dev dat sector (?st1, mem, L) =
              Some (SD_OK, dev, ?st2, Call_RW 0xFE # L1)"
    using assms by (simp add: SD_Write_2A_def SPI_RW_def)
  have run: "SD_Write_run_2A C T dev dat sector mem (st, L)
               = SD_Write_run_2A C T dev dat sector mem (?st2, Call_RW 0xFE # L1)"
    by (simp add: SD_Write_run_2A_step [OF s1] SD_Write_run_2A_step [OF s2])
  from write_S3_loop [of ?st2 0 C T dev dat sector mem "Call_RW 0xFE # L1"]
  obtain st' where "n_state st' = S3" "wr_idx st' = 512" "wr_line st' = wr_line ?st2"
    and "SD_Write_run_2A C T dev dat sector mem (?st2, Call_RW 0xFE # L1) =
               SD_Write_run_2A C T dev dat sector mem
                 (st', foldl (\<lambda>L idx. snd (SPI_RW T (mem (dat + idx)) L)) (Call_RW 0xFE # L1) [0..<512])"
    by auto
  then show ?thesis
    using run by (intro exI [of _ st']) (simp add: send_block_def SD_BLK_SIZE_def)
qed









section \<open>The debug counters\<close>











section \<open>Initialisation\<close>

lemma init_try_2B_dev:
  assumes "init_try_2B C T dev L = Some (c, dev', L')"
  shows "dev' = dev\<lparr>mount := False\<rparr>"
  using assms
  by (auto simp: init_try_2B_def Let_def split: if_splits bind_splits prod.splits)

lemma init_loop_2B_result:
  "init_loop_2B C T i c dev L = Some y \<Longrightarrow>
   fst (snd (snd y)) = (if i \<noteq> SD_INIT_TRYS C \<and> c = 0 then dev\<lparr>mount := False\<rparr> else dev)
   \<and> (fst (snd y) = 0 \<longrightarrow> fst y = SD_INIT_TRYS C)
   \<and> (unat i \<le> unat (SD_INIT_TRYS C) \<longrightarrow> unat (fst y) \<le> unat (SD_INIT_TRYS C))"
proof (erule init_loop_2B.raw_induct [rotated], goal_cases)
  case (1 f C T i c dev L y)
  show ?case
  proof (cases "i \<noteq> SD_INIT_TRYS C \<and> c = 0")
    case True
    with 1(2) obtain c1 dev1 L1 where
      once: "init_try_2B C T dev L = Some (c1, dev1, L1)"
      and rest: "f C T (i + 1) c1 dev1 L1 = Some y"
      by (auto split: bind_splits)
    have d: "dev1 = dev\<lparr>mount := False\<rparr>"
      by (rule init_try_2B_dev [OF once])
    have le: "unat (i + 1) \<le> unat (SD_INIT_TRYS C)" if "unat i \<le> unat (SD_INIT_TRYS C)"
    proof -
      from that True have "i < SD_INIT_TRYS C"
        by (simp add: word_le_nat_alt [symmetric] order_less_le)
      then show ?thesis
        by (simp add: word_le_nat_alt [symmetric] inc_le)
    qed
    from 1(1) [OF rest] True d le show ?thesis
      by (auto split: if_splits)
  next
    case False
    with 1(2) have "y = (i, c, dev, L)" by auto
    with False show ?thesis by auto
  qed
qed

lemma init_finish_result:
  assumes "init_finish T c dev L = Some (r, dev', L')"
  shows "if c \<noteq> 0
         then r = SD_OK
              \<and> (\<exists>ss L2. SD_Sectors T (dev\<lparr>cardtype := c, mount := True\<rparr>) L = Some (ss, L2)
                    \<and> dev' = dev\<lparr>cardtype := c, mount := True, last_sector := ss - 1,
                                 debug_read := 0, debug_write := 0\<rparr>
                    \<and> L' = Call_Release # Call_Freq_High # L2)
         else r = SD_NOINIT \<and> dev' = dev \<and> L' = Call_Release # L"
  using assms
  by (auto simp: init_finish_def Let_def split: if_splits bind_splits prod.splits)

lemma SD_Init_2B_result:
  assumes "SD_INIT_TRYS C \<noteq> 0" and "SD_Init_2B C T dev L = Some (r, dev', L')"
  shows "\<exists>i c L1. init_loop_2B C T 0 0 dev L = Some (i, c, dev\<lparr>mount := False\<rparr>, L1)
           \<and> unat i \<le> unat (SD_INIT_TRYS C) \<and> (c = 0 \<longrightarrow> i = SD_INIT_TRYS C)
           \<and> (r = SD_OK \<longleftrightarrow> c \<noteq> 0)
           \<and> (if c \<noteq> 0
               then \<exists>ss L2. SD_Sectors T (dev\<lparr>cardtype := c, mount := True\<rparr>) L1 = Some (ss, L2)
                      \<and> dev' = dev\<lparr>cardtype := c, mount := True, last_sector := ss - 1,
                                   debug_read := 0, debug_write := 0\<rparr>
                      \<and> L' = Call_Release # Call_Freq_High # L2
               else r = SD_NOINIT \<and> dev' = dev\<lparr>mount := False\<rparr> \<and> L' = Call_Release # L1)"
proof -
  from assms(2) obtain i c dev1 L1 where
    loop: "init_loop_2B C T 0 0 dev L = Some (i, c, dev1, L1)"
    and fin: "init_finish T c dev1 L1 = Some (r, dev', L')"
    by (auto simp: SD_Init_2B_def split: bind_splits)
  from init_loop_2B_result [OF loop] assms(1)
  have d: "dev1 = dev\<lparr>mount := False\<rparr>" and z: "c = 0 \<longrightarrow> i = SD_INIT_TRYS C"
    and le: "unat i \<le> unat (SD_INIT_TRYS C)"
    by auto
  from init_finish_result [OF fin] d have
    "(r = SD_OK \<longleftrightarrow> c \<noteq> 0)
     \<and> (if c \<noteq> 0
               then \<exists>ss L2. SD_Sectors T (dev\<lparr>cardtype := c, mount := True\<rparr>) L1 = Some (ss, L2)
                      \<and> dev' = dev\<lparr>cardtype := c, mount := True, last_sector := ss - 1,
                                   debug_read := 0, debug_write := 0\<rparr>
                      \<and> L' = Call_Release # Call_Freq_High # L2
               else r = SD_NOINIT \<and> dev' = dev\<lparr>mount := False\<rparr> \<and> L' = Call_Release # L1)"
    by (auto split: if_splits)
  with loop d z le show ?thesis by blast
qed


lemma SD_Sectors_cardtype:
  assumes "cardtype d = cardtype d'"
  shows "SD_Sectors T d L = SD_Sectors T d' L"
  unfolding SD_Sectors_def assms ..

lemma init_trys_next:
  fixes t :: BYTE
  assumes "unat t \<le> unat b" and "t \<noteq> b"
  shows "unat (t + 1) \<le> unat b" and "t + 1 \<noteq> 0"
proof -
  from assms have lt: "t < b"
    by (simp add: word_le_nat_alt [symmetric] order_less_le)
  then show "unat (t + 1) \<le> unat b"
    by (simp add: word_le_nat_alt [symmetric] inc_le)
  show "t + 1 \<noteq> 0"
  proof
    assume "t + 1 = 0"
    then have "t = - 1" by (simp add: eq_neg_iff_add_eq_0)
    with lt show False by simp
  qed
qed

lemma SD_Init_2A_step:
  assumes "SD_Init_2A C T dev (st, L) = Some (r, dev', st', L')"
    and "SD_INIT_TRYS C \<noteq> 0"
    and "unat (init_trys st) \<le> unat (SD_INIT_TRYS C)"
    and "in_states st \<in> {S2, S3, S4, S5, S6, S7, S8, S9, S10, S11, S12, S13} \<longrightarrow> init_trys st \<noteq> 0"
    and "in_states st \<in> {S4, S5, S6, S7, S8, S9, S10, S11, S12, S13}
         \<or> in_states st = S1 \<and> init_trys st \<noteq> 0
         \<or> in_states st = S14 \<and> init_ct st = 0 \<longrightarrow> \<not> mount dev"
    and "in_states st = S14 \<longrightarrow> init_trys st = 0"
  shows "if in_status st' = 1
         then dev' = dev\<lparr>mount := mount dev'\<rparr>
              \<and> unat (init_trys st') \<le> unat (SD_INIT_TRYS C)
              \<and> (in_states st' \<in> {S2, S3, S4, S5, S6, S7, S8, S9, S10, S11, S12, S13}
                    \<longrightarrow> init_trys st' \<noteq> 0)
              \<and> (in_states st' \<in> {S4, S5, S6, S7, S8, S9, S10, S11, S12, S13}
                   \<or> in_states st' = S1 \<and> init_trys st' \<noteq> 0
                   \<or> in_states st' = S14 \<and> init_ct st' = 0 \<longrightarrow> \<not> mount dev')
              \<and> (in_states st' = S14 \<longrightarrow> init_trys st' = 0)
         else in_states st = S14 \<and> init_ct st' = init_ct st \<and> init_trys st' = 0
              \<and> in_states st' = S1
              \<and> init_finish T (init_ct st) dev L = Some (r, dev', L')"
proof (cases "in_states st")
  case S1
  with assms init_trys_next [of "init_trys st" "SD_INIT_TRYS C"] show ?thesis
    by (auto simp: SD_Init_2A_def goto_in_def Let_def split: if_splits prod.splits)
next
  case S14
  with assms show ?thesis
    by (auto simp: SD_Init_2A_def goto_in_def Let_def split: if_splits bind_splits prod.splits)
qed (use assms in \<open>auto simp: SD_Init_2A_def goto_in_def Let_def SPI_Timer_Status_def
       split: if_splits bind_splits prod.splits\<close>)

lemma SD_Init_run_2A_aux:
  "SD_Init_run_2A C T dev sl = Some y \<Longrightarrow>
   SD_INIT_TRYS C \<noteq> 0 \<longrightarrow>
   unat (init_trys (fst sl)) \<le> unat (SD_INIT_TRYS C) \<longrightarrow>
   (in_states (fst sl) \<in> {S2, S3, S4, S5, S6, S7, S8, S9, S10, S11, S12, S13}
      \<longrightarrow> init_trys (fst sl) \<noteq> 0) \<longrightarrow>
   (in_states (fst sl) \<in> {S4, S5, S6, S7, S8, S9, S10, S11, S12, S13}
      \<or> in_states (fst sl) = S1 \<and> init_trys (fst sl) \<noteq> 0
      \<or> in_states (fst sl) = S14 \<and> init_ct (fst sl) = 0 \<longrightarrow> \<not> mount dev) \<longrightarrow>
   (in_states (fst sl) = S14 \<longrightarrow> init_trys (fst sl) = 0) \<longrightarrow>
   (\<exists>b L1. init_finish T (init_ct (fst (snd (snd y)))) (dev\<lparr>mount := b\<rparr>) L1
              = Some (fst y, fst (snd y), snd (snd (snd y)))
           \<and> (init_ct (fst (snd (snd y))) = 0 \<longrightarrow> \<not> b))
   \<and> in_states (fst (snd (snd y))) = S1 \<and> init_trys (fst (snd (snd y))) = 0"
proof (erule SD_Init_run_2A.raw_induct [rotated], goal_cases)
  case (1 f C T dev sl y)
  obtain st L where sl: "sl = (st, L)" by (cases sl)
  from 1(2) obtain r dev' st' L' where
    step: "SD_Init_2A C T dev (st, L) = Some (r, dev', st', L')"
    and rest: "(if in_status st' = 1 then f C T dev' (st', L')
                else Some (r, dev', st', L')) = Some y"
    unfolding sl by (auto split: bind_splits)
  show ?case
  proof (intro impI)
    assume a: "SD_INIT_TRYS C \<noteq> 0"
      and b: "unat (init_trys (fst sl)) \<le> unat (SD_INIT_TRYS C)"
      and c: "in_states (fst sl) \<in> {S2, S3, S4, S5, S6, S7, S8, S9, S10, S11, S12, S13}
                \<longrightarrow> init_trys (fst sl) \<noteq> 0"
      and d: "in_states (fst sl) \<in> {S4, S5, S6, S7, S8, S9, S10, S11, S12, S13}
                \<or> in_states (fst sl) = S1 \<and> init_trys (fst sl) \<noteq> 0
                \<or> in_states (fst sl) = S14 \<and> init_ct (fst sl) = 0 \<longrightarrow> \<not> mount dev"
      and e: "in_states (fst sl) = S14 \<longrightarrow> init_trys (fst sl) = 0"
    note inv = SD_Init_2A_step [OF step a b [unfolded sl fst_conv] c [unfolded sl fst_conv]
        d [unfolded sl fst_conv] e [unfolded sl fst_conv]]
    show "(\<exists>b L1. init_finish T (init_ct (fst (snd (snd y)))) (dev\<lparr>mount := b\<rparr>) L1
              = Some (fst y, fst (snd y), snd (snd (snd y)))
           \<and> (init_ct (fst (snd (snd y))) = 0 \<longrightarrow> \<not> b))
       \<and> in_states (fst (snd (snd y))) = S1 \<and> init_trys (fst (snd (snd y))) = 0"
    proof (cases "in_status st' = 1")
      case True
      with rest have run: "f C T dev' (st', L') = Some y" by simp
      from inv True have A:
        "dev' = dev\<lparr>mount := mount dev'\<rparr>
         \<and> unat (init_trys st') \<le> unat (SD_INIT_TRYS C)
         \<and> (in_states st' \<in> {S2, S3, S4, S5, S6, S7, S8, S9, S10, S11, S12, S13}
               \<longrightarrow> init_trys st' \<noteq> 0)
         \<and> (in_states st' \<in> {S4, S5, S6, S7, S8, S9, S10, S11, S12, S13}
              \<or> in_states st' = S1 \<and> init_trys st' \<noteq> 0
              \<or> in_states st' = S14 \<and> init_ct st' = 0 \<longrightarrow> \<not> mount dev')
         \<and> (in_states st' = S14 \<longrightarrow> init_trys st' = 0)"
        by (simp only: simp_thms if_True) blast
      from A have i1: "dev' = dev\<lparr>mount := mount dev'\<rparr>"
        and i2: "unat (init_trys st') \<le> unat (SD_INIT_TRYS C)"
        and i3: "in_states st' \<in> {S2, S3, S4, S5, S6, S7, S8, S9, S10, S11, S12, S13}
                    \<longrightarrow> init_trys st' \<noteq> 0"
        and i4: "in_states st' \<in> {S4, S5, S6, S7, S8, S9, S10, S11, S12, S13}
                   \<or> in_states st' = S1 \<and> init_trys st' \<noteq> 0
                   \<or> in_states st' = S14 \<and> init_ct st' = 0 \<longrightarrow> \<not> mount dev'"
        and i5: "in_states st' = S14 \<longrightarrow> init_trys st' = 0"
        by blast+
      note ih = 1(1) [OF run, unfolded fst_conv, THEN mp, OF a, THEN mp, OF i2, THEN mp, OF i3,
          THEN mp, OF i4, THEN mp, OF i5]
      from ih obtain b' L1 where
        fin: "init_finish T (init_ct (fst (snd (snd y)))) (dev'\<lparr>mount := b'\<rparr>) L1
              = Some (fst y, fst (snd y), snd (snd (snd y)))"
        and nb: "init_ct (fst (snd (snd y))) = 0 \<longrightarrow> \<not> b'"
        and fs: "in_states (fst (snd (snd y))) = S1 \<and> init_trys (fst (snd (snd y))) = 0"
        by blast
      have "dev'\<lparr>mount := b'\<rparr> = dev\<lparr>mount := mount dev', mount := b'\<rparr>"
        by (subst i1) (rule refl)
      then have "dev'\<lparr>mount := b'\<rparr> = dev\<lparr>mount := b'\<rparr>"
        by simp
      with fin nb fs show ?thesis by (intro conjI exI [of _ b'] exI [of _ L1]) simp_all
    next
      case False
      with rest have y: "y = (r, dev', st', L')" by simp
      from inv False have s14: "in_states st = S14" and ctq: "init_ct st' = init_ct st"
        and fin: "init_finish T (init_ct st) dev L = Some (r, dev', L')"
        by auto
      from inv False have st': "in_states st' = S1 \<and> init_trys st' = 0"
        by auto
      have "dev\<lparr>mount := mount dev\<rparr> = dev" by simp
      with fin have "init_finish T (init_ct st') (dev\<lparr>mount := mount dev\<rparr>) L = Some (r, dev', L')"
        using ctq by simp
      moreover have "init_ct st' = 0 \<longrightarrow> \<not> mount dev"
        using d s14 ctq unfolding sl by simp
      ultimately show ?thesis
        using st' unfolding y by (intro conjI exI [of _ "mount dev"] exI [of _ L]) simp_all
    qed
  qed
qed


lemma SD_Init_run_2A_result:
  assumes "SD_INIT_TRYS C \<noteq> 0" and "in_states st = S1" and "init_trys st = 0"
    and "SD_Init_run_2A C T dev (st, L) = Some (r, dev', st', L')"
  shows "(r = SD_OK \<longleftrightarrow> init_ct st' \<noteq> 0)
       \<and> (if init_ct st' \<noteq> 0
           then \<exists>L1 ss L2. SD_Sectors T (dev\<lparr>cardtype := init_ct st', mount := True\<rparr>) L1
                             = Some (ss, L2)
                  \<and> dev' = dev\<lparr>cardtype := init_ct st', mount := True, last_sector := ss - 1,
                               debug_read := 0, debug_write := 0\<rparr>
                  \<and> L' = Call_Release # Call_Freq_High # L2
           else r = SD_NOINIT \<and> dev' = dev\<lparr>mount := False\<rparr>)
       \<and> in_states st' = S1 \<and> init_trys st' = 0"
proof -
  from SD_Init_run_2A_aux [OF assms(4)] assms(1-3)
  obtain b L1 where fin: "init_finish T (init_ct st') (dev\<lparr>mount := b\<rparr>) L1 = Some (r, dev', L')"
    and nb: "init_ct st' = 0 \<longrightarrow> \<not> b"
    and fs: "in_states st' = S1 \<and> init_trys st' = 0"
    by auto
  show ?thesis
  proof (cases "init_ct st' = 0")
    case True
    with init_finish_result [OF fin] nb fs show ?thesis by simp
  next
    case False
    with init_finish_result [OF fin] obtain ss L2 where
      "SD_Sectors T (dev\<lparr>mount := b, cardtype := init_ct st', mount := True\<rparr>) L1 = Some (ss, L2)"
      "dev' = dev\<lparr>mount := b, cardtype := init_ct st', mount := True, last_sector := ss - 1,
                               debug_read := 0, debug_write := 0\<rparr>"
      "L' = Call_Release # Call_Freq_High # L2" "r = SD_OK"
      by auto
    then have "SD_Sectors T (dev\<lparr>cardtype := init_ct st', mount := True\<rparr>) L1 = Some (ss, L2)
         \<and> dev' = dev\<lparr>cardtype := init_ct st', mount := True, last_sector := ss - 1,
                               debug_read := 0, debug_write := 0\<rparr>
         \<and> L' = Call_Release # Call_Freq_High # L2"
      by simp
    with False fs \<open>r = SD_OK\<close> show ?thesis by auto
  qed
qed

text \<open>
  What an initialisation returns and stores, in terms of the card type \<open>ct\<close> it is left
  with, for a retry budget that is not zero. The blocking variant clears \<open>ct\<close> at the
  start, leaves the retry loop after at most \<open>SD_INIT_TRYS\<close> passes, and returns
  \<open>SD_OK\<close> exactly when \<open>ct\<close> is not zero then; it stores the card type, sets
  \<open>mount\<close>, stores the number returned by \<open>__SD_Sectors\<close> minus one (modulo
  \<open>2^32\<close>) as \<open>last_sector\<close>, zeroes both debug counters and selects the high
  transfer speed before releasing the bus. Otherwise all \<open>SD_INIT_TRYS\<close> passes were
  made, the result is \<open>SD_NOINIT\<close> and the device is as before except that \<open>mount\<close>
  is false. The second part is a whole operation of the state machine, started in its
  first state with the retry counter at zero: the same holds of the value of the static
  \<open>ct\<close> at the end, which the state machine does not clear at the start.
\<close>

lemma SD_Init_result:
  assumes "SD_INIT_TRYS C \<noteq> 0"
    and "SD_Init_2B C T dev L = Some (r, dev', L')"
    and "in_states st = S1" and "init_trys st = 0"
    and "SD_Init_run_2A C Ta deva (st, La) = Some (ra, deva', st', La')"
  shows "(\<exists>i c L1. init_loop_2B C T 0 0 dev L = Some (i, c, dev\<lparr>mount := False\<rparr>, L1)
           \<and> unat i \<le> unat (SD_INIT_TRYS C) \<and> (c = 0 \<longrightarrow> i = SD_INIT_TRYS C)
           \<and> (r = SD_OK \<longleftrightarrow> c \<noteq> 0)
           \<and> (if c \<noteq> 0
               then \<exists>ss L2. SD_Sectors T (dev\<lparr>cardtype := c, mount := True\<rparr>) L1 = Some (ss, L2)
                      \<and> dev' = dev\<lparr>cardtype := c, mount := True, last_sector := ss - 1,
                                   debug_read := 0, debug_write := 0\<rparr>
                      \<and> L' = Call_Release # Call_Freq_High # L2
               else r = SD_NOINIT \<and> dev' = dev\<lparr>mount := False\<rparr> \<and> L' = Call_Release # L1))
       \<and> (ra = SD_OK \<longleftrightarrow> init_ct st' \<noteq> 0)
       \<and> (if init_ct st' \<noteq> 0
           then \<exists>L1 ss L2. SD_Sectors Ta (deva\<lparr>cardtype := init_ct st', mount := True\<rparr>) L1
                             = Some (ss, L2)
                  \<and> deva' = deva\<lparr>cardtype := init_ct st', mount := True, last_sector := ss - 1,
                                 debug_read := 0, debug_write := 0\<rparr>
                  \<and> La' = Call_Release # Call_Freq_High # L2
           else ra = SD_NOINIT \<and> deva' = deva\<lparr>mount := False\<rparr>)
       \<and> in_states st' = S1 \<and> init_trys st' = 0"
  using SD_Init_2B_result [OF assms(1,2)] SD_Init_run_2A_result [OF assms(1,3,4,5)]
  by (rule conjI)


lemma SD_Init_result_example:
  "SD_INIT_TRYS cfg \<noteq> 0
   \<and> in_states init_statics_init = S1 \<and> init_trys init_statics_init = 0
   \<and> map_option (\<lambda>(r, d, L). (r, mount d, cardtype d, last_sector d, debug_read d, debug_write d, take 2 L))
        (SD_Init_2B cfg sdhc_2B dev_blank [])
       = Some (SD_OK, True, SDCT_SD2 OR SDCT_BLOCK, 15523839, 0, 0, [Call_Release, Call_Freq_High])
   \<and> map_option (\<lambda>(r, d, st, L). (r, mount d, cardtype d, last_sector d, debug_read d, debug_write d, take 2 L))
        (SD_Init_run_2A cfg sdhc_2A dev_blank (init_statics_init, []))
       = Some (SD_OK, True, SDCT_SD2 OR SDCT_BLOCK, 15523839, 0, 0, [Call_Release, Call_Freq_High])"
proof -
  have a: "SD_INIT_TRYS cfg \<noteq> 0" by (simp add: cfg_def)
  have b: "in_states init_statics_init = S1" and c: "init_trys init_statics_init = 0"
    by (simp_all add: init_statics_init_def)
  have d: "map_option (\<lambda>(r, d, L). (r, mount d, cardtype d, last_sector d, debug_read d, debug_write d, take 2 L))
        (SD_Init_2B cfg sdhc_2B dev_blank [])
       = Some (SD_OK, True, SDCT_SD2 OR SDCT_BLOCK, 15523839, 0, 0, [Call_Release, Call_Freq_High])"
    by code_simp
  have e: "map_option (\<lambda>(r, d, st, L). (r, mount d, cardtype d, last_sector d, debug_read d, debug_write d, take 2 L))
        (SD_Init_run_2A cfg sdhc_2A dev_blank (init_statics_init, []))
       = Some (SD_OK, True, SDCT_SD2 OR SDCT_BLOCK, 15523839, 0, 0, [Call_Release, Call_Freq_High])"
    by code_simp
  from d obtain r dev' L' where d': "SD_Init_2B cfg sdhc_2B dev_blank [] = Some (r, dev', L')"
    by (cases "SD_Init_2B cfg sdhc_2B dev_blank []") auto
  from e obtain ra deva' st' La' where
    e': "SD_Init_run_2A cfg sdhc_2A dev_blank (init_statics_init, []) = Some (ra, deva', st', La')"
    by (cases "SD_Init_run_2A cfg sdhc_2A dev_blank (init_statics_init, [])") auto
  from SD_Init_result [OF a d' b c e'] a b c d e show ?thesis
    by simp
qed

section \<open>The debug counters, collected\<close>







section \<open>The read window\<close>

lemma window_filter:
  "filter (\<lambda>i. a \<le> i \<and> i < c) [b..<n] = [max a b..<min n c]"
proof (induction n)
  case 0
  show ?case by simp
next
  case (Suc n)
  show ?case
  proof (cases "b \<le> n")
    case True
    then show ?thesis
      using Suc by (auto simp: min_def max_def upt_rec [of _ "Suc n"] not_less_eq_eq [symmetric]) 
  next
    case False
    then show ?thesis by (simp add: min_def max_def)
  qed
qed


lemma read_loop_2B_unfold:
  "read_loop_2B T ofs cnt b (mem, p, L) =
     (let d = miso T (Call_RW 0xFF # L);
          mp = store_window ofs cnt b d (mem, p)
      in if b + 1 < 514 then read_loop_2B T ofs cnt (b + 1) (fst mp, snd mp, Call_RW 0xFF # L)
         else (fst mp, snd mp, Call_RW 0xFF # L))"
  by (subst read_loop_2B.simps) (simp add: SPI_RW_def Let_def SD_BLK_SIZE_def split: prod.splits)

lemma read_loop_2B_window:
  assumes "b < 514"
  shows "read_loop_2B T ofs cnt b (mem, p, replicate b (Call_RW 0xFF) @ L0) =
     (let W = filter (\<lambda>i. unat ofs \<le> i \<and> i < unat ofs + unat cnt) [b..<514]
      in (\<lambda>a. if p \<le> a \<and> a < p + length W then rx T L0 (W ! (a - p)) else mem a,
          p + length W,
          replicate 514 (Call_RW 0xFF) @ L0))"
  using assms
proof (induction "513 - b" arbitrary: b mem p)
  case 0
  then have b: "b = 513" by simp
  have "replicate 514 (Call_RW 0xFF) = replicate (Suc 513) (Call_RW 0xFF)"
    by (rule arg_cong2 [where f = replicate]) simp_all
  then have L: "Call_RW 0xFF # replicate 513 (Call_RW 0xFF) @ L0 = replicate 514 (Call_RW 0xFF) @ L0"
    by (simp only: replicate_Suc append_Cons)
  have d: "rx T L0 513 = miso T (replicate 514 (Call_RW 0xFF) @ L0)"
    by (simp add: rx_def L)
  have up: "[513..<514] = [513::nat]"
    by (simp add: upt_rec)
  show ?case
    unfolding b
    by (subst read_loop_2B_unfold)
       (auto simp: Let_def store_window_def L d up fun_eq_iff simp del: replicate_Suc)
next
  case (Suc n)
  then have b: "b < 513" and n: "n = 513 - Suc b" by simp_all
  let ?d = "rx T L0 b"
  let ?P = "\<lambda>i. unat ofs \<le> i \<and> i < unat ofs + unat cnt"
  let ?mp = "store_window ofs cnt b ?d (mem, p)"
  have d: "miso T (Call_RW 0xFF # replicate b (Call_RW 0xFF) @ L0) = ?d"
    by (simp add: rx_def)
  have L: "Call_RW 0xFF # replicate b (Call_RW 0xFF) @ L0 = replicate (Suc b) (Call_RW 0xFF) @ L0"
    by simp
  have up: "[b..<514] = b # [Suc b..<514]"
    using b by (simp add: upt_rec)
  have unf: "read_loop_2B T ofs cnt b (mem, p, replicate b (Call_RW 0xFF) @ L0)
      = read_loop_2B T ofs cnt (Suc b) (fst ?mp, snd ?mp, replicate (Suc b) (Call_RW 0xFF) @ L0)"
    using b by (subst read_loop_2B_unfold) (simp add: d Let_def del: read_loop_2B.simps)
  have ih: "read_loop_2B T ofs cnt (Suc b) (fst ?mp, snd ?mp, replicate (Suc b) (Call_RW 0xFF) @ L0)
      = (let W = filter ?P [Suc b..<514]
         in (\<lambda>a. if snd ?mp \<le> a \<and> a < snd ?mp + length W then rx T L0 (W ! (a - snd ?mp))
                  else fst ?mp a,
             snd ?mp + length W,
             replicate 514 (Call_RW 0xFF) @ L0))"
    using Suc.hyps(1) [OF n, of "fst ?mp" "snd ?mp"] b by simp
  show ?case
    unfolding unf ih up
    by (auto simp: Let_def store_window_def fun_eq_iff nth_Cons'
             simp del: replicate_Suc upt_Suc read_loop_2B.simps)
qed


lemma read_loop_2B_block:
  "read_loop_2B T ofs cnt 0 (mem, p, L0) =
     (\<lambda>a. if p \<le> a \<and> a < p + (min 514 (unat ofs + unat cnt) - unat ofs)
          then rx T L0 (unat ofs + (a - p)) else mem a,
      p + (min 514 (unat ofs + unat cnt) - unat ofs),
      replicate 514 (Call_RW 0xFF) @ L0)"
proof -
  have "read_loop_2B T ofs cnt 0 (mem, p, replicate 0 (Call_RW 0xFF) @ L0) =
     (let W = filter (\<lambda>i. unat ofs \<le> i \<and> i < unat ofs + unat cnt) [0..<514]
      in (\<lambda>a. if p \<le> a \<and> a < p + length W then rx T L0 (W ! (a - p)) else mem a,
          p + length W,
          replicate 514 (Call_RW 0xFF) @ L0))"
    by (rule read_loop_2B_window) simp
  moreover have "[unat ofs..<min 514 (unat ofs + unat cnt)] ! (a - p) = unat ofs + (a - p)"
    if "p \<le> a \<and> a < p + (min 514 (unat ofs + unat cnt) - unat ofs)" for a
    by (rule nth_upt) (use that in arith)
  ultimately show ?thesis
    by (simp add: window_filter Let_def del: read_loop_2B.simps cong: if_cong)
qed

lemma SD_Read_2B_block:
  assumes "sector \<le> last_sector dev" and "cnt \<noteq> 0"
    and "SD_Send_Cmd T CMD17 sector L = Some (0, L1)"
    and "token_wait_2B T L1 = Some (0xFE, Lt)"
  shows "SD_Read_2B T dev dat sector ofs cnt (mem, L) =
     Some (SD_OK, dev\<lparr>debug_read := debug_read dev + 1\<rparr>,
           (\<lambda>a. if dat \<le> a \<and> a < dat + (min 514 (unat ofs + unat cnt) - unat ofs)
                then rx T (Call_Timer_Off # Lt) (unat ofs + (a - dat)) else mem a),
           Call_Release # replicate 514 (Call_RW 0xFF) @ Call_Timer_Off # Lt)"
  using assms
  by (simp add: SD_Read_2B_def read_loop_2B_block Let_def not_less [symmetric]
           del: read_loop_2B.simps)

lemma read_S5_loop:
  assumes "rn_state st = S5" and "byte_num st = of_nat i" and "i < 514"
  shows "\<exists>st'. SD_Read_run_2A T dev dat sector ofs cnt (st, mem, L) =
            (let (mem', p', L') = (if i + 1 < 514
                                   then read_loop_2B T ofs cnt (i + 1) (mem, rd_pointer st, L)
                                   else (mem, rd_pointer st, L))
             in Some (SD_OK, dev\<lparr>debug_read := debug_read dev + 1\<rparr>, st', mem', Call_Release # L'))
          \<and> rn_state st' = S1 \<and> read_status st' = 0"
  using assms
proof (induction "513 - i" arbitrary: i st mem L)
  case 0
  then have i: "i = 513" by simp
  let ?st1 = "st\<lparr>byte_num := byte_num st + 1, rd_res := SD_OK, read_status := 1, rn_state := S6\<rparr>"
  let ?st2 = "?st1\<lparr>read_status := 0, rn_state := S1\<rparr>"
  have u: "unat (byte_num st + 1) = 514"
    using 0 i by (simp add: unat_word_ariths unat_of_nat)
  have s1: "SD_Read_2A T dev dat sector ofs cnt (st, mem, L) = Some (SD_OK, dev, ?st1, mem, L)"
    using 0 u by (simp add: SD_Read_2A_def Let_def SD_BLK_SIZE_def)
  have s2: "SD_Read_2A T dev dat sector ofs cnt (?st1, mem, L) =
              Some (SD_OK, dev\<lparr>debug_read := debug_read dev + 1\<rparr>, ?st2, mem, Call_Release # L)"
    by (simp add: SD_Read_2A_def)
  show ?case
    unfolding i
    by (intro exI [of _ ?st2])
       (simp add: SD_Read_run_2A_step [OF s1] SD_Read_run_2A_step [OF s2] del: read_loop_2B.simps)
next
  case (Suc n)
  then have i: "i < 513" and n: "n = 513 - Suc i" by simp_all
  have u: "unat (byte_num st + 1) = Suc i"
    using Suc.prems i by (simp add: unat_word_ariths unat_of_nat)
  let ?d = "miso T (Call_RW 0xFF # L)"
  let ?mp = "store_window ofs cnt (Suc i) ?d (mem, rd_pointer st)"
  let ?st1 = "st\<lparr>byte_num := byte_num st + 1, rd_data := ?d, rd_pointer := snd ?mp,
                  read_status := 1, rn_state := S5\<rparr>"
  have s1: "SD_Read_2A T dev dat sector ofs cnt (st, mem, L) =
              Some (SD_OK, dev, ?st1, fst ?mp, Call_RW 0xFF # L)"
    using Suc.prems i u
    by (simp add: SD_Read_2A_def read_byte_2A_def Let_def SD_BLK_SIZE_def SPI_RW_def
             split: prod.splits)
  have run: "SD_Read_run_2A T dev dat sector ofs cnt (st, mem, L) =
               SD_Read_run_2A T dev dat sector ofs cnt (?st1, fst ?mp, Call_RW 0xFF # L)"
    by (simp add: SD_Read_run_2A_step [OF s1])
  have "rn_state ?st1 = S5" by simp
  moreover have "byte_num ?st1 = of_nat (Suc i)" using Suc.prems(2) by simp
  moreover have "Suc i < 514" using i by simp
  ultimately obtain st' where
    r: "SD_Read_run_2A T dev dat sector ofs cnt (?st1, fst ?mp, Call_RW 0xFF # L) =
            (let (mem', p', L') = (if Suc i + 1 < 514
                                   then read_loop_2B T ofs cnt (Suc i + 1)
                                          (fst ?mp, rd_pointer ?st1, Call_RW 0xFF # L)
                                   else (fst ?mp, rd_pointer ?st1, Call_RW 0xFF # L))
             in Some (SD_OK, dev\<lparr>debug_read := debug_read dev + 1\<rparr>, st', mem', Call_Release # L'))"
    and f: "rn_state st' = S1 \<and> read_status st' = 0"
    using Suc.hyps(1) [OF n, of ?st1 "fst ?mp" "Call_RW 0xFF # L"] by blast
  have unf: "read_loop_2B T ofs cnt (i + 1) (mem, rd_pointer st, L) =
      (if Suc i + 1 < 514
       then read_loop_2B T ofs cnt (Suc i + 1) (fst ?mp, rd_pointer ?st1, Call_RW 0xFF # L)
       else (fst ?mp, rd_pointer ?st1, Call_RW 0xFF # L))"
    by (subst read_loop_2B_unfold) (simp add: Let_def del: read_loop_2B.simps)
  show ?case
    using i f unfolding run r unf [symmetric]
    by (intro exI [of _ st']) (simp del: read_loop_2B.simps)
qed


lemma polls_Suc: "polls (Suc j) L = Call_RW 0xFF # Call_Timer_Status # polls j L"
  by (simp add: polls_def)

lemma read_S3_loop:
  assumes "rn_state st = S3" and "j \<le> k" and "rd_tkn st = miso T (polls j L2)"
    and "\<forall>i<k. miso T (polls i L2) = 0xFF \<and> timer_running T (Call_Timer_Status # polls i L2)"
  shows "\<exists>st'. rn_state st' = S3 \<and> rd_tkn st' = miso T (polls k L2)
           \<and> rd_pointer st' = rd_pointer st \<and> rd_res st' = rd_res st
           \<and> SD_Read_run_2A T dev dat sector ofs cnt (st, mem, polls j L2) =
               SD_Read_run_2A T dev dat sector ofs cnt (st', mem, polls k L2)"
  using assms(1-3)
proof (induction "k - j" arbitrary: j st)
  case 0
  then have "j = k" by simp
  with 0 show ?case by (intro exI [of _ st]) simp
next
  case (Suc n)
  then have j: "j < k" and n: "n = k - Suc j" by simp_all
  from assms(4) j have ff: "miso T (polls j L2) = 0xFF"
    and run: "timer_running T (Call_Timer_Status # polls j L2)" by auto
  let ?st1 = "st\<lparr>rd_tkn := miso T (polls (Suc j) L2), read_status := 1, rn_state := S3\<rparr>"
  have s1: "SD_Read_2A T dev dat sector ofs cnt (st, mem, polls j L2) =
              Some (SD_OK, dev, ?st1, mem, polls (Suc j) L2)"
    using Suc.prems ff run
    by (simp add: SD_Read_2A_def SPI_Timer_Status_def SPI_RW_def polls_Suc)
  have r: "SD_Read_run_2A T dev dat sector ofs cnt (st, mem, polls j L2) =
           SD_Read_run_2A T dev dat sector ofs cnt (?st1, mem, polls (Suc j) L2)"
    by (simp add: SD_Read_run_2A_step [OF s1])
  have "rn_state ?st1 = S3" "Suc j \<le> k" "rd_tkn ?st1 = miso T (polls (Suc j) L2)"
    using j by simp_all
  from Suc.hyps(1) [OF n this] obtain st' where
    "rn_state st' = S3" "rd_tkn st' = miso T (polls k L2)"
    "rd_pointer st' = rd_pointer ?st1" "rd_res st' = rd_res ?st1"
    "SD_Read_run_2A T dev dat sector ofs cnt (?st1, mem, polls (Suc j) L2) =
       SD_Read_run_2A T dev dat sector ofs cnt (st', mem, polls k L2)"
    by blast
  then show ?case
    unfolding r by (intro exI [of _ st']) simp
qed

lemma SD_Read_run_2A_block:
  assumes "rn_state st = S1" and "sector \<le> last_sector dev" and "cnt \<noteq> 0"
    and "SD_Send_Cmd T CMD17 sector L = Some (0, L1)"
    and "L2 = Call_RW 0xFF # Call_Timer_On 100 # L1"
    and "\<forall>i<k. miso T (polls i L2) = 0xFF \<and> timer_running T (Call_Timer_Status # polls i L2)"
    and "miso T (polls k L2) = 0xFE"
  shows "\<exists>st'. SD_Read_run_2A T dev dat sector ofs cnt (st, mem, L) =
     Some (SD_OK, dev\<lparr>debug_read := debug_read dev + 1\<rparr>, st',
           (\<lambda>a. if dat \<le> a \<and> a < dat + (min 514 (unat ofs + unat cnt) - unat ofs)
                then rx T (Call_Timer_Off # polls k L2) (unat ofs + (a - dat)) else mem a),
           Call_Release # replicate 514 (Call_RW 0xFF) @ Call_Timer_Off # polls k L2)
     \<and> rn_state st' = S1 \<and> read_status st' = 0"
proof -
  let ?run = "SD_Read_run_2A T dev dat sector ofs cnt"
  let ?st1 = "st\<lparr>rd_res := SD_ERROR, rd_pointer := dat, read_status := 1, rn_state := S2\<rparr>"
  let ?st2 = "?st1\<lparr>rd_tkn := miso T L2, read_status := 1, rn_state := S3\<rparr>"
  have s1: "SD_Read_2A T dev dat sector ofs cnt (st, mem, L) = Some (SD_OK, dev, ?st1, mem, L)"
    using assms(1-3) by (simp add: SD_Read_2A_def Let_def not_less [symmetric])
  have s2: "SD_Read_2A T dev dat sector ofs cnt (?st1, mem, L) = Some (SD_OK, dev, ?st2, mem, L2)"
    using assms(4,5) by (simp add: SD_Read_2A_def Let_def SPI_RW_def)
  have r12: "?run (st, mem, L) = ?run (?st2, mem, polls 0 L2)"
    by (simp add: SD_Read_run_2A_step [OF s1] SD_Read_run_2A_step [OF s2] polls_def)
  have "rn_state ?st2 = S3" "0 \<le> k" "rd_tkn ?st2 = miso T (polls 0 L2)"
    by (simp_all add: polls_def)
  from read_S3_loop [OF this assms(6), of dev dat sector ofs cnt mem]
  obtain st3 where st3: "rn_state st3 = S3" "rd_tkn st3 = 0xFE" "rd_pointer st3 = dat"
    and r3: "?run (?st2, mem, polls 0 L2) = ?run (st3, mem, polls k L2)"
    using assms(7) by auto
  let ?Lt = "Call_Timer_Off # polls k L2"
  let ?st4 = "st3\<lparr>read_status := 1, rn_state := S4\<rparr>"
  have s4: "SD_Read_2A T dev dat sector ofs cnt (st3, mem, polls k L2) =
              Some (SD_OK, dev, ?st4, mem, ?Lt)"
    using st3 by (simp add: SD_Read_2A_def)
  let ?d = "miso T (Call_RW 0xFF # ?Lt)"
  let ?mp = "store_window ofs cnt 0 ?d (mem, dat)"
  let ?st5 = "st3\<lparr>byte_num := 0, rd_data := ?d, rd_pointer := snd ?mp, read_status := 1,
                  rn_state := S5\<rparr>"
  have s5: "SD_Read_2A T dev dat sector ofs cnt (?st4, mem, ?Lt) =
              Some (SD_OK, dev, ?st5, fst ?mp, Call_RW 0xFF # ?Lt)"
    using st3
    by (simp add: SD_Read_2A_def read_byte_2A_def Let_def SPI_RW_def split: prod.splits)
  have r45: "?run (st3, mem, polls k L2) = ?run (?st5, fst ?mp, Call_RW 0xFF # ?Lt)"
    by (simp add: SD_Read_run_2A_step [OF s4] SD_Read_run_2A_step [OF s5])
  have "rn_state ?st5 = S5" "byte_num ?st5 = of_nat 0" "(0::nat) < 514"
    by simp_all
  from read_S5_loop [OF this, of T dev dat sector ofs cnt "fst ?mp" "Call_RW 0xFF # ?Lt"]
  obtain st' where
    r5: "?run (?st5, fst ?mp, Call_RW 0xFF # ?Lt) =
           (let (mem', p', L') = read_loop_2B T ofs cnt 1 (fst ?mp, snd ?mp, Call_RW 0xFF # ?Lt)
            in Some (SD_OK, dev\<lparr>debug_read := debug_read dev + 1\<rparr>, st', mem', Call_Release # L'))"
    and f: "rn_state st' = S1 \<and> read_status st' = 0"
    by (auto simp del: read_loop_2B.simps)
  have unf: "read_loop_2B T ofs cnt 0 (mem, dat, ?Lt) =
               read_loop_2B T ofs cnt 1 (fst ?mp, snd ?mp, Call_RW 0xFF # ?Lt)"
    by (subst read_loop_2B_unfold) (simp add: Let_def del: read_loop_2B.simps)
  show ?thesis
    using f unfolding r12 r3 r45 r5 unf [symmetric] read_loop_2B_block
    by (intro exI [of _ st']) simp
qed


text \<open>
  C1. Let \<open>sector \<le> last_sector\<close> and \<open>cnt > 0\<close>, let the card accept \<open>CMD17\<close>
  and let the data-start token \<open>0xFE\<close> arrive (in the state machine: after \<open>k\<close> polls
  that read \<open>0xFF\<close> with the timer running). Then the read returns \<open>SD_OK\<close>; after the
  token it makes exactly 514 exchanges and then releases the bus; and with
  \<open>m = min 514 (ofs + cnt) - ofs\<close>, which is at most \<open>cnt\<close>, the memory differs from
  the one before in the \<open>m\<close> bytes from \<open>dat\<close> on only: the byte at \<open>dat + j\<close> is the
  received byte with index \<open>ofs + j\<close>. For \<open>ofs = 0\<close> and \<open>cnt = 512\<close> these are the
  512 data bytes of the block, for \<open>ofs = 10\<close> and \<open>cnt = 5\<close> the bytes with index 10
  to 14. The first part is the blocking variant, the second a whole operation of the
  state machine.
\<close>

theorem SD_Read_window:
  assumes "sector \<le> last_sector dev" and "cnt \<noteq> 0"
    and "SD_Send_Cmd T CMD17 sector L = Some (0, L1)"
    and "token_wait_2B T L1 = Some (0xFE, Lt)"
    and "rn_state st = S1"
    and "SD_Send_Cmd Ta CMD17 sector La = Some (0, La1)"
    and "La2 = Call_RW 0xFF # Call_Timer_On 100 # La1"
    and "\<forall>i<k. miso Ta (polls i La2) = 0xFF \<and> timer_running Ta (Call_Timer_Status # polls i La2)"
    and "miso Ta (polls k La2) = 0xFE"
    and "m = min 514 (unat ofs + unat cnt) - unat ofs"
  shows "SD_Read_2B T dev dat sector ofs cnt (mem, L) =
           Some (SD_OK, dev\<lparr>debug_read := debug_read dev + 1\<rparr>,
                 (\<lambda>a. if dat \<le> a \<and> a < dat + m
                      then rx T (Call_Timer_Off # Lt) (unat ofs + (a - dat)) else mem a),
                 Call_Release # replicate 514 (Call_RW 0xFF) @ Call_Timer_Off # Lt)
       \<and> (\<exists>st'. SD_Read_run_2A Ta dev dat sector ofs cnt (st, mem, La) =
                   Some (SD_OK, dev\<lparr>debug_read := debug_read dev + 1\<rparr>, st',
                         (\<lambda>a. if dat \<le> a \<and> a < dat + m
                              then rx Ta (Call_Timer_Off # polls k La2) (unat ofs + (a - dat))
                              else mem a),
                         Call_Release # replicate 514 (Call_RW 0xFF)
                           @ Call_Timer_Off # polls k La2)
                 \<and> rn_state st' = S1 \<and> read_status st' = 0)
       \<and> m \<le> unat cnt"
proof -
  have "m \<le> unat cnt"
    unfolding assms(10) by simp
  with SD_Read_2B_block [OF assms(1-4), of dat ofs mem]
    SD_Read_run_2A_block [OF assms(5,1,2,6-9), of dat ofs mem]
  show ?thesis
    unfolding assms(10) by simp
qed

lemma read_card_2B_CMD17:
  "SD_Send_Cmd read_card_2B CMD17 0 [] =
     Some (0, [Call_Timer_Off, Call_RW 255, Call_Timer_On 5, Call_RW 1, Call_RW 0, Call_RW 0,
               Call_RW 0, Call_RW 0, Call_RW 81, Call_RW 255, Call_CS_Low, Call_RW 255,
               Call_CS_High])"
  by code_simp

lemma read_card_2B_token:
  "token_wait_2B read_card_2B
     [Call_Timer_Off, Call_RW 255, Call_Timer_On 5, Call_RW 1, Call_RW 0, Call_RW 0,
      Call_RW 0, Call_RW 0, Call_RW 81, Call_RW 255, Call_CS_Low, Call_RW 255, Call_CS_High]
   = Some (0xFE,
       [Call_RW 255, Call_RW 255,
        Call_Timer_Off, Call_RW 255, Call_Timer_On 5, Call_RW 1, Call_RW 0, Call_RW 0,
        Call_RW 0, Call_RW 0, Call_RW 81, Call_RW 255, Call_CS_Low, Call_RW 255, Call_CS_High])"
  by code_simp

lemma read_card_2A_CMD17:
  "SD_Send_Cmd read_card_2A CMD17 0 [] =
     Some (0, [Call_Timer_Off, Call_RW 255, Call_Timer_On 5, Call_RW 1, Call_RW 0, Call_RW 0,
               Call_RW 0, Call_RW 0, Call_RW 81, Call_RW 255, Call_CS_Low, Call_RW 255,
               Call_CS_High])"
  by code_simp


theorem SD_Read_window_witness:
  "0 \<le> last_sector dev_one \<and> (5::WORD) \<noteq> 0
   \<and> rn_state read_statics_init = S1
   \<and> map_option fst (SD_Send_Cmd read_card_2B CMD17 0 []) = Some 0
   \<and> map_option fst (SD_Send_Cmd read_card_2A CMD17 0 []) = Some 0
   \<and> map_option (\<lambda>(r, d, m, L). (r, map m [99, 100, 101, 102, 103, 104, 105], length L))
         (SD_Read_2B read_card_2B dev_one 100 0 10 5 (\<lambda>a. 0, []))
       = Some (SD_OK, [0, 10, 11, 12, 13, 14, 0], 531)
   \<and> map_option (\<lambda>(r, d, s, m, L). (r, map m [99, 100, 101, 102, 103, 104, 105], length L))
         (SD_Read_run_2A read_card_2A dev_one 100 0 10 5 (read_statics_init, \<lambda>a. 0, []))
       = Some (SD_OK, [0, 10, 11, 12, 13, 14, 0], 533)"
proof -
  let ?L1 = "[Call_Timer_Off, Call_RW 255, Call_Timer_On 5, Call_RW 1, Call_RW 0, Call_RW 0,
              Call_RW 0, Call_RW 0, Call_RW 81, Call_RW 255, Call_CS_Low, Call_RW 255,
              Call_CS_High]"
  let ?L2 = "Call_RW 0xFF # Call_Timer_On 100 # ?L1"
  have a: "0 \<le> last_sector dev_one" by simp
  have b: "(5::WORD) \<noteq> 0" by simp
  have c: "rn_state read_statics_init = S1" by (simp add: read_statics_init_def)
  have p: "\<forall>i<1. miso read_card_2A (polls i ?L2) = 0xFF
              \<and> timer_running read_card_2A (Call_Timer_Status # polls i ?L2)"
    by (simp add: polls_def read_card_2A_def)
  have q: "miso read_card_2A (polls 1 ?L2) = 0xFE"
    by (simp add: polls_def read_card_2A_def)
  have m: "(5::nat) = min 514 (unat (10::WORD) + unat (5::WORD)) - unat (10::WORD)"
    by simp
  note inst = SD_Read_window [OF a b read_card_2B_CMD17 read_card_2B_token c read_card_2A_CMD17
      refl p q m, of 100 "\<lambda>a. 0"]
  have r2B: "rx read_card_2B (Call_Timer_Off # Call_RW 255 # Call_RW 255 # ?L1) i = of_nat i" for i
    by (simp add: rx_def read_card_2B_def)
  have r2A: "rx read_card_2A (Call_Timer_Off # Call_RW 0xFF # Call_Timer_Status # ?L2) i
               = of_nat i" for i
    by (simp add: rx_def read_card_2A_def)
  from inst obtain st' where
    x: "SD_Read_2B read_card_2B dev_one 100 0 10 5 (\<lambda>a. 0, []) =
          Some (SD_OK, dev_one\<lparr>debug_read := debug_read dev_one + 1\<rparr>,
                (\<lambda>a. if 100 \<le> a \<and> a < 100 + 5
                     then rx read_card_2B (Call_Timer_Off # Call_RW 255 # Call_RW 255 # ?L1)
                            (unat (10::WORD) + (a - 100))
                     else 0),
                Call_Release # replicate 514 (Call_RW 0xFF)
                  @ Call_Timer_Off # Call_RW 255 # Call_RW 255 # ?L1)"
    and y: "SD_Read_run_2A read_card_2A dev_one 100 0 10 5 (read_statics_init, \<lambda>a. 0, []) =
          Some (SD_OK, dev_one\<lparr>debug_read := debug_read dev_one + 1\<rparr>, st',
                (\<lambda>a. if 100 \<le> a \<and> a < 100 + 5
                     then rx read_card_2A (Call_Timer_Off # polls 1 ?L2)
                            (unat (10::WORD) + (a - 100))
                     else 0),
                Call_Release # replicate 514 (Call_RW 0xFF) @ Call_Timer_Off # polls 1 ?L2)"
    by blast
  have x': "map_option (\<lambda>(r, d, m, L). (r, map m [99, 100, 101, 102, 103, 104, 105], length L))
         (SD_Read_2B read_card_2B dev_one 100 0 10 5 (\<lambda>a. 0, []))
       = Some (SD_OK, [0, 10, 11, 12, 13, 14, 0], 531)"
    unfolding x by (simp add: r2B)
  have y': "map_option (\<lambda>(r, d, s, m, L). (r, map m [99, 100, 101, 102, 103, 104, 105], length L))
         (SD_Read_run_2A read_card_2A dev_one 100 0 10 5 (read_statics_init, \<lambda>a. 0, []))
       = Some (SD_OK, [0, 10, 11, 12, 13, 14, 0], 533)"
    unfolding y by (simp add: r2A polls_def)
  from a b c x' y' show ?thesis
    by (simp add: read_card_2B_CMD17 read_card_2A_CMD17)
qed

text \<open>
  The case \<open>ofs = 0\<close>, \<open>cnt = 512\<close> of the blocking variant: the 512 bytes from
  \<open>dat\<close> on are the 512 data bytes of the block, and the two CRC bytes are not stored.
\<close>

lemma SD_Read_2B_whole_block:
  assumes "sector \<le> last_sector dev"
    and "SD_Send_Cmd T CMD17 sector L = Some (0, L1)"
    and "token_wait_2B T L1 = Some (0xFE, Lt)"
  shows "SD_Read_2B T dev dat sector 0 512 (mem, L) =
           Some (SD_OK, dev\<lparr>debug_read := debug_read dev + 1\<rparr>,
                 (\<lambda>a. if dat \<le> a \<and> a < dat + 512
                      then rx T (Call_Timer_Off # Lt) (a - dat) else mem a),
                 Call_Release # replicate 514 (Call_RW 0xFF) @ Call_Timer_Off # Lt)"
  using SD_Read_2B_block [OF assms(1) _ assms(2,3), of 512 dat 0 mem]
  by (simp cong del: if_weak_cong)

section \<open>The timeouts of the state machines\<close>

text \<open>
  In Project 2A the two waits are bounded by the timer. A read whose token wait sees
  \<open>0xFF\<close> until the timer has expired ends with \<open>SD_ERROR\<close>.
\<close>

lemma SD_Read_run_2A_timeout:
  assumes "rn_state st = S1" and "sector \<le> last_sector dev" and "cnt \<noteq> 0"
    and "SD_Send_Cmd T CMD17 sector L = Some (0, L1)"
    and "L2 = Call_RW 0xFF # Call_Timer_On 100 # L1"
    and "\<forall>i<k. miso T (polls i L2) = 0xFF \<and> timer_running T (Call_Timer_Status # polls i L2)"
    and "miso T (polls k L2) = 0xFF"
    and "\<not> timer_running T (Call_Timer_Status # polls k L2)"
  shows "\<exists>st'. SD_Read_run_2A T dev dat sector ofs cnt (st, mem, L) =
     Some (SD_ERROR, dev\<lparr>debug_read := debug_read dev + 1\<rparr>, st', mem,
           Call_Release # Call_Timer_Off # Call_Timer_Status # polls k L2)
     \<and> rn_state st' = S1 \<and> read_status st' = 0"
proof -
  let ?run = "SD_Read_run_2A T dev dat sector ofs cnt"
  let ?st1 = "st\<lparr>rd_res := SD_ERROR, rd_pointer := dat, read_status := 1, rn_state := S2\<rparr>"
  let ?st2 = "?st1\<lparr>rd_tkn := miso T L2, read_status := 1, rn_state := S3\<rparr>"
  have s1: "SD_Read_2A T dev dat sector ofs cnt (st, mem, L) = Some (SD_OK, dev, ?st1, mem, L)"
    using assms(1-3) by (simp add: SD_Read_2A_def Let_def not_less [symmetric])
  have s2: "SD_Read_2A T dev dat sector ofs cnt (?st1, mem, L) = Some (SD_OK, dev, ?st2, mem, L2)"
    using assms(4,5) by (simp add: SD_Read_2A_def Let_def SPI_RW_def)
  have r12: "?run (st, mem, L) = ?run (?st2, mem, polls 0 L2)"
    by (simp add: SD_Read_run_2A_step [OF s1] SD_Read_run_2A_step [OF s2] polls_def)
  have "rn_state ?st2 = S3" "0 \<le> k" "rd_tkn ?st2 = miso T (polls 0 L2)"
    by (simp_all add: polls_def)
  from read_S3_loop [OF this assms(6), of dev dat sector ofs cnt mem]
  obtain st3 where st3: "rn_state st3 = S3" "rd_tkn st3 = 0xFF" "rd_res st3 = SD_ERROR"
    and r3: "?run (?st2, mem, polls 0 L2) = ?run (st3, mem, polls k L2)"
    using assms(7) by auto
  let ?Lt = "Call_Timer_Off # Call_Timer_Status # polls k L2"
  let ?st4 = "st3\<lparr>read_status := 1, rn_state := S4\<rparr>"
  let ?st5 = "?st4\<lparr>read_status := 1, rn_state := S6\<rparr>"
  let ?st6 = "?st5\<lparr>read_status := 0, rn_state := S1\<rparr>"
  have s4: "SD_Read_2A T dev dat sector ofs cnt (st3, mem, polls k L2) =
              Some (SD_OK, dev, ?st4, mem, ?Lt)"
    using st3 assms(8) by (simp add: SD_Read_2A_def SPI_Timer_Status_def)
  have s5: "SD_Read_2A T dev dat sector ofs cnt (?st4, mem, ?Lt) =
              Some (SD_ERROR, dev, ?st5, mem, ?Lt)"
    using st3 by (simp add: SD_Read_2A_def)
  have s6: "SD_Read_2A T dev dat sector ofs cnt (?st5, mem, ?Lt) =
              Some (SD_ERROR, dev\<lparr>debug_read := debug_read dev + 1\<rparr>, ?st6, mem,
                    Call_Release # ?Lt)"
    using st3 by (simp add: SD_Read_2A_def)
  have r4: "?run (st3, mem, polls k L2) = ?run (?st4, mem, ?Lt)"
    by (subst SD_Read_run_2A_step [OF s4]) simp
  have r5: "?run (?st4, mem, ?Lt) = ?run (?st5, mem, ?Lt)"
    by (subst SD_Read_run_2A_step [OF s5]) simp
  have r6: "?run (?st5, mem, ?Lt) =
              Some (SD_ERROR, dev\<lparr>debug_read := debug_read dev + 1\<rparr>, ?st6, mem,
                    Call_Release # ?Lt)"
    by (subst SD_Read_run_2A_step [OF s6]) simp
  show ?thesis
    unfolding r12 r3 r4 r5 r6
    by (intro exI [of _ ?st6]) simp
qed

text \<open>
  A write whose data block was accepted polls the busy line while it reads 0 and the
  timer runs. If a byte other than 0 arrives the result is \<open>SD_OK\<close>; if the line still
  reads 0 when the timer is seen expired the result is \<open>SD_BUSY\<close>, and not before. In
  both cases the write counter is incremented.
\<close>

lemma write_S5_loop:
  assumes "n_state st = S5" and "j \<le> k" and "wr_line st = miso T (polls j Lb)"
    and "\<forall>i<k. miso T (polls i Lb) = 0 \<and> timer_running T (Call_Timer_Status # polls i Lb)"
  shows "\<exists>st'. n_state st' = S5 \<and> wr_line st' = miso T (polls k Lb)
           \<and> SD_Write_run_2A C T dev dat sector mem (st, polls j Lb) =
               SD_Write_run_2A C T dev dat sector mem (st', polls k Lb)"
  using assms(1-3)
proof (induction "k - j" arbitrary: j st)
  case 0
  then have "j = k" by simp
  with 0 show ?case by (intro exI [of _ st]) simp
next
  case (Suc n)
  then have j: "j < k" and n: "n = k - Suc j" by simp_all
  from assms(4) j have ff: "miso T (polls j Lb) = 0"
    and run: "timer_running T (Call_Timer_Status # polls j Lb)" by auto
  let ?st1 = "st\<lparr>wr_line := miso T (polls (Suc j) Lb), idle_busy_status := 1, n_state := S5\<rparr>"
  have s1: "SD_Write_2A C T dev dat sector (st, mem, polls j Lb) =
              Some (SD_OK, dev, ?st1, polls (Suc j) Lb)"
    using Suc.prems ff run
    by (simp add: SD_Write_2A_def SPI_Timer_Status_def SPI_RW_def polls_Suc)
  have r: "SD_Write_run_2A C T dev dat sector mem (st, polls j Lb) =
           SD_Write_run_2A C T dev dat sector mem (?st1, polls (Suc j) Lb)"
    by (simp add: SD_Write_run_2A_step [OF s1])
  have "n_state ?st1 = S5" "Suc j \<le> k" "wr_line ?st1 = miso T (polls (Suc j) Lb)"
    using j by simp_all
  from Suc.hyps(1) [OF n this] obtain st' where
    "n_state st' = S5" "wr_line st' = miso T (polls k Lb)"
    "SD_Write_run_2A C T dev dat sector mem (?st1, polls (Suc j) Lb) =
       SD_Write_run_2A C T dev dat sector mem (st', polls k Lb)"
    by blast
  then show ?case
    unfolding r by (intro exI [of _ st']) simp
qed

lemma SD_Write_run_2A_busy_poll:
  assumes "n_state st = S1" and "\<not> sector > last_sector dev"
    and "SD_Send_Cmd T CMD24 sector L = Some (0, L1)"
    and "Ltok = Call_RW 0xFF # Call_RW 0xFF # Call_RW 0xFF
                  # send_block T mem dat (Call_RW 0xFE # L1)"
    and "miso T Ltok AND 0x1F = 0x05"
    and "Lb = Call_RW 0xFF # Call_Timer_On (SD_IO_WRITE_TIMEOUT_WAIT C) # Ltok"
    and "\<forall>i<k. miso T (polls i Lb) = 0 \<and> timer_running T (Call_Timer_Status # polls i Lb)"
    and "miso T (polls k Lb) = 0 \<longrightarrow> \<not> timer_running T (Call_Timer_Status # polls k Lb)"
  shows "\<exists>st'. SD_Write_run_2A C T dev dat sector mem (st, L) =
     Some (if miso T (polls k Lb) = 0 then SD_BUSY else SD_OK,
           dev\<lparr>debug_write := debug_write dev + 1\<rparr>, st',
           Call_Timer_Off
             # (if miso T (polls k Lb) = 0 then Call_Timer_Status # polls k Lb else polls k Lb))
     \<and> n_state st' = S1 \<and> idle_busy_status st' = 0"
proof -
  let ?run = "SD_Write_run_2A C T dev dat sector mem"
  from SD_Write_run_2A_to_token [OF assms(1-3), of C dat mem]
  obtain st3 where st3: "n_state st3 = S3" "wr_idx st3 = 512"
    and r3: "?run (st, L) = ?run (st3, send_block T mem dat (Call_RW 0xFE # L1))"
    by auto
  let ?st4 = "st3\<lparr>idle_busy_status := 1, n_state := S4\<rparr>"
  let ?st5 = "?st4\<lparr>wr_line := miso T Lb, idle_busy_status := 1, n_state := S5\<rparr>"
  have s3: "SD_Write_2A C T dev dat sector (st3, mem, send_block T mem dat (Call_RW 0xFE # L1)) =
              Some (SD_OK, dev, ?st4, Ltok)"
    using st3 assms(5) unfolding assms(4)
    by (simp add: SD_Write_2A_def SD_BLK_SIZE_def SPI_RW_def)
  have s4: "SD_Write_2A C T dev dat sector (?st4, mem, Ltok) = Some (SD_OK, dev, ?st5, Lb)"
    unfolding assms(6) by (simp add: SD_Write_2A_def SPI_RW_def Let_def)
  have r45: "?run (st3, send_block T mem dat (Call_RW 0xFE # L1)) = ?run (?st5, polls 0 Lb)"
    by (simp add: SD_Write_run_2A_step [OF s3] SD_Write_run_2A_step [OF s4] polls_def)
  have "n_state ?st5 = S5" "0 \<le> k" "wr_line ?st5 = miso T (polls 0 Lb)"
    by (simp_all add: polls_def)
  from write_S5_loop [OF this assms(7), of C dev dat sector mem]
  obtain st6 where st6: "n_state st6 = S5" "wr_line st6 = miso T (polls k Lb)"
    and r6: "?run (?st5, polls 0 Lb) = ?run (st6, polls k Lb)"
    by auto
  let ?Le = "Call_Timer_Off
               # (if miso T (polls k Lb) = 0 then Call_Timer_Status # polls k Lb else polls k Lb)"
  let ?dev = "dev\<lparr>debug_write := debug_write dev + 1\<rparr>"
  let ?st7 = "st6\<lparr>idle_busy_status := 1, n_state := S6\<rparr>"
  let ?st8 = "?st7\<lparr>idle_busy_status := 0, n_state := S1\<rparr>"
  have s6: "SD_Write_2A C T dev dat sector (st6, mem, polls k Lb) = Some (SD_OK, ?dev, ?st7, ?Le)"
    using st6 assms(8) by (simp add: SD_Write_2A_def SPI_Timer_Status_def)
  have s7: "SD_Write_2A C T ?dev dat sector (?st7, mem, ?Le) =
              Some (if miso T (polls k Lb) = 0 then SD_BUSY else SD_OK, ?dev, ?st8, ?Le)"
    using st6 by (simp add: SD_Write_2A_def)
  have r7: "?run (st6, polls k Lb) = SD_Write_run_2A C T ?dev dat sector mem (?st7, ?Le)"
    by (subst SD_Write_run_2A_step [OF s6]) simp
  have r8: "SD_Write_run_2A C T ?dev dat sector mem (?st7, ?Le) =
              Some (if miso T (polls k Lb) = 0 then SD_BUSY else SD_OK, ?dev, ?st8, ?Le)"
    by (subst SD_Write_run_2A_step [OF s7]) simp
  show ?thesis
    unfolding r3 r45 r6 r7 r8
    by (intro exI [of _ ?st8]) simp
qed

section \<open>The response wait and \<open>SD_Status\<close>\<close>

lemma resp_polls_Suc:
  "resp_polls (Suc j) L = Call_Timer_Status # Call_RW 0xFF # resp_polls j L"
  by (simp add: resp_polls_def)

lemma cmd_response_polls:
  assumes "\<forall>i<k. miso T (Call_RW 0xFF # resp_polls i L) AND 0x80 \<noteq> 0
                 \<and> timer_running T (resp_polls (Suc i) L)"
  shows "cmd_response T L = cmd_response T (resp_polls k L)"
  using assms
proof (induction k)
  case 0
  show ?case by (simp add: resp_polls_def)
next
  case (Suc k)
  then have "cmd_response T L = cmd_response T (resp_polls k L)"
    by simp
  also from Suc.prems have "miso T (Call_RW 0xFF # resp_polls k L) AND 0x80 \<noteq> 0"
    and "timer_running T (resp_polls (Suc k) L)"
    by simp_all
  then have "cmd_response T (resp_polls k L) = cmd_response T (resp_polls (Suc k) L)"
    by (subst cmd_response.simps)
       (simp add: SPI_RW_def SPI_Timer_Status_def resp_polls_Suc)
  finally show ?case .
qed

lemma cmd_response_end:
  assumes "b = miso T (Call_RW 0xFF # L)"
    and "b AND 0x80 = 0 \<or> \<not> timer_running T (Call_Timer_Status # Call_RW 0xFF # L)"
  shows "cmd_response T L =
     Some (b, if b AND 0x80 = 0 then Call_RW 0xFF # L else Call_Timer_Status # Call_RW 0xFF # L)"
  using assms
  by (subst cmd_response.simps) (auto simp: SPI_RW_def SPI_Timer_Status_def)

lemma send_frame_CMD0:
  "send_frame T CMD0 0 L =
     cmd_response T (CMD0_frame L) \<bind> (\<lambda>(res, L'). Some (res, Call_Timer_Off # L'))"
  by (simp add: send_frame_def Let_def SPI_RW_def CMD0_frame_def CMD0_def CMD8_def)

text \<open>
  C10. \<open>SD_Status\<close> sends \<open>CMD0\<close> with argument 0 and waits for the response. Let the
  wait end at the exchange with index \<open>k\<close>: every earlier exchange read a byte with bit 7
  set while the timer was running, and the byte \<open>b\<close> read by exchange \<open>k\<close> has bit 7
  clear or the timer has expired by then. Then \<open>SD_Status\<close> returns, \<open>b\<close> is the
  response byte of the command, and the result is \<open>SD_OK\<close> when \<open>b\<close> is nonzero and
  \<open>SD_NORESPONSE\<close> when \<open>b\<close> is zero. On a transport where every exchanged byte reads
  \<open>0xFF\<close> (no card answers) the wait ends by the timer and the result is \<open>SD_OK\<close>.
\<close>

theorem SD_Status_reports_response:
  assumes "\<forall>i<k. miso T (Call_RW 0xFF # resp_polls i (CMD0_frame L)) AND 0x80 \<noteq> 0
                 \<and> timer_running T (resp_polls (Suc i) (CMD0_frame L))"
    and "b = miso T (Call_RW 0xFF # resp_polls k (CMD0_frame L))"
    and "b AND 0x80 = 0 \<or> \<not> timer_running T (resp_polls (Suc k) (CMD0_frame L))"
    and "L' = Call_Timer_Off # (if b AND 0x80 = 0 then Call_RW 0xFF # resp_polls k (CMD0_frame L)
                                 else resp_polls (Suc k) (CMD0_frame L))"
  shows "SD_Send_Cmd T CMD0 0 L = Some (b, L')
       \<and> SD_Status T L = Some (if b \<noteq> 0 then SD_OK else SD_NORESPONSE, L')
       \<and> (\<forall>r. SD_Status T L = Some (r, L') \<longrightarrow>
             (r = SD_OK \<longleftrightarrow> b \<noteq> 0) \<and> (r = SD_NORESPONSE \<longleftrightarrow> b = 0))
       \<and> ((\<forall>X. miso T X = 0xFF) \<longrightarrow>
             SD_Status T L = Some (SD_OK, Call_Timer_Off # resp_polls (Suc k) (CMD0_frame L)))"
proof -
  let ?F = "CMD0_frame L"
  have "cmd_response T ?F = cmd_response T (resp_polls k ?F)"
    by (rule cmd_response_polls [OF assms(1)])
  also have "\<dots> = Some (b, if b AND 0x80 = 0 then Call_RW 0xFF # resp_polls k ?F
                              else resp_polls (Suc k) ?F)"
    using cmd_response_end [OF assms(2)] assms(3) by (simp add: resp_polls_Suc)
  finally have "send_frame T CMD0 0 L = Some (b, L')"
    by (simp add: send_frame_CMD0 assms(4))
  then have cmd: "SD_Send_Cmd T CMD0 0 L = Some (b, L')"
    by (simp add: SD_Send_Cmd_plain CMD0_def)
  then have st: "SD_Status T L = Some (if b \<noteq> 0 then SD_OK else SD_NORESPONSE, L')"
    by (simp add: SD_Status_def)
  have "SD_Status T L = Some (SD_OK, Call_Timer_Off # resp_polls (Suc k) ?F)"
    if "\<forall>X. miso T X = 0xFF"
  proof -
    from that assms(2) have "b = 0xFF" by simp
    with st assms(4) show ?thesis by simp
  qed
  with cmd st show ?thesis by auto
qed

lemma length_resp_polls: "length (resp_polls j L) = 2 * j + length L"
  by (induction j) (simp_all add: resp_polls_Suc, simp add: resp_polls_def)

theorem SD_Status_reports_response_witness:
  "SD_Status dead_bus [] =
     Some (SD_OK, Call_Timer_Off # resp_polls 5 (CMD0_frame []))
   \<and> SD_Status accept_card [] =
     Some (SD_NORESPONSE, Call_Timer_Off # Call_RW 0xFF # CMD0_frame [])
   \<and> SD_Status idle_card [] =
     Some (SD_OK, Call_Timer_Off # Call_RW 0xFF # CMD0_frame [])
   \<and> map_option fst (SD_Send_Cmd dead_bus CMD0 0 []) = Some 0xFF
   \<and> map_option fst (SD_Send_Cmd accept_card CMD0 0 []) = Some 0x00
   \<and> map_option fst (SD_Send_Cmd idle_card CMD0 0 []) = Some 0x01"
proof -
  have a1: "\<forall>i<4. miso dead_bus (Call_RW 0xFF # resp_polls i (CMD0_frame [])) AND 0x80 \<noteq> 0
                 \<and> timer_running dead_bus (resp_polls (Suc i) (CMD0_frame []))"
    by (simp add: dead_bus_def length_resp_polls CMD0_frame_def)
  have a2: "(0xFF::BYTE) = miso dead_bus (Call_RW 0xFF # resp_polls 4 (CMD0_frame []))"
    by (simp add: dead_bus_def)
  have a3: "(0xFF::BYTE) AND 0x80 = 0 \<or> \<not> timer_running dead_bus (resp_polls (Suc 4) (CMD0_frame []))"
    by (simp add: dead_bus_def length_resp_polls CMD0_frame_def)
  have b1: "\<forall>i<0. miso T (Call_RW 0xFF # resp_polls i (CMD0_frame [])) AND 0x80 \<noteq> 0
                 \<and> timer_running T (resp_polls (Suc i) (CMD0_frame []))" for T :: transport
    by simp
  have b2: "(0x00::BYTE) = miso accept_card (Call_RW 0xFF # resp_polls 0 (CMD0_frame []))"
    by (simp add: accept_card_def script_def resp_polls_def CMD0_frame_def)
  have b3: "(0x00::BYTE) AND 0x80 = 0 \<or> \<not> timer_running accept_card (resp_polls (Suc 0) (CMD0_frame []))"
    by simp
  have c2: "(0x01::BYTE) = miso idle_card (Call_RW 0xFF # resp_polls 0 (CMD0_frame []))"
    by (simp add: idle_card_def script_def resp_polls_def CMD0_frame_def)
  have c3: "(0x01::BYTE) AND 0x80 = 0 \<or> \<not> timer_running idle_card (resp_polls (Suc 0) (CMD0_frame []))"
    by simp
  from SD_Status_reports_response [OF a1 a2 a3 refl]
    SD_Status_reports_response [OF b1 b2 b3 refl]
    SD_Status_reports_response [OF b1 c2 c3 refl]
  show ?thesis
    by (simp add: resp_polls_def)
qed

section \<open>A write that skips the parameter check\<close>

text \<open>
  C2. The state machine \<open>SD_Write\<close> of Project 2A checks the sector in state \<open>S1\<close>
  only, and the branch of state \<open>S2\<close> that returns \<open>SD_ERROR\<close> when the card rejects
  \<open>CMD24\<close> ends the operation without setting \<open>n_state\<close> back to \<open>S1\<close> (the
  branches of \<open>S3\<close> and \<open>S6\<close> that end a write do set it, and so does every branch of
  \<open>SD_Read\<close> that ends a read). The write that follows such an error therefore starts in
  \<open>S2\<close>. On a one-sector device, after a write of sector 0 that ended in \<open>SD_ERROR\<close>,
  a write naming sector 7 is not refused: it ends in \<open>SD_ERROR\<close>, not \<open>SD_PARERR\<close>,
  after 14 calls on the transport. This is so for the driver function called on its own and
  for the two requests served by \<open>Task_SD_Server\<close>. In the same situation \<open>SD_Read\<close>
  returns \<open>SD_PARERR\<close> with no call on the transport.
\<close>

theorem SD_Write_2A_unchecked_after_error:
  "n_state write_statics_init = S1 \<and> last_sector dev_one = 0
   \<and> (SD_Write_run_2A cfg dead_bus dev_one 0 0 (\<lambda>a. 0) (write_statics_init, []) \<bind>
        (\<lambda>(r, d, st, L).
           map_option
             (\<lambda>(r', d', st', L').
                (r, idle_busy_status st, n_state st, 7 > last_sector d, r', length L' - length L))
             (SD_Write_run_2A cfg dead_bus d 0 7 (\<lambda>a. 0) (st, L))))
       = Some (SD_ERROR, 0, S2, True, SD_ERROR, 14)
   \<and> (Task_SD_Server_n cfg dead_bus 3 write_request \<bind>
        (\<lambda>w. map_option
           (\<lambda>w'. (next_state w, ErrorCode (g_trans w), n_state (write_st w),
                  Sector (cur_trans w') > last_sector (devs w' (Device (cur_trans w'))),
                  next_state w', Status (g_trans w'), ErrorCode (g_trans w'),
                  length (spi w') - length (spi w)))
           (Task_SD_Server_n cfg dead_bus 2 (request_write 7 w))))
       = Some (S_IDLE, SD_ERROR, S2, True, S_IDLE, STAT_IDLE, SD_ERROR, 14)
   \<and> (SD_Read_run_2A dead_bus dev_one 0 0 0 512 (read_statics_init, \<lambda>a. 0, []) \<bind>
        (\<lambda>(r, d, st, m, L).
           map_option (\<lambda>(r', d', st', m', L'). (r, rn_state st, r', length L' - length L))
             (SD_Read_run_2A dead_bus d 0 7 0 512 (st, m, L))))
       = Some (SD_ERROR, S1, SD_PARERR, 0)"
proof -
  have a: "n_state write_statics_init = S1" "last_sector dev_one = 0"
    by (simp_all add: write_statics_init_def dev_one_def)
  have b: "(SD_Write_run_2A cfg dead_bus dev_one 0 0 (\<lambda>a. 0) (write_statics_init, []) \<bind>
        (\<lambda>(r, d, st, L).
           map_option
             (\<lambda>(r', d', st', L').
                (r, idle_busy_status st, n_state st, 7 > last_sector d, r', length L' - length L))
             (SD_Write_run_2A cfg dead_bus d 0 7 (\<lambda>a. 0) (st, L))))
       = Some (SD_ERROR, 0, S2, True, SD_ERROR, 14)"
    by code_simp
  have c: "(Task_SD_Server_n cfg dead_bus 3 write_request \<bind>
        (\<lambda>w. map_option
           (\<lambda>w'. (next_state w, ErrorCode (g_trans w), n_state (write_st w),
                  Sector (cur_trans w') > last_sector (devs w' (Device (cur_trans w'))),
                  next_state w', Status (g_trans w'), ErrorCode (g_trans w'),
                  length (spi w') - length (spi w)))
           (Task_SD_Server_n cfg dead_bus 2 (request_write 7 w))))
       = Some (S_IDLE, SD_ERROR, S2, True, S_IDLE, STAT_IDLE, SD_ERROR, 14)"
    by code_simp
  have d: "(SD_Read_run_2A dead_bus dev_one 0 0 0 512 (read_statics_init, \<lambda>a. 0, []) \<bind>
        (\<lambda>(r, d, st, m, L).
           map_option (\<lambda>(r', d', st', m', L'). (r, rn_state st, r', length L' - length L))
             (SD_Read_run_2A dead_bus d 0 7 0 512 (st, m, L))))
       = Some (SD_ERROR, S1, SD_PARERR, 0)"
    by code_simp
  from a b c d show ?thesis by (intro conjI)
qed

section \<open>An initialisation that keeps the card type of the one before\<close>

text \<open>
  C6. The state machine \<open>SD_Init\<close> of Project 2A starts in \<open>S1\<close>; its state \<open>S0\<close>,
  which clears \<open>ct\<close> and \<open>init_trys\<close> as the blocking variant does at the start of
  every call, is never entered. The static \<open>ct\<close> therefore keeps the card type confirmed
  by an earlier initialisation. After an initialisation that succeeded, a second one on a
  bus where no card answers (every byte reads \<open>0xFF\<close>) makes no pass of the retry loop
  (\<open>SPI_Init\<close> is not called), returns \<open>SD_OK\<close> and leaves the device mounted, with
  the old card type and with \<open>last_sector = 0xFFFFFFFF\<close>, as \<open>__SD_Sectors\<close> returned
  0. This is so for the driver function called on its own and for the two requests served
  by \<open>Task_SD_Server\<close>. The blocking variant in the same situation makes its three
  passes, returns \<open>SD_NOINIT\<close> and leaves the device unmounted.
\<close>

theorem SD_Init_2A_keeps_card_type:
  "in_states init_statics_init = S1 \<and> init_ct init_statics_init = 0 \<and> SD_INIT_TRYS cfg = 3
   \<and> (SD_Init_run_2A cfg sdhc_2A dev_blank (init_statics_init, []) \<bind>
        (\<lambda>(r, d, st, L).
           map_option
             (\<lambda>(r', d', st', L').
                (r, init_ct st, in_states st, r', mount d', cardtype d', last_sector d',
                 length (filter (\<lambda>c. c = Call_Init) (take (length L' - length L) L'))))
             (SD_Init_run_2A cfg dead_bus d (st, L))))
       = Some (SD_OK, SDCT_SD2 OR SDCT_BLOCK, S1, SD_OK, True, SDCT_SD2 OR SDCT_BLOCK,
               0xFFFFFFFF, 0)
   \<and> (Task_SD_Server_n cfg sdhc_2A 21 init_request \<bind>
        (\<lambda>w. map_option
           (\<lambda>w'. (next_state w, ErrorCode (g_trans w), next_state w', Status (g_trans w'),
                  ErrorCode (g_trans w'), mount (devs w' 0), last_sector (devs w' 0)))
           (Task_SD_Server_n cfg dead_bus 3 (request_init w))))
       = Some (S_IDLE, SD_OK, S_IDLE, STAT_IDLE, SD_OK, True, 0xFFFFFFFF)
   \<and> (SD_Init_2B cfg sdhc_2B dev_blank [] \<bind>
        (\<lambda>(r, d, L).
           map_option
             (\<lambda>(r', d', L').
                (r, r', mount d',
                 length (filter (\<lambda>c. c = Call_Init) (take (length L' - length L) L'))))
             (SD_Init_2B cfg dead_bus d L)))
       = Some (SD_OK, SD_NOINIT, False, 3)"
proof -
  have a: "in_states init_statics_init = S1" "init_ct init_statics_init = 0" "SD_INIT_TRYS cfg = 3"
    by (simp_all add: init_statics_init_def cfg_def)
  have b: "(SD_Init_run_2A cfg sdhc_2A dev_blank (init_statics_init, []) \<bind>
        (\<lambda>(r, d, st, L).
           map_option
             (\<lambda>(r', d', st', L').
                (r, init_ct st, in_states st, r', mount d', cardtype d', last_sector d',
                 length (filter (\<lambda>c. c = Call_Init) (take (length L' - length L) L'))))
             (SD_Init_run_2A cfg dead_bus d (st, L))))
       = Some (SD_OK, SDCT_SD2 OR SDCT_BLOCK, S1, SD_OK, True, SDCT_SD2 OR SDCT_BLOCK,
               0xFFFFFFFF, 0)"
    by code_simp
  have c: "(Task_SD_Server_n cfg sdhc_2A 21 init_request \<bind>
        (\<lambda>w. map_option
           (\<lambda>w'. (next_state w, ErrorCode (g_trans w), next_state w', Status (g_trans w'),
                  ErrorCode (g_trans w'), mount (devs w' 0), last_sector (devs w' 0)))
           (Task_SD_Server_n cfg dead_bus 3 (request_init w))))
       = Some (S_IDLE, SD_OK, S_IDLE, STAT_IDLE, SD_OK, True, 0xFFFFFFFF)"
    by code_simp
  have d: "(SD_Init_2B cfg sdhc_2B dev_blank [] \<bind>
        (\<lambda>(r, d, L).
           map_option
             (\<lambda>(r', d', L').
                (r, r', mount d',
                 length (filter (\<lambda>c. c = Call_Init) (take (length L' - length L) L'))))
             (SD_Init_2B cfg dead_bus d L)))
       = Some (SD_OK, SD_NOINIT, False, 3)"
    by code_simp
  from a b c d show ?thesis by (intro conjI)
qed

text \<open>
  With no card on the bus from the start, both variants make the three passes of the retry
  loop, return \<open>SD_NOINIT\<close> and leave the device unmounted.
\<close>

lemma SD_Init_no_card:
  "map_option (\<lambda>(r, d, L). (r, mount d, length (filter (\<lambda>c. c = Call_Init) L)))
     (SD_Init_2B cfg dead_bus dev_blank []) = Some (SD_NOINIT, False, 3)
   \<and> map_option (\<lambda>(r, d, st, L). (r, mount d, length (filter (\<lambda>c. c = Call_Init) L)))
       (SD_Init_run_2A cfg dead_bus dev_blank (init_statics_init, [])) = Some (SD_NOINIT, False, 3)"
  by code_simp

section \<open>The transaction server: a whole operation\<close>

lemma Task_init_step:
  assumes "next_state w = S_INIT"
    and "SD_Init_2A C T (devs w (Device (cur_trans w))) (init_st w, spi w) = Some (r, dev', st', L')"
  shows "Task_SD_Server C T w =
     Some (if in_status st' = 1
           then w\<lparr>res_static := r, devs := (devs w)(Device (cur_trans w) := dev'), init_st := st',
                  spi := L', next_state := S_INIT\<rparr>
           else w\<lparr>res_static := r, devs := (devs w)(Device (cur_trans w) := dev'), init_st := st',
                  spi := L', next_state := S_IDLE, g_trans := Update_Trans (g_trans w) r\<rparr>)"
  using assms by (simp add: Task_SD_Server_def Let_def finish_step_cases)

lemma Task_read_step:
  assumes "next_state w = S_READ"
    and "SD_Read_2A T (devs w (Device (cur_trans w))) (Data (cur_trans w)) (Sector (cur_trans w))
           0 512 (read_st w, mem_of w, spi w) = Some (r, dev', st', mem', L')"
  shows "Task_SD_Server C T w =
     Some (if read_status st' = 1
           then w\<lparr>res_static := r, devs := (devs w)(Device (cur_trans w) := dev'), read_st := st',
                  mem_of := mem', spi := L', next_state := S_READ\<rparr>
           else w\<lparr>res_static := r, devs := (devs w)(Device (cur_trans w) := dev'), read_st := st',
                  mem_of := mem', spi := L', next_state := S_IDLE,
                  g_trans := Update_Trans (g_trans w) r\<rparr>)"
  using assms by (simp add: Task_SD_Server_def Let_def finish_step_cases)

lemma Task_write_step:
  assumes "next_state w = S_WRITE"
    and "SD_Write_2A C T (devs w (Device (cur_trans w))) (Data (cur_trans w)) (Sector (cur_trans w))
           (write_st w, mem_of w, spi w) = Some (r, dev', st', L')"
  shows "Task_SD_Server C T w =
     Some (if idle_busy_status st' = 1
           then w\<lparr>res_static := r, devs := (devs w)(Device (cur_trans w) := dev'), write_st := st',
                  spi := L', next_state := S_WRITE\<rparr>
           else w\<lparr>res_static := r, devs := (devs w)(Device (cur_trans w) := dev'), write_st := st',
                  spi := L', next_state := S_IDLE, g_trans := Update_Trans (g_trans w) r\<rparr>)"
  using assms by (simp add: Task_SD_Server_def Let_def finish_step_cases)

lemma Task_init_run_aux:
  "SD_Init_run_2A C T dev sl = Some y \<Longrightarrow>
   (\<forall>w. next_state w = S_INIT \<and> devs w (Device (cur_trans w)) = dev \<and> init_st w = fst sl
        \<and> spi w = snd sl \<longrightarrow>
      (\<exists>n. Task_SD_Server_n C T (Suc n) w =
             Some (w\<lparr>res_static := fst y,
                     devs := (devs w)(Device (cur_trans w) := fst (snd y)),
                     init_st := fst (snd (snd y)), spi := snd (snd (snd y)),
                     next_state := S_IDLE, g_trans := Update_Trans (g_trans w) (fst y)\<rparr>)
         \<and> (\<forall>i\<le>n. \<exists>v. Task_SD_Server_n C T i w = Some v \<and> next_state v = S_INIT
                     \<and> g_trans v = g_trans w \<and> cur_trans v = cur_trans w)))"
proof (erule SD_Init_run_2A.raw_induct [rotated], goal_cases)
  case (1 f C T dev sl y)
  obtain st L where sl: "sl = (st, L)" by (cases sl)
  from 1(2) obtain r dev' st' L' where
    step: "SD_Init_2A C T dev (st, L) = Some (r, dev', st', L')"
    and rest: "(if in_status st' = 1 then f C T dev' (st', L')
                else Some (r, dev', st', L')) = Some y"
    unfolding sl by (auto split: bind_splits)
  show ?case
  proof (intro allI impI)
    fix w :: "'a server"
    assume a: "next_state w = S_INIT \<and> devs w (Device (cur_trans w)) = dev \<and> init_st w = fst sl
        \<and> spi w = snd sl"
    then have ns: "next_state w = S_INIT"
      and step': "SD_Init_2A C T (devs w (Device (cur_trans w))) (init_st w, spi w)
                    = Some (r, dev', st', L')"
      using step by (simp_all add: sl)
    note once = Task_init_step [OF ns step']
    let ?goal = "\<exists>n. Task_SD_Server_n C T (Suc n) w =
             Some (w\<lparr>res_static := fst y,
                     devs := (devs w)(Device (cur_trans w) := fst (snd y)),
                     init_st := fst (snd (snd y)), spi := snd (snd (snd y)),
                     next_state := S_IDLE, g_trans := Update_Trans (g_trans w) (fst y)\<rparr>)
         \<and> (\<forall>i\<le>n. \<exists>v. Task_SD_Server_n C T i w = Some v \<and> next_state v = S_INIT
                     \<and> g_trans v = g_trans w \<and> cur_trans v = cur_trans w)"
    show ?goal
    proof (cases "in_status st' = 1")
      case True
      let ?w1 = "w\<lparr>res_static := r, devs := (devs w)(Device (cur_trans w) := dev'),
                   init_st := st', spi := L', next_state := S_INIT\<rparr>"
      from True rest have run: "f C T dev' (st', L') = Some y" by simp
      from True once have t1: "Task_SD_Server C T w = Some ?w1" by simp
      have pre: "next_state ?w1 = S_INIT \<and> devs ?w1 (Device (cur_trans ?w1)) = dev'
                 \<and> init_st ?w1 = fst (st', L') \<and> spi ?w1 = snd (st', L')"
        by simp
      from 1(1) [OF run, THEN spec, of ?w1, THEN mp, OF pre]
      obtain n where fin: "Task_SD_Server_n C T (Suc n) ?w1 =
             Some (?w1\<lparr>res_static := fst y,
                     devs := (devs ?w1)(Device (cur_trans ?w1) := fst (snd y)),
                     init_st := fst (snd (snd y)), spi := snd (snd (snd y)),
                     next_state := S_IDLE, g_trans := Update_Trans (g_trans ?w1) (fst y)\<rparr>)"
        and mid: "\<forall>i\<le>n. \<exists>v. Task_SD_Server_n C T i ?w1 = Some v \<and> next_state v = S_INIT
                     \<and> g_trans v = g_trans ?w1 \<and> cur_trans v = cur_trans ?w1"
        by blast
      have A: "Task_SD_Server_n C T (Suc (Suc n)) w =
             Some (w\<lparr>res_static := fst y,
                     devs := (devs w)(Device (cur_trans w) := fst (snd y)),
                     init_st := fst (snd (snd y)), spi := snd (snd (snd y)),
                     next_state := S_IDLE, g_trans := Update_Trans (g_trans w) (fst y)\<rparr>)"
        using fin t1 by simp
      have B: "\<exists>v. Task_SD_Server_n C T i w = Some v \<and> next_state v = S_INIT
                     \<and> g_trans v = g_trans w \<and> cur_trans v = cur_trans w" if "i \<le> Suc n" for i
      proof (cases i)
        case 0
        with ns show ?thesis by simp
      next
        case (Suc i')
        with that have "i' \<le> n" by simp
        with mid obtain v where "Task_SD_Server_n C T i' ?w1 = Some v" "next_state v = S_INIT"
          "g_trans v = g_trans ?w1" "cur_trans v = cur_trans ?w1"
          by blast
        with Suc t1 show ?thesis by simp
      qed
      from A B show ?thesis by blast
    next
      case False
      with rest have y: "y = (r, dev', st', L')" by simp
      from False once have "Task_SD_Server_n C T (Suc 0) w =
             Some (w\<lparr>res_static := fst y,
                     devs := (devs w)(Device (cur_trans w) := fst (snd y)),
                     init_st := fst (snd (snd y)), spi := snd (snd (snd y)),
                     next_state := S_IDLE, g_trans := Update_Trans (g_trans w) (fst y)\<rparr>)"
        by (simp add: y)
      moreover have "\<forall>i\<le>0. \<exists>v. Task_SD_Server_n C T i w = Some v \<and> next_state v = S_INIT
                     \<and> g_trans v = g_trans w \<and> cur_trans v = cur_trans w"
        using ns by simp
      ultimately show ?thesis by blast
    qed
  qed
qed


lemma Task_read_run_aux:
  "SD_Read_run_2A T dev dat sector ofs cnt sml = Some y \<Longrightarrow>
   (\<forall>w. next_state w = S_READ \<and> devs w (Device (cur_trans w)) = dev
        \<and> Data (cur_trans w) = dat \<and> Sector (cur_trans w) = sector \<and> ofs = 0 \<and> cnt = 512
        \<and> read_st w = fst sml \<and> mem_of w = fst (snd sml) \<and> spi w = snd (snd sml) \<longrightarrow>
      (\<exists>n. Task_SD_Server_n C T (Suc n) w =
             Some (w\<lparr>res_static := fst y,
                     devs := (devs w)(Device (cur_trans w) := fst (snd y)),
                     read_st := fst (snd (snd y)), mem_of := fst (snd (snd (snd y))),
                     spi := snd (snd (snd (snd y))),
                     next_state := S_IDLE, g_trans := Update_Trans (g_trans w) (fst y)\<rparr>)
         \<and> (\<forall>i\<le>n. \<exists>v. Task_SD_Server_n C T i w = Some v \<and> next_state v = S_READ
                     \<and> g_trans v = g_trans w \<and> cur_trans v = cur_trans w)))"
proof (erule SD_Read_run_2A.raw_induct [rotated], goal_cases)
  case (1 f T dev dat sector ofs cnt sml y)
  obtain st mem L where sml: "sml = (st, mem, L)" by (cases sml)
  from 1(2) obtain r dev' st' mem' L' where
    step: "SD_Read_2A T dev dat sector ofs cnt (st, mem, L) = Some (r, dev', st', mem', L')"
    and rest: "(if read_status st' = 1 then f T dev' dat sector ofs cnt (st', mem', L')
                else Some (r, dev', st', mem', L')) = Some y"
    unfolding sml by (auto split: bind_splits)
  show ?case
  proof (intro allI impI)
    fix w :: "'a server"
    assume a: "next_state w = S_READ \<and> devs w (Device (cur_trans w)) = dev
        \<and> Data (cur_trans w) = dat \<and> Sector (cur_trans w) = sector \<and> ofs = 0 \<and> cnt = 512
        \<and> read_st w = fst sml \<and> mem_of w = fst (snd sml) \<and> spi w = snd (snd sml)"
    then have ns: "next_state w = S_READ"
      and step': "SD_Read_2A T (devs w (Device (cur_trans w))) (Data (cur_trans w))
                    (Sector (cur_trans w)) 0 512 (read_st w, mem_of w, spi w)
                    = Some (r, dev', st', mem', L')"
      using step by (simp_all add: sml)
    note once = Task_read_step [OF ns step', of C]
    let ?goal = "\<exists>n. Task_SD_Server_n C T (Suc n) w =
             Some (w\<lparr>res_static := fst y,
                     devs := (devs w)(Device (cur_trans w) := fst (snd y)),
                     read_st := fst (snd (snd y)), mem_of := fst (snd (snd (snd y))),
                     spi := snd (snd (snd (snd y))),
                     next_state := S_IDLE, g_trans := Update_Trans (g_trans w) (fst y)\<rparr>)
         \<and> (\<forall>i\<le>n. \<exists>v. Task_SD_Server_n C T i w = Some v \<and> next_state v = S_READ
                     \<and> g_trans v = g_trans w \<and> cur_trans v = cur_trans w)"
    show ?goal
    proof (cases "read_status st' = 1")
      case True
      let ?w1 = "w\<lparr>res_static := r, devs := (devs w)(Device (cur_trans w) := dev'),
                   read_st := st', mem_of := mem', spi := L', next_state := S_READ\<rparr>"
      from True rest have run: "f T dev' dat sector ofs cnt (st', mem', L') = Some y" by simp
      from True once have t1: "Task_SD_Server C T w = Some ?w1" by simp
      have pre: "next_state ?w1 = S_READ \<and> devs ?w1 (Device (cur_trans ?w1)) = dev'
                 \<and> Data (cur_trans ?w1) = dat \<and> Sector (cur_trans ?w1) = sector
                 \<and> ofs = 0 \<and> cnt = 512
                 \<and> read_st ?w1 = fst (st', mem', L') \<and> mem_of ?w1 = fst (snd (st', mem', L'))
                 \<and> spi ?w1 = snd (snd (st', mem', L'))"
        using a by simp
      from 1(1) [OF run, THEN spec, of ?w1, THEN mp, OF pre]
      obtain n where fin: "Task_SD_Server_n C T (Suc n) ?w1 =
             Some (?w1\<lparr>res_static := fst y,
                     devs := (devs ?w1)(Device (cur_trans ?w1) := fst (snd y)),
                     read_st := fst (snd (snd y)), mem_of := fst (snd (snd (snd y))),
                     spi := snd (snd (snd (snd y))),
                     next_state := S_IDLE, g_trans := Update_Trans (g_trans ?w1) (fst y)\<rparr>)"
        and mid: "\<forall>i\<le>n. \<exists>v. Task_SD_Server_n C T i ?w1 = Some v \<and> next_state v = S_READ
                     \<and> g_trans v = g_trans ?w1 \<and> cur_trans v = cur_trans ?w1"
        by blast
      have A: "Task_SD_Server_n C T (Suc (Suc n)) w =
             Some (w\<lparr>res_static := fst y,
                     devs := (devs w)(Device (cur_trans w) := fst (snd y)),
                     read_st := fst (snd (snd y)), mem_of := fst (snd (snd (snd y))),
                     spi := snd (snd (snd (snd y))),
                     next_state := S_IDLE, g_trans := Update_Trans (g_trans w) (fst y)\<rparr>)"
        using fin t1 by simp
      have B: "\<exists>v. Task_SD_Server_n C T i w = Some v \<and> next_state v = S_READ
                     \<and> g_trans v = g_trans w \<and> cur_trans v = cur_trans w" if "i \<le> Suc n" for i
      proof (cases i)
        case 0
        with ns show ?thesis by simp
      next
        case (Suc i')
        with that have "i' \<le> n" by simp
        with mid obtain v where "Task_SD_Server_n C T i' ?w1 = Some v" "next_state v = S_READ"
          "g_trans v = g_trans ?w1" "cur_trans v = cur_trans ?w1"
          by blast
        with Suc t1 show ?thesis by simp
      qed
      from A B show ?thesis by blast
    next
      case False
      with rest have y: "y = (r, dev', st', mem', L')" by simp
      from False once have "Task_SD_Server_n C T (Suc 0) w =
             Some (w\<lparr>res_static := fst y,
                     devs := (devs w)(Device (cur_trans w) := fst (snd y)),
                     read_st := fst (snd (snd y)), mem_of := fst (snd (snd (snd y))),
                     spi := snd (snd (snd (snd y))),
                     next_state := S_IDLE, g_trans := Update_Trans (g_trans w) (fst y)\<rparr>)"
        by (simp add: y)
      moreover have "\<forall>i\<le>0. \<exists>v. Task_SD_Server_n C T i w = Some v \<and> next_state v = S_READ
                     \<and> g_trans v = g_trans w \<and> cur_trans v = cur_trans w"
        using ns by simp
      ultimately show ?thesis by blast
    qed
  qed
qed

lemma Task_write_run_aux:
  "SD_Write_run_2A C T dev dat sector mem sl = Some y \<Longrightarrow>
   (\<forall>w. next_state w = S_WRITE \<and> devs w (Device (cur_trans w)) = dev
        \<and> Data (cur_trans w) = dat \<and> Sector (cur_trans w) = sector
        \<and> write_st w = fst sl \<and> mem_of w = mem \<and> spi w = snd sl \<longrightarrow>
      (\<exists>n. Task_SD_Server_n C T (Suc n) w =
             Some (w\<lparr>res_static := fst y,
                     devs := (devs w)(Device (cur_trans w) := fst (snd y)),
                     write_st := fst (snd (snd y)), spi := snd (snd (snd y)),
                     next_state := S_IDLE, g_trans := Update_Trans (g_trans w) (fst y)\<rparr>)
         \<and> (\<forall>i\<le>n. \<exists>v. Task_SD_Server_n C T i w = Some v \<and> next_state v = S_WRITE
                     \<and> g_trans v = g_trans w \<and> cur_trans v = cur_trans w)))"
proof (erule SD_Write_run_2A.raw_induct [rotated], goal_cases)
  case (1 f C T dev dat sector mem sl y)
  obtain st L where sl: "sl = (st, L)" by (cases sl)
  from 1(2) obtain r dev' st' L' where
    step: "SD_Write_2A C T dev dat sector (st, mem, L) = Some (r, dev', st', L')"
    and rest: "(if idle_busy_status st' = 1 then f C T dev' dat sector mem (st', L')
                else Some (r, dev', st', L')) = Some y"
    unfolding sl by (auto split: bind_splits)
  show ?case
  proof (intro allI impI)
    fix w :: "'a server"
    assume a: "next_state w = S_WRITE \<and> devs w (Device (cur_trans w)) = dev
        \<and> Data (cur_trans w) = dat \<and> Sector (cur_trans w) = sector
        \<and> write_st w = fst sl \<and> mem_of w = mem \<and> spi w = snd sl"
    then have ns: "next_state w = S_WRITE"
      and step': "SD_Write_2A C T (devs w (Device (cur_trans w))) (Data (cur_trans w))
                    (Sector (cur_trans w)) (write_st w, mem_of w, spi w)
                    = Some (r, dev', st', L')"
      using step by (simp_all add: sl)
    note once = Task_write_step [OF ns step']
    let ?goal = "\<exists>n. Task_SD_Server_n C T (Suc n) w =
             Some (w\<lparr>res_static := fst y,
                     devs := (devs w)(Device (cur_trans w) := fst (snd y)),
                     write_st := fst (snd (snd y)), spi := snd (snd (snd y)),
                     next_state := S_IDLE, g_trans := Update_Trans (g_trans w) (fst y)\<rparr>)
         \<and> (\<forall>i\<le>n. \<exists>v. Task_SD_Server_n C T i w = Some v \<and> next_state v = S_WRITE
                     \<and> g_trans v = g_trans w \<and> cur_trans v = cur_trans w)"
    show ?goal
    proof (cases "idle_busy_status st' = 1")
      case True
      let ?w1 = "w\<lparr>res_static := r, devs := (devs w)(Device (cur_trans w) := dev'),
                   write_st := st', spi := L', next_state := S_WRITE\<rparr>"
      from True rest have run: "f C T dev' dat sector mem (st', L') = Some y" by simp
      from True once have t1: "Task_SD_Server C T w = Some ?w1" by simp
      have pre: "next_state ?w1 = S_WRITE \<and> devs ?w1 (Device (cur_trans ?w1)) = dev'
                 \<and> Data (cur_trans ?w1) = dat \<and> Sector (cur_trans ?w1) = sector
                 \<and> write_st ?w1 = fst (st', L') \<and> mem_of ?w1 = mem \<and> spi ?w1 = snd (st', L')"
        using a by simp
      from 1(1) [OF run, THEN spec, of ?w1, THEN mp, OF pre]
      obtain n where fin: "Task_SD_Server_n C T (Suc n) ?w1 =
             Some (?w1\<lparr>res_static := fst y,
                     devs := (devs ?w1)(Device (cur_trans ?w1) := fst (snd y)),
                     write_st := fst (snd (snd y)), spi := snd (snd (snd y)),
                     next_state := S_IDLE, g_trans := Update_Trans (g_trans ?w1) (fst y)\<rparr>)"
        and mid: "\<forall>i\<le>n. \<exists>v. Task_SD_Server_n C T i ?w1 = Some v \<and> next_state v = S_WRITE
                     \<and> g_trans v = g_trans ?w1 \<and> cur_trans v = cur_trans ?w1"
        by blast
      have A: "Task_SD_Server_n C T (Suc (Suc n)) w =
             Some (w\<lparr>res_static := fst y,
                     devs := (devs w)(Device (cur_trans w) := fst (snd y)),
                     write_st := fst (snd (snd y)), spi := snd (snd (snd y)),
                     next_state := S_IDLE, g_trans := Update_Trans (g_trans w) (fst y)\<rparr>)"
        using fin t1 by simp
      have B: "\<exists>v. Task_SD_Server_n C T i w = Some v \<and> next_state v = S_WRITE
                     \<and> g_trans v = g_trans w \<and> cur_trans v = cur_trans w" if "i \<le> Suc n" for i
      proof (cases i)
        case 0
        with ns show ?thesis by simp
      next
        case (Suc i')
        with that have "i' \<le> n" by simp
        with mid obtain v where "Task_SD_Server_n C T i' ?w1 = Some v" "next_state v = S_WRITE"
          "g_trans v = g_trans ?w1" "cur_trans v = cur_trans ?w1"
          by blast
        with Suc t1 show ?thesis by simp
      qed
      from A B show ?thesis by blast
    next
      case False
      with rest have y: "y = (r, dev', st', L')" by simp
      from False once have "Task_SD_Server_n C T (Suc 0) w =
             Some (w\<lparr>res_static := fst y,
                     devs := (devs w)(Device (cur_trans w) := fst (snd y)),
                     write_st := fst (snd (snd y)), spi := snd (snd (snd y)),
                     next_state := S_IDLE, g_trans := Update_Trans (g_trans w) (fst y)\<rparr>)"
        by (simp add: y)
      moreover have "\<forall>i\<le>0. \<exists>v. Task_SD_Server_n C T i w = Some v \<and> next_state v = S_WRITE
                     \<and> g_trans v = g_trans w \<and> cur_trans v = cur_trans w"
        using ns by simp
      ultimately show ?thesis by blast
    qed
  qed
qed

lemma Task_operation_flag:
  assumes "next_state v \<in> {S_INIT, S_READ, S_WRITE}"
  shows "case (op_result C T v, op_status C T v) of
           (Some r, Some f) \<Rightarrow>
             (\<exists>v'. Task_SD_Server C T v = Some v' \<and> res_static v' = r
                 \<and> cur_trans v' = cur_trans v
                 \<and> next_state v' = (if f = 1 then next_state v else S_IDLE)
                 \<and> g_trans v' = (if f = 1 then g_trans v else Update_Trans (g_trans v) r))
         | _ \<Rightarrow> Task_SD_Server C T v = None"
  using assms
  by (auto simp: Task_SD_Server_def op_result_def op_status_def Let_def finish_step_cases
      split: bind_splits option.splits)


lemma Update_Trans_busy:
  "Update_Trans (t\<lparr>Status := STAT_BUSY\<rparr>) r =
     t\<lparr>ErrorCode := r, Status := STAT_IDLE, Request := REQ_NONE\<rparr>"
  by (simp add: Update_Trans_def)

text \<open>
  C8. Let a request with code init, read or write be in the shared descriptor while the
  server is idle.

  \<^item> The first activation copies the descriptor into \<open>cur_trans\<close>, sets the shared status
    to busy and moves to the state of the request.
  \<^item> After any further number of activations the server is either still in that state,
    with the snapshot and the shared descriptor unchanged and hence busy, or it has
    completed. While it is in that state, the next activation calls the driver function;
    it returns exactly when the driver function does, and the status flag the driver
    function leaves decides: on 1 the server stays in the state and leaves the shared
    descriptor alone, on any other value it writes the value returned by the driver
    function into \<open>ErrorCode\<close>, sets the status to idle, clears the request and
    returns to \<open>S_IDLE\<close>. Once completed, further activations change nothing.
  \<^item> Whenever the operation of the driver (initialisation, read of a whole block, write)
    started from the statics, device, memory and transport log of the server comes to an
    end, the server completes: there is a number \<open>n\<close> of activations after which it is
    in the state of the request and busy for each of the first \<open>n + 1\<close> activations,
    and after one more it is idle, with the result, device, statics, memory and log of the
    operation stored and the result published in the shared descriptor.
\<close>

theorem Task_SD_Server_transaction:
  assumes idle: "next_state w = S_IDLE"
    and req: "Request (g_trans w) \<in> {REQ_INIT, REQ_READ, REQ_WRITE}"
  shows "Task_SD_Server C T w =
           Some (w\<lparr>cur_trans := g_trans w, next_state := Req_to_State ! Request (g_trans w),
                   g_trans := (g_trans w)\<lparr>Status := STAT_BUSY\<rparr>\<rparr>)
       \<and> Req_to_State ! Request (g_trans w) =
           (if Request (g_trans w) = REQ_INIT then S_INIT
            else if Request (g_trans w) = REQ_READ then S_READ else S_WRITE)
       \<and> (\<forall>j v. Task_SD_Server_n C T (Suc j) w = Some v \<longrightarrow>
            (next_state v = Req_to_State ! Request (g_trans w)
             \<and> cur_trans v = g_trans w
             \<and> g_trans v = (g_trans w)\<lparr>Status := STAT_BUSY\<rparr>
             \<and> (case (op_result C T v, op_status C T v) of
                  (Some r, Some f) \<Rightarrow>
                    (\<exists>v'. Task_SD_Server C T v = Some v' \<and> cur_trans v' = cur_trans v
                        \<and> next_state v' = (if f = 1 then next_state v else S_IDLE)
                        \<and> g_trans v' =
                            (if f = 1 then g_trans v
                             else (g_trans w)\<lparr>ErrorCode := r, Status := STAT_IDLE,
                                               Request := REQ_NONE\<rparr>))
                | _ \<Rightarrow> Task_SD_Server C T v = None))
          \<or> (next_state v = S_IDLE
              \<and> (\<exists>r. g_trans v = (g_trans w)\<lparr>ErrorCode := r, Status := STAT_IDLE,
                                              Request := REQ_NONE\<rparr>)
              \<and> Task_SD_Server C T v = Some v))
       \<and> (\<forall>r dev' st' L'.
            Request (g_trans w) = REQ_INIT
            \<and> SD_Init_run_2A C T (devs w (Device (g_trans w))) (init_st w, spi w)
                = Some (r, dev', st', L') \<longrightarrow>
            (\<exists>n. Task_SD_Server_n C T (Suc (Suc n)) w =
                    Some (w\<lparr>cur_trans := g_trans w, res_static := r,
                            devs := (devs w)(Device (g_trans w) := dev'),
                            init_st := st', spi := L', next_state := S_IDLE,
                            g_trans := (g_trans w)\<lparr>ErrorCode := r, Status := STAT_IDLE,
                                                   Request := REQ_NONE\<rparr>\<rparr>)
                \<and> (\<forall>i\<le>n. \<exists>v. Task_SD_Server_n C T (Suc i) w = Some v
                       \<and> next_state v = S_INIT \<and> Status (g_trans v) = STAT_BUSY)))
       \<and> (\<forall>r dev' st' mem' L'.
            Request (g_trans w) = REQ_READ
            \<and> SD_Read_run_2A T (devs w (Device (g_trans w))) (Data (g_trans w))
                  (Sector (g_trans w)) 0 512 (read_st w, mem_of w, spi w)
                = Some (r, dev', st', mem', L') \<longrightarrow>
            (\<exists>n. Task_SD_Server_n C T (Suc (Suc n)) w =
                    Some (w\<lparr>cur_trans := g_trans w, res_static := r,
                            devs := (devs w)(Device (g_trans w) := dev'),
                            read_st := st', mem_of := mem', spi := L', next_state := S_IDLE,
                            g_trans := (g_trans w)\<lparr>ErrorCode := r, Status := STAT_IDLE,
                                                   Request := REQ_NONE\<rparr>\<rparr>)
                \<and> (\<forall>i\<le>n. \<exists>v. Task_SD_Server_n C T (Suc i) w = Some v
                       \<and> next_state v = S_READ \<and> Status (g_trans v) = STAT_BUSY)))
       \<and> (\<forall>r dev' st' L'.
            Request (g_trans w) = REQ_WRITE
            \<and> SD_Write_run_2A C T (devs w (Device (g_trans w))) (Data (g_trans w))
                  (Sector (g_trans w)) (mem_of w) (write_st w, spi w)
                = Some (r, dev', st', L') \<longrightarrow>
            (\<exists>n. Task_SD_Server_n C T (Suc (Suc n)) w =
                    Some (w\<lparr>cur_trans := g_trans w, res_static := r,
                            devs := (devs w)(Device (g_trans w) := dev'),
                            write_st := st', spi := L', next_state := S_IDLE,
                            g_trans := (g_trans w)\<lparr>ErrorCode := r, Status := STAT_IDLE,
                                                   Request := REQ_NONE\<rparr>\<rparr>)
                \<and> (\<forall>i\<le>n. \<exists>v. Task_SD_Server_n C T (Suc i) w = Some v
                       \<and> next_state v = S_WRITE \<and> Status (g_trans v) = STAT_BUSY)))"
proof -
  let ?s = "Req_to_State ! Request (g_trans w)"
  let ?w1 = "w\<lparr>cur_trans := g_trans w, next_state := ?s,
               g_trans := (g_trans w)\<lparr>Status := STAT_BUSY\<rparr>\<rparr>"
  have ns: "?s = (if Request (g_trans w) = REQ_INIT then S_INIT
                  else if Request (g_trans w) = REQ_READ then S_READ else S_WRITE)"
    using req by (auto simp: Req_to_State_def REQ_INIT_def REQ_READ_def REQ_WRITE_def)
  have acc: "Task_SD_Server C T w = Some ?w1"
    by (simp only: Task_accept [OF idle req] ns)
  have op: "next_state ?w1 \<in> {S_INIT, S_READ, S_WRITE}"
    by (simp add: ns)
  have inv: "(next_state v = ?s \<and> cur_trans v = g_trans w
              \<and> g_trans v = (g_trans w)\<lparr>Status := STAT_BUSY\<rparr>
              \<and> (case (op_result C T v, op_status C T v) of
                  (Some r, Some f) \<Rightarrow>
                    (\<exists>v'. Task_SD_Server C T v = Some v' \<and> cur_trans v' = cur_trans v
                        \<and> next_state v' = (if f = 1 then next_state v else S_IDLE)
                        \<and> g_trans v' =
                            (if f = 1 then g_trans v
                             else (g_trans w)\<lparr>ErrorCode := r, Status := STAT_IDLE,
                                               Request := REQ_NONE\<rparr>))
                | _ \<Rightarrow> Task_SD_Server C T v = None))
          \<or> (next_state v = S_IDLE
              \<and> (\<exists>r. g_trans v = (g_trans w)\<lparr>ErrorCode := r, Status := STAT_IDLE,
                                              Request := REQ_NONE\<rparr>)
              \<and> Task_SD_Server C T v = Some v)"
    if run: "Task_SD_Server_n C T (Suc j) w = Some v" for j v
  proof -
    from run acc have rest: "Task_SD_Server_n C T j ?w1 = Some v"
      by simp
    from Task_n_progress [OF rest op] show ?thesis
    proof
      assume a: "next_state v = next_state ?w1 \<and> g_trans v = g_trans ?w1
                 \<and> cur_trans v = cur_trans ?w1"
      then have b: "next_state v = ?s" "cur_trans v = g_trans w"
        "g_trans v = (g_trans w)\<lparr>Status := STAT_BUSY\<rparr>"
        by simp_all
      with op have opv: "next_state v \<in> {S_INIT, S_READ, S_WRITE}"
        by simp
      from Task_operation_flag [OF opv, of C T] b show ?thesis
        by (auto simp: Update_Trans_busy split: option.splits)
    next
      assume a: "next_state v = S_IDLE \<and> (\<exists>r. g_trans v = Update_Trans (g_trans ?w1) r)"
      then obtain r where r: "g_trans v = Update_Trans (g_trans ?w1) r"
        by blast
      then have g: "g_trans v = (g_trans w)\<lparr>ErrorCode := r, Status := STAT_IDLE,
                                              Request := REQ_NONE\<rparr>"
        by (simp add: Update_Trans_def)
      then have "Request (g_trans v) = REQ_NONE"
        by simp
      with a have "Task_SD_Server C T v = Some v"
        by (simp add: Task_idle_none)
      with a g show ?thesis by blast
    qed
  qed
  have busy: "\<forall>i\<le>n. \<exists>v. Task_SD_Server_n C T (Suc i) w = Some v
                       \<and> next_state v = s \<and> Status (g_trans v) = STAT_BUSY"
    if "\<forall>i\<le>n. \<exists>v. Task_SD_Server_n C T i ?w1 = Some v \<and> next_state v = s
                     \<and> g_trans v = g_trans ?w1 \<and> cur_trans v = cur_trans ?w1" for n s
  proof (intro allI impI)
    fix i assume "i \<le> n"
    with that obtain v where "Task_SD_Server_n C T i ?w1 = Some v" "next_state v = s"
      "g_trans v = g_trans ?w1"
      by blast
    with acc show "\<exists>v. Task_SD_Server_n C T (Suc i) w = Some v
                       \<and> next_state v = s \<and> Status (g_trans v) = STAT_BUSY"
      by simp
  qed
  have fin_init:
    "\<exists>n. Task_SD_Server_n C T (Suc (Suc n)) w =
                    Some (w\<lparr>cur_trans := g_trans w, res_static := r,
                            devs := (devs w)(Device (g_trans w) := dev'),
                            init_st := st', spi := L', next_state := S_IDLE,
                            g_trans := (g_trans w)\<lparr>ErrorCode := r, Status := STAT_IDLE,
                                                   Request := REQ_NONE\<rparr>\<rparr>)
                \<and> (\<forall>i\<le>n. \<exists>v. Task_SD_Server_n C T (Suc i) w = Some v
                       \<and> next_state v = S_INIT \<and> Status (g_trans v) = STAT_BUSY)"
    if q: "Request (g_trans w) = REQ_INIT"
      and run: "SD_Init_run_2A C T (devs w (Device (g_trans w))) (init_st w, spi w)
                = Some (r, dev', st', L')" for r dev' st' L'
  proof -
    from q ns have s: "?s = S_INIT" by simp
    have pre: "next_state ?w1 = S_INIT
        \<and> devs ?w1 (Device (cur_trans ?w1)) = devs w (Device (g_trans w))
        \<and> init_st ?w1 = fst (init_st w, spi w) \<and> spi ?w1 = snd (init_st w, spi w)"
      by (simp add: s)
    from Task_init_run_aux [OF run, THEN spec, of ?w1, THEN mp, OF pre]
    obtain n where fin: "Task_SD_Server_n C T (Suc n) ?w1 =
             Some (?w1\<lparr>res_static := fst (r, dev', st', L'),
                     devs := (devs ?w1)(Device (cur_trans ?w1) := fst (snd (r, dev', st', L'))),
                     init_st := fst (snd (snd (r, dev', st', L'))),
                     spi := snd (snd (snd (r, dev', st', L'))),
                     next_state := S_IDLE,
                     g_trans := Update_Trans (g_trans ?w1) (fst (r, dev', st', L'))\<rparr>)"
      and mid: "\<forall>i\<le>n. \<exists>v. Task_SD_Server_n C T i ?w1 = Some v \<and> next_state v = S_INIT
                     \<and> g_trans v = g_trans ?w1 \<and> cur_trans v = cur_trans ?w1"
      by blast
    from fin acc have "Task_SD_Server_n C T (Suc (Suc n)) w =
                    Some (w\<lparr>cur_trans := g_trans w, res_static := r,
                            devs := (devs w)(Device (g_trans w) := dev'),
                            init_st := st', spi := L', next_state := S_IDLE,
                            g_trans := (g_trans w)\<lparr>ErrorCode := r, Status := STAT_IDLE,
                                                   Request := REQ_NONE\<rparr>\<rparr>)"
      by (simp add: Update_Trans_def)
    with busy [OF mid] show ?thesis by blast
  qed
  have fin_read:
    "\<exists>n. Task_SD_Server_n C T (Suc (Suc n)) w =
                    Some (w\<lparr>cur_trans := g_trans w, res_static := r,
                            devs := (devs w)(Device (g_trans w) := dev'),
                            read_st := st', mem_of := mem', spi := L', next_state := S_IDLE,
                            g_trans := (g_trans w)\<lparr>ErrorCode := r, Status := STAT_IDLE,
                                                   Request := REQ_NONE\<rparr>\<rparr>)
                \<and> (\<forall>i\<le>n. \<exists>v. Task_SD_Server_n C T (Suc i) w = Some v
                       \<and> next_state v = S_READ \<and> Status (g_trans v) = STAT_BUSY)"
    if q: "Request (g_trans w) = REQ_READ"
      and run: "SD_Read_run_2A T (devs w (Device (g_trans w))) (Data (g_trans w))
                  (Sector (g_trans w)) 0 512 (read_st w, mem_of w, spi w)
                = Some (r, dev', st', mem', L')" for r dev' st' mem' L'
  proof -
    from q ns have s: "?s = S_READ" by (simp add: REQ_INIT_def REQ_READ_def)
    have pre: "next_state ?w1 = S_READ
        \<and> devs ?w1 (Device (cur_trans ?w1)) = devs w (Device (g_trans w))
        \<and> Data (cur_trans ?w1) = Data (g_trans w) \<and> Sector (cur_trans ?w1) = Sector (g_trans w)
        \<and> (0::WORD) = 0 \<and> (512::WORD) = 512
        \<and> read_st ?w1 = fst (read_st w, mem_of w, spi w)
        \<and> mem_of ?w1 = fst (snd (read_st w, mem_of w, spi w))
        \<and> spi ?w1 = snd (snd (read_st w, mem_of w, spi w))"
      by (simp add: s)
    from Task_read_run_aux [OF run, THEN spec, of ?w1, THEN mp, OF pre, of C]
    obtain n where fin: "Task_SD_Server_n C T (Suc n) ?w1 =
             Some (?w1\<lparr>res_static := fst (r, dev', st', mem', L'),
                     devs := (devs ?w1)(Device (cur_trans ?w1) := fst (snd (r, dev', st', mem', L'))),
                     read_st := fst (snd (snd (r, dev', st', mem', L'))),
                     mem_of := fst (snd (snd (snd (r, dev', st', mem', L')))),
                     spi := snd (snd (snd (snd (r, dev', st', mem', L')))),
                     next_state := S_IDLE,
                     g_trans := Update_Trans (g_trans ?w1) (fst (r, dev', st', mem', L'))\<rparr>)"
      and mid: "\<forall>i\<le>n. \<exists>v. Task_SD_Server_n C T i ?w1 = Some v \<and> next_state v = S_READ
                     \<and> g_trans v = g_trans ?w1 \<and> cur_trans v = cur_trans ?w1"
      by blast
    from fin acc have "Task_SD_Server_n C T (Suc (Suc n)) w =
                    Some (w\<lparr>cur_trans := g_trans w, res_static := r,
                            devs := (devs w)(Device (g_trans w) := dev'),
                            read_st := st', mem_of := mem', spi := L', next_state := S_IDLE,
                            g_trans := (g_trans w)\<lparr>ErrorCode := r, Status := STAT_IDLE,
                                                   Request := REQ_NONE\<rparr>\<rparr>)"
      by (simp add: Update_Trans_def)
    with busy [OF mid] show ?thesis by blast
  qed
  have fin_write:
    "\<exists>n. Task_SD_Server_n C T (Suc (Suc n)) w =
                    Some (w\<lparr>cur_trans := g_trans w, res_static := r,
                            devs := (devs w)(Device (g_trans w) := dev'),
                            write_st := st', spi := L', next_state := S_IDLE,
                            g_trans := (g_trans w)\<lparr>ErrorCode := r, Status := STAT_IDLE,
                                                   Request := REQ_NONE\<rparr>\<rparr>)
                \<and> (\<forall>i\<le>n. \<exists>v. Task_SD_Server_n C T (Suc i) w = Some v
                       \<and> next_state v = S_WRITE \<and> Status (g_trans v) = STAT_BUSY)"
    if q: "Request (g_trans w) = REQ_WRITE"
      and run: "SD_Write_run_2A C T (devs w (Device (g_trans w))) (Data (g_trans w))
                  (Sector (g_trans w)) (mem_of w) (write_st w, spi w)
                = Some (r, dev', st', L')" for r dev' st' L'
  proof -
    from q ns have s: "?s = S_WRITE" by (simp add: REQ_INIT_def REQ_READ_def REQ_WRITE_def)
    have pre: "next_state ?w1 = S_WRITE
        \<and> devs ?w1 (Device (cur_trans ?w1)) = devs w (Device (g_trans w))
        \<and> Data (cur_trans ?w1) = Data (g_trans w) \<and> Sector (cur_trans ?w1) = Sector (g_trans w)
        \<and> write_st ?w1 = fst (write_st w, spi w) \<and> mem_of ?w1 = mem_of w
        \<and> spi ?w1 = snd (write_st w, spi w)"
      by (simp add: s)
    from Task_write_run_aux [OF run, THEN spec, of ?w1, THEN mp, OF pre]
    obtain n where fin: "Task_SD_Server_n C T (Suc n) ?w1 =
             Some (?w1\<lparr>res_static := fst (r, dev', st', L'),
                     devs := (devs ?w1)(Device (cur_trans ?w1) := fst (snd (r, dev', st', L'))),
                     write_st := fst (snd (snd (r, dev', st', L'))),
                     spi := snd (snd (snd (r, dev', st', L'))),
                     next_state := S_IDLE,
                     g_trans := Update_Trans (g_trans ?w1) (fst (r, dev', st', L'))\<rparr>)"
      and mid: "\<forall>i\<le>n. \<exists>v. Task_SD_Server_n C T i ?w1 = Some v \<and> next_state v = S_WRITE
                     \<and> g_trans v = g_trans ?w1 \<and> cur_trans v = cur_trans ?w1"
      by blast
    from fin acc have "Task_SD_Server_n C T (Suc (Suc n)) w =
                    Some (w\<lparr>cur_trans := g_trans w, res_static := r,
                            devs := (devs w)(Device (g_trans w) := dev'),
                            write_st := st', spi := L', next_state := S_IDLE,
                            g_trans := (g_trans w)\<lparr>ErrorCode := r, Status := STAT_IDLE,
                                                   Request := REQ_NONE\<rparr>\<rparr>)"
      by (simp add: Update_Trans_def)
    with busy [OF mid] show ?thesis by blast
  qed
  show ?thesis
    apply (intro conjI allI impI)
    subgoal by (rule acc)
    subgoal by (rule ns)
    subgoal for j v by (rule inv)
    subgoal for r dev' st' L' by (rule fin_init) simp_all
    subgoal for r dev' st' mem' L' by (rule fin_read) simp_all
    subgoal for r dev' st' L' by (rule fin_write) simp_all
    done
qed




theorem Task_SD_Server_transaction_witness:
  "next_state init_request = S_IDLE \<and> Request (g_trans init_request) = REQ_INIT
   \<and> next_state read_request = S_IDLE \<and> Request (g_trans read_request) = REQ_READ
   \<and> next_state write_request = S_IDLE \<and> Request (g_trans write_request) = REQ_WRITE
   \<and> map_option (\<lambda>v. (next_state v, Status (g_trans v), Request (g_trans v)))
        (Task_SD_Server_n cfg sdhc_2A 20 init_request) = Some (S_INIT, STAT_BUSY, REQ_INIT)
   \<and> map_option (\<lambda>v. (next_state v, Status (g_trans v), Request (g_trans v), ErrorCode (g_trans v)))
        (Task_SD_Server_n cfg sdhc_2A 21 init_request) = Some (S_IDLE, STAT_IDLE, REQ_NONE, SD_OK)
   \<and> (\<exists>n dev' st' L'. Task_SD_Server_n cfg sdhc_2A (Suc (Suc n)) init_request =
          Some (init_request\<lparr>cur_trans := g_trans init_request, res_static := SD_OK,
                  devs := (devs init_request)(0 := dev'), init_st := st', spi := L',
                  next_state := S_IDLE,
                  g_trans := (g_trans init_request)\<lparr>ErrorCode := SD_OK, Status := STAT_IDLE,
                                                      Request := REQ_NONE\<rparr>\<rparr>)
          \<and> mount dev' \<and> last_sector dev' = 15523839)
   \<and> map_option (\<lambda>v. (next_state v, Status (g_trans v), Request (g_trans v), ErrorCode (g_trans v)))
        (Task_SD_Server_n cfg dead_bus 23 init_request)
      = Some (S_IDLE, STAT_IDLE, REQ_NONE, SD_NOINIT)
   \<and> map_option (\<lambda>v. (next_state v, Status (g_trans v), Request (g_trans v)))
        (Task_SD_Server_n cfg dead_bus 3 read_request) = Some (S_READ, STAT_BUSY, REQ_READ)
   \<and> map_option (\<lambda>v. (next_state v, Status (g_trans v), Request (g_trans v), ErrorCode (g_trans v)))
        (Task_SD_Server_n cfg dead_bus 4 read_request) = Some (S_IDLE, STAT_IDLE, REQ_NONE, SD_ERROR)
   \<and> (\<exists>n dev' st' mem' L'. Task_SD_Server_n cfg read_card_2A (Suc (Suc n)) read_request =
          Some (read_request\<lparr>cur_trans := g_trans read_request, res_static := SD_OK,
                  devs := (devs read_request)(0 := dev'), read_st := st', mem_of := mem',
                  spi := L', next_state := S_IDLE,
                  g_trans := (g_trans read_request)\<lparr>ErrorCode := SD_OK, Status := STAT_IDLE,
                                                      Request := REQ_NONE\<rparr>\<rparr>)
          \<and> map mem' [0, 1, 2, 511, 512] = [0, 1, 2, 255, 0] \<and> debug_read dev' = 1)
   \<and> map_option (\<lambda>v. (next_state v, Status (g_trans v), Request (g_trans v)))
        (Task_SD_Server_n cfg dead_bus 2 write_request) = Some (S_WRITE, STAT_BUSY, REQ_WRITE)
   \<and> map_option (\<lambda>v. (next_state v, Status (g_trans v), Request (g_trans v), ErrorCode (g_trans v)))
        (Task_SD_Server_n cfg dead_bus 3 write_request) = Some (S_IDLE, STAT_IDLE, REQ_NONE, SD_ERROR)
   \<and> (\<exists>n dev' st' L'. Task_SD_Server_n cfg write_card (Suc (Suc n)) write_request =
          Some (write_request\<lparr>cur_trans := g_trans write_request, res_static := SD_OK,
                  devs := (devs write_request)(0 := dev'), write_st := st', spi := L',
                  next_state := S_IDLE,
                  g_trans := (g_trans write_request)\<lparr>ErrorCode := SD_OK, Status := STAT_IDLE,
                                                      Request := REQ_NONE\<rparr>\<rparr>)
          \<and> debug_write dev' = 1)"
proof -
  let ?L1 = "[Call_Timer_Off, Call_RW 255, Call_Timer_On 5, Call_RW 1, Call_RW 0, Call_RW 0,
              Call_RW 0, Call_RW 0, Call_RW 81, Call_RW 255, Call_CS_Low, Call_RW 255,
              Call_CS_High]"
  let ?L2 = "Call_RW 0xFF # Call_Timer_On 100 # ?L1"
  let ?M = "\<lambda>a. if 0 \<le> a \<and> a < 0 + (min 514 (unat (0::WORD) + unat (512::WORD)) - unat (0::WORD))
                 then rx read_card_2A (Call_Timer_Off # polls 1 ?L2) (unat (0::WORD) + (a - 0))
                 else (0::BYTE)"
  have i1: "next_state init_request = S_IDLE" and q1: "Request (g_trans init_request) = REQ_INIT"
    and d1: "Device (g_trans init_request) = 0"
    by (simp_all add: init_request_def server_init_def)
  have i2: "next_state read_request = S_IDLE" and q2: "Request (g_trans read_request) = REQ_READ"
    and d2: "Device (g_trans read_request) = 0" "Data (g_trans read_request) = 0"
      "Sector (g_trans read_request) = 0" "devs read_request 0 = dev_one"
      "read_st read_request = read_statics_init" "mem_of read_request = (\<lambda>a. 0)"
      "spi read_request = []"
    by (simp_all add: read_request_def server_init_def dev_one_def)
  have i3: "next_state write_request = S_IDLE" and q3: "Request (g_trans write_request) = REQ_WRITE"
    and d3: "Device (g_trans write_request) = 0"
    by (simp_all add: write_request_def server_init_def)
  have a1: "map_option (\<lambda>v. (next_state v, Status (g_trans v), Request (g_trans v)))
        (Task_SD_Server_n cfg sdhc_2A 20 init_request) = Some (S_INIT, STAT_BUSY, REQ_INIT)"
    by code_simp
  have b1: "map_option (\<lambda>v. (next_state v, Status (g_trans v), Request (g_trans v), ErrorCode (g_trans v)))
        (Task_SD_Server_n cfg sdhc_2A 21 init_request) = Some (S_IDLE, STAT_IDLE, REQ_NONE, SD_OK)"
    by code_simp
  have e1: "map_option (\<lambda>v. (next_state v, Status (g_trans v), Request (g_trans v), ErrorCode (g_trans v)))
        (Task_SD_Server_n cfg dead_bus 23 init_request)
      = Some (S_IDLE, STAT_IDLE, REQ_NONE, SD_NOINIT)"
    by code_simp
  have a2: "map_option (\<lambda>v. (next_state v, Status (g_trans v), Request (g_trans v)))
        (Task_SD_Server_n cfg dead_bus 3 read_request) = Some (S_READ, STAT_BUSY, REQ_READ)"
    by code_simp
  have b2: "map_option (\<lambda>v. (next_state v, Status (g_trans v), Request (g_trans v), ErrorCode (g_trans v)))
        (Task_SD_Server_n cfg dead_bus 4 read_request) = Some (S_IDLE, STAT_IDLE, REQ_NONE, SD_ERROR)"
    by code_simp
  have a3: "map_option (\<lambda>v. (next_state v, Status (g_trans v), Request (g_trans v)))
        (Task_SD_Server_n cfg dead_bus 2 write_request) = Some (S_WRITE, STAT_BUSY, REQ_WRITE)"
    by code_simp
  have b3: "map_option (\<lambda>v. (next_state v, Status (g_trans v), Request (g_trans v), ErrorCode (g_trans v)))
        (Task_SD_Server_n cfg dead_bus 3 write_request) = Some (S_IDLE, STAT_IDLE, REQ_NONE, SD_ERROR)"
    by code_simp
  have r1: "map_option (\<lambda>(r, d, st, L). (r, mount d, last_sector d))
        (SD_Init_run_2A cfg sdhc_2A (devs init_request (Device (g_trans init_request)))
           (init_st init_request, spi init_request)) = Some (SD_OK, True, 15523839)"
    by code_simp
  have r3: "map_option (\<lambda>(r, d, st, L). (r, debug_write d))
        (SD_Write_run_2A cfg write_card (devs write_request (Device (g_trans write_request)))
           (Data (g_trans write_request)) (Sector (g_trans write_request)) (mem_of write_request)
           (write_st write_request, spi write_request)) = Some (SD_OK, 1)"
    by code_simp
  from q1 have q1': "Request (g_trans init_request) \<in> {REQ_INIT, REQ_READ, REQ_WRITE}" by simp
  from q2 have q2': "Request (g_trans read_request) \<in> {REQ_INIT, REQ_READ, REQ_WRITE}" by simp
  from q3 have q3': "Request (g_trans write_request) \<in> {REQ_INIT, REQ_READ, REQ_WRITE}" by simp
  from r1 obtain dev1 st1 L1 where
    run1: "SD_Init_run_2A cfg sdhc_2A (devs init_request (Device (g_trans init_request)))
           (init_st init_request, spi init_request) = Some (SD_OK, dev1, st1, L1)"
    and p1: "mount dev1" "last_sector dev1 = 15523839"
    by auto
  have p: "\<forall>i<1. miso read_card_2A (polls i ?L2) = 0xFF
              \<and> timer_running read_card_2A (Call_Timer_Status # polls i ?L2)"
    by (simp add: polls_def read_card_2A_def)
  have q: "miso read_card_2A (polls 1 ?L2) = 0xFE"
    by (simp add: polls_def read_card_2A_def)
  have "rn_state read_statics_init = S1" "0 \<le> last_sector dev_one" "(512::WORD) \<noteq> 0"
    by (simp_all add: read_statics_init_def)
  from SD_Read_run_2A_block [OF this read_card_2A_CMD17 refl p q, of 0 0 "\<lambda>a. 0"]
  obtain st2 where
    run2: "SD_Read_run_2A read_card_2A (devs read_request (Device (g_trans read_request)))
           (Data (g_trans read_request)) (Sector (g_trans read_request)) 0 512
           (read_st read_request, mem_of read_request, spi read_request)
           = Some (SD_OK, dev_one\<lparr>debug_read := debug_read dev_one + 1\<rparr>, st2, ?M,
                   Call_Release # replicate 514 (Call_RW 0xFF) @ Call_Timer_Off # polls 1 ?L2)"
    unfolding d2 by blast
  have p2: "map ?M [0, 1, 2, 511, 512] = [0, 1, 2, 255, 0]"
    "debug_read (dev_one\<lparr>debug_read := debug_read dev_one + 1\<rparr>) = 1"
    by (simp_all add: dev_one_def rx_def read_card_2A_def polls_def)
  from r3 obtain dev3 st3 L3 where
    run3: "SD_Write_run_2A cfg write_card (devs write_request (Device (g_trans write_request)))
           (Data (g_trans write_request)) (Sector (g_trans write_request)) (mem_of write_request)
           (write_st write_request, spi write_request) = Some (SD_OK, dev3, st3, L3)"
    and p3: "debug_write dev3 = 1"
    by auto
  note t1 = Task_SD_Server_transaction [OF i1 q1', of cfg sdhc_2A]
  note t2 = Task_SD_Server_transaction [OF i2 q2', of cfg read_card_2A]
  note t3 = Task_SD_Server_transaction [OF i3 q3', of cfg write_card]
  from t1 [THEN conjunct2, THEN conjunct2, THEN conjunct2, THEN conjunct1, rule_format,
      OF conjI, OF q1 run1] d1 p1
  have c1: "\<exists>n dev' st' L'. Task_SD_Server_n cfg sdhc_2A (Suc (Suc n)) init_request =
          Some (init_request\<lparr>cur_trans := g_trans init_request, res_static := SD_OK,
                  devs := (devs init_request)(0 := dev'), init_st := st', spi := L',
                  next_state := S_IDLE,
                  g_trans := (g_trans init_request)\<lparr>ErrorCode := SD_OK, Status := STAT_IDLE,
                                                      Request := REQ_NONE\<rparr>\<rparr>)
          \<and> mount dev' \<and> last_sector dev' = 15523839"
    by (simp only:) blast
  from t2 [THEN conjunct2, THEN conjunct2, THEN conjunct2, THEN conjunct2, THEN conjunct1,
      rule_format, OF conjI, OF q2 run2]
  obtain n2 where n2: "Task_SD_Server_n cfg read_card_2A (Suc (Suc n2)) read_request =
          Some (read_request\<lparr>cur_trans := g_trans read_request, res_static := SD_OK,
                  devs := (devs read_request)
                    (Device (g_trans read_request) :=
                       dev_one\<lparr>debug_read := debug_read dev_one + 1\<rparr>),
                  read_st := st2, mem_of := ?M,
                  spi := Call_Release # replicate 514 (Call_RW 0xFF) @ Call_Timer_Off # polls 1 ?L2,
                  next_state := S_IDLE,
                  g_trans := (g_trans read_request)\<lparr>ErrorCode := SD_OK, Status := STAT_IDLE,
                                                      Request := REQ_NONE\<rparr>\<rparr>)"
    by (elim exE conjE)
  have c2: "\<exists>n dev' st' mem' L'. Task_SD_Server_n cfg read_card_2A (Suc (Suc n)) read_request =
          Some (read_request\<lparr>cur_trans := g_trans read_request, res_static := SD_OK,
                  devs := (devs read_request)(0 := dev'), read_st := st', mem_of := mem',
                  spi := L', next_state := S_IDLE,
                  g_trans := (g_trans read_request)\<lparr>ErrorCode := SD_OK, Status := STAT_IDLE,
                                                      Request := REQ_NONE\<rparr>\<rparr>)
          \<and> map mem' [0, 1, 2, 511, 512] = [0, 1, 2, 255, 0] \<and> debug_read dev' = 1"
    using n2 [unfolded d2(1)] p2 by (intro exI conjI)
  from t3 [THEN conjunct2, THEN conjunct2, THEN conjunct2, THEN conjunct2, THEN conjunct2,
      rule_format, OF conjI, OF q3 run3] d3 p3
  have c3: "\<exists>n dev' st' L'. Task_SD_Server_n cfg write_card (Suc (Suc n)) write_request =
          Some (write_request\<lparr>cur_trans := g_trans write_request, res_static := SD_OK,
                  devs := (devs write_request)(0 := dev'), write_st := st', spi := L',
                  next_state := S_IDLE,
                  g_trans := (g_trans write_request)\<lparr>ErrorCode := SD_OK, Status := STAT_IDLE,
                                                      Request := REQ_NONE\<rparr>\<rparr>)
          \<and> debug_write dev' = 1"
    by (simp only:) blast
  show ?thesis
    by (intro conjI i1 q1 i2 q2 i3 q3 a1 b1 c1 e1 a2 b2 c2 a3 b3 c3)
qed

end
